theory Spec2Isabelle
  imports Complex_Main
begin

section \<open>Numeric values\<close>

text \<open>
  The solver front end \<^verbatim>\<open>mode_solver.py\<close> works on numpy arrays of complex numbers
  and on floating-point scalars. A finite floating-point number is the real (or
  complex) number it denotes; a numpy float may also be an infinity or not-a-number,
  so it is a value of \<open>npfloat\<close>. The arithmetic numpy performs on the overlap fractions
  (magnitude, square, sum, quotient, product) rounds, overflows and underflows, and
  numpy is not part of the source: these operations are a parameter of the model, the
  record \<open>numpy\<close> below. The magnitude of a field array and the group-index formula are
  written with the exact operations on real and complex numbers.
\<close>

datatype npfloat = Fin real | PInf | NInf | NaN

text \<open>A two-dimensional complex numpy array, row by row.\<close>

type_synonym field = "complex list list"

text \<open>
  Python exceptions raised by the front end itself, and the failures of the eigenmode
  engine. Modelled from the spec: the five engine failures (\<open>IllPosedBoundaryError\<close> to
  \<open>DimensionMismatchError\<close>) are the taxonomy of the specification; the engine module
  \<^verbatim>\<open>_mode_solver_lib\<close> that would raise them is not part of the source at hand.
\<close>

datatype error =
    IllPosedBoundaryError
  | GridTooSmallError
  | NonConvergenceError
  | InsufficientEigenpairsError
  | DimensionMismatchError
  | IndexError
  | KeyError
  | TypeError
  | ValueError
  | AttributeError

text \<open>\<^verbatim>\<open>np.abs(a)\<close> on an array: the element-wise magnitude.\<close>

definition np_abs :: "field \<Rightarrow> field" where
  "np_abs a = map (map (\<lambda>z. complex_of_real (cmod z))) a"

text \<open>
  The numpy operations on floating-point numbers that the overlap computation uses:
  \<^verbatim>\<open>np.abs\<close> of one complex entry, \<^verbatim>\<open>**2\<close>, \<^verbatim>\<open>np.sum\<close> of the entries of an array,
  \<^verbatim>\<open>/\<close> and \<^verbatim>\<open>*\<close>.
\<close>

record numpy =
  np_abs_of :: "complex \<Rightarrow> npfloat"
  np_square :: "npfloat \<Rightarrow> npfloat"
  np_sum :: "npfloat list \<Rightarrow> npfloat"
  np_divide :: "npfloat \<Rightarrow> npfloat \<Rightarrow> npfloat"
  np_multiply :: "npfloat \<Rightarrow> npfloat \<Rightarrow> npfloat"

text \<open>
  \<^verbatim>\<open>np.sum(np.abs(e)**2)\<close>: the energy of one field component, the magnitude of every
  entry of the grid squared and all of them summed.
\<close>

definition energy :: "numpy \<Rightarrow> field \<Rightarrow> npfloat" where
  "energy np e = np_sum np (map (\<lambda>z. np_square np (np_abs_of np z)) (concat e))"

text \<open>The IEEE comparison \<^verbatim>\<open>a <= b\<close>: false as soon as one side is NaN.\<close>

fun np_le :: "npfloat \<Rightarrow> npfloat \<Rightarrow> bool" where
  "np_le NaN _ = False"
| "np_le _ NaN = False"
| "np_le NInf _ = True"
| "np_le _ PInf = True"
| "np_le (Fin a) (Fin b) = (a \<le> b)"
| "np_le (Fin a) NInf = False"
| "np_le PInf (Fin b) = False"
| "np_le PInf NInf = False"

text \<open>
  \<^verbatim>\<open>np.argmax\<close> on a one-dimensional float array: numpy scans from the left, keeps the
  first element that is not \<^verbatim>\<open><=\<close> the running maximum, and stops at the first NaN.
  An empty array raises \<^verbatim>\<open>ValueError\<close>.
\<close>

fun argmax_scan :: "npfloat \<Rightarrow> nat \<Rightarrow> nat \<Rightarrow> npfloat list \<Rightarrow> nat" where
  "argmax_scan mp max_ind i [] = max_ind"
| "argmax_scan mp max_ind i (x # xs) =
     (if mp = NaN then max_ind
      else if \<not> np_le x mp then argmax_scan x i (Suc i) xs
      else argmax_scan mp max_ind (Suc i) xs)"

definition np_argmax :: "npfloat list \<Rightarrow> error + nat" where
  "np_argmax a = (case a of [] \<Rightarrow> Inl ValueError | x # xs \<Rightarrow> Inr (argmax_scan x 0 1 xs))"

text \<open>Rounding to the nearest integer, ties to the even one (\<^verbatim>\<open>rint\<close>).\<close>

definition rint :: "real \<Rightarrow> int" where
  "rint x =
     (let f = \<lfloor>x\<rfloor>; r = x - of_int f
      in if r < 1 / 2 then f
         else if 1 / 2 < r then f + 1
         else if even f then f else f + 1)"

definition np_rint :: "npfloat \<Rightarrow> npfloat" where
  "np_rint v = (case v of Fin r \<Rightarrow> Fin (real_of_int (rint r)) | PInf \<Rightarrow> PInf | NInf \<Rightarrow> NInf | NaN \<Rightarrow> NaN)"

text \<open>
  \<^verbatim>\<open>np.round(x, decimals)\<close> with non-negative \<open>decimals\<close>, the way numpy computes it: the
  floating-point product of \<open>x\<close> and \<open>10 ^ decimals\<close> is rounded to the nearest integer
  (exactly, ties to even) and divided, in floating point, by \<open>10 ^ decimals\<close>.
\<close>

definition np_round :: "numpy \<Rightarrow> npfloat \<Rightarrow> nat \<Rightarrow> npfloat" where
  "np_round np v decimals =
     np_divide np (np_rint (np_multiply np v (Fin (10 ^ decimals)))) (Fin (10 ^ decimals))"

section \<open>Data model\<close>

text \<open>
  What the engine's \<^verbatim>\<open>solve\<close> leaves on the engine object: the effective indices
  \<^verbatim>\<open>neff\<close> and the list \<^verbatim>\<open>modes\<close>. The engine (\<^verbatim>\<open>_mode_solver_lib\<close>) is not in the
  source at hand, so it is a parameter of every definition that calls it.
\<close>

record 'm eigen_result =
  res_neff :: "complex list"
  res_modes :: "'m list"

text \<open>
  The engine object \<^verbatim>\<open>self._ms\<close> after its \<^verbatim>\<open>solve\<close>: \<^verbatim>\<open>neff\<close>, and \<^verbatim>\<open>modes\<close> as the
  address of a Python list in the object store.
\<close>

record engine_object =
  neff :: "complex list"
  modes_at :: nat

text \<open>A mode object of the fully-vectorial engine: its dictionary \<^verbatim>\<open>fields\<close>.\<close>

record mode =
  mode_fields :: "string \<rightharpoonup> field"

text \<open>
  The dictionary \<^verbatim>\<open>r\<close> a solve returns: \<^verbatim>\<open>r['n_effs']\<close> and, when present, \<^verbatim>\<open>r['modes']\<close>,
  a reference to a list in the object store (not a copy).
\<close>

record solve_result =
  r_n_effs :: "complex list"
  r_modes :: "nat option"

text \<open>One invocation of the engine's \<^verbatim>\<open>solve\<close>, as the front end issues it.\<close>

record 's eigensolve_call =
  call_structure :: 's
  call_wavelength :: real
  call_initial_mode_guess :: "field option"
  call_n_eff_guess :: "real option"

text \<open>
  The attributes of \<^verbatim>\<open>_ModeSolver\<close> (\<^verbatim>\<open>_path\<close>, used for plotting only, is left out),
  together with the two parts of the interpreter state the solver acts on: \<open>heap\<close>, the
  store of mode lists (an address is an index; allocation appends), and \<open>eigensolves\<close>,
  the trace of engine invocations in the order they were issued.
\<close>

record ('s, 'm) ModeSolver =
  n_eigs :: int
  tol :: real
  boundary :: string
  mode_profiles :: bool
  initial_mode_guess :: "field option"
  n_eff_guess :: "real option"
  n_effs :: "complex list option"
  modes :: "nat option"
  mode_types :: "(string \<times> npfloat) list option"
  overlaps :: "npfloat list list option"
  the_structure :: "'s option"
  ms :: "engine_object option"
  heap :: "'m list list"
  eigensolves :: "'s eigensolve_call list"

record 's ModeSolverSemiVectorial = "('s, field) ModeSolver" +
  semi_vectorial_method :: string

type_synonym 's ModeSolverFullyVectorial = "('s, mode) ModeSolver"

section \<open>Construction\<close>

text \<open>
  \<^verbatim>\<open>_ModeSolver.__init__\<close> stores its arguments and sets the four result attributes to
  \<^verbatim>\<open>None\<close>; \<^verbatim>\<open>int(n_eigs)\<close> is the identity on an integer argument. It has no failing
  branch. The attributes \<^verbatim>\<open>_structure\<close> and \<^verbatim>\<open>_ms\<close> do not exist before the first solve.
\<close>

definition ModeSolver_init ::
  "int \<Rightarrow> real \<Rightarrow> string \<Rightarrow> bool \<Rightarrow> field option \<Rightarrow> real option \<Rightarrow> ('s, 'm) ModeSolver" where
  "ModeSolver_init n_eigs' tol' boundary' mode_profiles' initial_mode_guess' n_eff_guess' =
     \<lparr> n_eigs = n_eigs', tol = tol', boundary = boundary',
       mode_profiles = mode_profiles', initial_mode_guess = initial_mode_guess',
       n_eff_guess = n_eff_guess',
       n_effs = None, modes = None, mode_types = None, overlaps = None,
       the_structure = None, ms = None, heap = [], eigensolves = [] \<rparr>"

text \<open>
  \<^verbatim>\<open>ModeSolverSemiVectorial.__init__\<close>: stores the method, then calls the base
  constructor without \<^verbatim>\<open>n_eff_guess\<close>, which takes its default \<^verbatim>\<open>None\<close>.
\<close>

definition ModeSolverSemiVectorial_init ::
  "int \<Rightarrow> real \<Rightarrow> string \<Rightarrow> bool \<Rightarrow> field option \<Rightarrow> string \<Rightarrow> 's ModeSolverSemiVectorial" where
  "ModeSolverSemiVectorial_init n_eigs' tol' boundary' mode_profiles' initial_mode_guess'
       semi_vectorial_method' =
     ModeSolver.extend
       (ModeSolver_init n_eigs' tol' boundary' mode_profiles' initial_mode_guess' None)
       (ModeSolverSemiVectorial.fields semi_vectorial_method')"

text \<open>
  \<^verbatim>\<open>ModeSolverFullyVectorial.__init__\<close>: the base constructor with \<^verbatim>\<open>mode_profiles\<close>
  fixed to \<^verbatim>\<open>False\<close>.
\<close>

definition ModeSolverFullyVectorial_init ::
  "int \<Rightarrow> real \<Rightarrow> string \<Rightarrow> field option \<Rightarrow> real option \<Rightarrow> 's ModeSolverFullyVectorial" where
  "ModeSolverFullyVectorial_init n_eigs' tol' boundary' initial_mode_guess' n_eff_guess' =
     ModeSolver_init n_eigs' tol' boundary' False initial_mode_guess' n_eff_guess'"

section \<open>Polarisation overlaps and mode types\<close>

text \<open>
  The body of the loop of \<^verbatim>\<open>_get_overlaps\<close> for one mode. A missing dictionary key
  raises \<^verbatim>\<open>KeyError\<close>. The three energies of a triplet are divided by their sum and
  multiplied by 100; nothing checks that the sum is not zero.
\<close>

definition normalise_areas :: "numpy \<Rightarrow> npfloat list \<Rightarrow> npfloat list" where
  "normalise_areas np areas =
     map (\<lambda>v. np_multiply np v (Fin 100)) (map (\<lambda>x. np_divide np x (np_sum np areas)) areas)"

definition mode_areas :: "numpy \<Rightarrow> mode \<Rightarrow> error + npfloat list" where
  "mode_areas np m =
     (case mode_fields m ''Ex'' of None \<Rightarrow> Inl KeyError | Some ex \<Rightarrow>
     (case mode_fields m ''Ey'' of None \<Rightarrow> Inl KeyError | Some ey \<Rightarrow>
     (case mode_fields m ''Ez'' of None \<Rightarrow> Inl KeyError | Some ez \<Rightarrow>
     (case mode_fields m ''Hx'' of None \<Rightarrow> Inl KeyError | Some hx \<Rightarrow>
     (case mode_fields m ''Hy'' of None \<Rightarrow> Inl KeyError | Some hy \<Rightarrow>
     (case mode_fields m ''Hz'' of None \<Rightarrow> Inl KeyError | Some hz \<Rightarrow>
        (let areas_e = normalise_areas np [energy np ex, energy np ey, energy np ez];
             areas_h = normalise_areas np [energy np hx, energy np hy, energy np hz]
         in Inr (areas_e @ areas_h))))))))"

fun overlaps_loop ::
  "numpy \<Rightarrow> mode list \<Rightarrow> npfloat list list \<Rightarrow> error + npfloat list list" where
  "overlaps_loop np [] mode_areas_acc = Inr mode_areas_acc"
| "overlaps_loop np (m # rest) mode_areas_acc =
     (case mode_areas np m of
        Inl e \<Rightarrow> Inl e
      | Inr areas \<Rightarrow> overlaps_loop np rest (mode_areas_acc @ [areas]))"

text \<open>
  \<^verbatim>\<open>_get_overlaps(self, fields)\<close> ignores its argument and reads \<^verbatim>\<open>self._ms.modes\<close>.
\<close>

definition get_overlaps ::
  "numpy \<Rightarrow> ('s, mode, 'z) ModeSolver_scheme \<Rightarrow> nat option \<Rightarrow> error + npfloat list list" where
  "get_overlaps np self fields_arg =
     (case ms self of
        None \<Rightarrow> Inl AttributeError
      | Some eng \<Rightarrow>
          if modes_at eng < length (heap self)
          then overlaps_loop np (heap self ! modes_at eng) []
          else Inl TypeError)"

definition labels :: "nat \<rightharpoonup> string" where
  "labels = [0 \<mapsto> ''qTE'', 1 \<mapsto> ''qTM'', 2 \<mapsto> ''qTE/qTM'']"

text \<open>The body of the loop of \<^verbatim>\<open>_get_mode_types\<close> for one overlap vector.\<close>

definition mode_type_of :: "numpy \<Rightarrow> npfloat list \<Rightarrow> error + (string \<times> npfloat)" where
  "mode_type_of np overlap =
     (case np_argmax (take 3 overlap) of
        Inl e \<Rightarrow> Inl e
      | Inr idx \<Rightarrow>
          (case labels idx of
             None \<Rightarrow> Inl KeyError
           | Some label \<Rightarrow>
               if idx < length overlap then Inr (label, np_round np (overlap ! idx) 2)
               else Inl IndexError))"

fun mode_types_loop ::
  "numpy \<Rightarrow> npfloat list list \<Rightarrow> (string \<times> npfloat) list \<Rightarrow>
   error + (string \<times> npfloat) list" where
  "mode_types_loop np [] acc = Inr acc"
| "mode_types_loop np (overlap # rest) acc =
     (case mode_type_of np overlap of
        Inl e \<Rightarrow> Inl e
      | Inr t \<Rightarrow> mode_types_loop np rest (acc @ [t]))"

definition get_mode_types ::
  "numpy \<Rightarrow> ('s, 'm, 'z) ModeSolver_scheme \<Rightarrow> error + (string \<times> npfloat) list" where
  "get_mode_types np self =
     (case overlaps self of
        None \<Rightarrow> Inl TypeError
      | Some ovs \<Rightarrow> mode_types_loop np ovs [])"

section \<open>Single-point solves\<close>

text \<open>
  \<^verbatim>\<open>ModeSolverSemiVectorial._solve\<close>. The engine is given by its constructor \<open>ms_new\<close>
  and its method \<open>ms_solve\<close>. A solve returns the outcome (the dictionary \<^verbatim>\<open>r\<close>, or the
  exception that escapes) and the state it leaves behind. The list \<^verbatim>\<open>self._ms.modes\<close>
  is allocated in the store; \<^verbatim>\<open>r['modes']\<close>, \<^verbatim>\<open>self._ms.modes\<close> and \<^verbatim>\<open>self.modes\<close> all
  refer to that one list, whose entry 0 is overwritten with its magnitude.
\<close>

definition sv_solve ::
  "(real \<Rightarrow> 's \<Rightarrow> string \<Rightarrow> string \<Rightarrow> error + 'e) \<Rightarrow>
   ('e \<Rightarrow> int \<Rightarrow> real \<Rightarrow> bool \<Rightarrow> field option \<Rightarrow> error + field eigen_result) \<Rightarrow>
   's ModeSolverSemiVectorial \<Rightarrow> 's \<Rightarrow> real \<Rightarrow>
   (error + solve_result) \<times> 's ModeSolverSemiVectorial" where
  "sv_solve ms_new ms_solve self structure' wavelength =
     (let self1 = self\<lparr>the_structure := Some structure'\<rparr> in
      case ms_new wavelength structure' (boundary self1) (semi_vectorial_method self1) of
        Inl e \<Rightarrow> (Inl e, self1)
      | Inr eng \<Rightarrow>
         (let self2 = self1\<lparr>ms := None,
                 eigensolves := eigensolves self1 @
                   [\<lparr>call_structure = structure', call_wavelength = wavelength,
                     call_initial_mode_guess = initial_mode_guess self1,
                     call_n_eff_guess = None\<rparr>]\<rparr> in
          case ms_solve eng (n_eigs self2) (tol self2) (mode_profiles self2)
                 (initial_mode_guess self2) of
            Inl e \<Rightarrow> (Inl e, self2)
          | Inr res \<Rightarrow>
             (let a = length (heap self2);
                  self3 = self2\<lparr>heap := heap self2 @ [res_modes res],
                               ms := Some \<lparr>neff = res_neff res, modes_at = a\<rparr>\<rparr>;
                  self4 = self3\<lparr>n_effs := Some (res_neff res)\<rparr>;
                  r = \<lparr>r_n_effs = res_neff res, r_modes = None\<rparr>
              in if mode_profiles self4 then
                   (let r' = r\<lparr>r_modes := Some a\<rparr> in
                    case heap self4 ! a of
                      [] \<Rightarrow> (Inl IndexError, self4)
                    | m0 # others \<Rightarrow>
                       (let self5 = self4\<lparr>heap := (heap self4)[a := np_abs m0 # others]\<rparr>;
                            self6 = self5\<lparr>initial_mode_guess :=
                                       Some (np_abs (heap self5 ! a ! 0))\<rparr>
                        in (Inr r', self6\<lparr>modes := Some a\<rparr>)))
                 else (Inr r, self4\<lparr>modes := Some a\<rparr>))))"

text \<open>\<^verbatim>\<open>ModeSolverFullyVectorial._solve\<close>, with the numpy arithmetic as its first argument.\<close>

definition fv_solve ::
  "numpy \<Rightarrow> (real \<Rightarrow> 's \<Rightarrow> string \<Rightarrow> error + 'e) \<Rightarrow>
   ('e \<Rightarrow> int \<Rightarrow> real \<Rightarrow> real option \<Rightarrow> field option \<Rightarrow> error + mode eigen_result) \<Rightarrow>
   's ModeSolverFullyVectorial \<Rightarrow> 's \<Rightarrow> real \<Rightarrow>
   (error + solve_result) \<times> 's ModeSolverFullyVectorial" where
  "fv_solve np ms_new ms_solve self structure' wavelength =
     (let self1 = self\<lparr>the_structure := Some structure'\<rparr> in
      case ms_new wavelength structure' (boundary self1) of
        Inl e \<Rightarrow> (Inl e, self1)
      | Inr eng \<Rightarrow>
         (let self2 = self1\<lparr>ms := None,
                 eigensolves := eigensolves self1 @
                   [\<lparr>call_structure = structure', call_wavelength = wavelength,
                     call_initial_mode_guess = initial_mode_guess self1,
                     call_n_eff_guess = n_eff_guess self1\<rparr>]\<rparr> in
          case ms_solve eng (n_eigs self2) (tol self2) (n_eff_guess self2)
                 (initial_mode_guess self2) of
            Inl e \<Rightarrow> (Inl e, self2)
          | Inr res \<Rightarrow>
             (let a = length (heap self2);
                  self3 = self2\<lparr>heap := heap self2 @ [res_modes res],
                               ms := Some \<lparr>neff = res_neff res, modes_at = a\<rparr>\<rparr>;
                  self4 = self3\<lparr>n_effs := Some (res_neff res)\<rparr>;
                  r = \<lparr>r_n_effs = res_neff res, r_modes = Some a\<rparr>;
                  self5 = self4\<lparr>modes := Some a\<rparr>
              in case get_overlaps np self5 (modes self5) of
                   Inl e \<Rightarrow> (Inl e, self5)
                 | Inr ovs \<Rightarrow>
                    (let self6 = self5\<lparr>overlaps := Some ovs\<rparr> in
                     case get_mode_types np self6 of
                       Inl e \<Rightarrow> (Inl e, self6)
                     | Inr mts \<Rightarrow>
                        (Inr r, self6\<lparr>mode_types := Some mts,
                                      initial_mode_guess := None\<rparr>)))))"

text \<open>
  \<^verbatim>\<open>solve\<close> calls the abstract method \<^verbatim>\<open>_solve\<close>; the subclass's implementation is the
  first argument.
\<close>

definition solve ::
  "('st \<Rightarrow> 's \<Rightarrow> real \<Rightarrow> (error + solve_result) \<times> 'st) \<Rightarrow>
   'st \<Rightarrow> 's \<Rightarrow> real \<Rightarrow> (error + solve_result) \<times> 'st" where
  "solve solve_impl self structure' wavelength = solve_impl self structure' wavelength"

section \<open>Sweeps\<close>

text \<open>
  \<^verbatim>\<open>_write_n_effs_to_file\<close>: one row per entry, holding the abscissa (the wavelength
  \<^verbatim>\<open>x_vals[i]\<close>, or the index \<^verbatim>\<open>i\<close>) and the real part of the first effective index.
  The rows stand for the text written; an empty \<^verbatim>\<open>n_effs\<close> entry raises \<^verbatim>\<open>IndexError\<close>.
\<close>

fun write_n_effs_rows ::
  "nat \<Rightarrow> solve_result list \<Rightarrow> real list option \<Rightarrow> error + (real \<times> real) list" where
  "write_n_effs_rows i [] x_vals = Inr []"
| "write_n_effs_rows i (info # rest) x_vals =
     (case (case x_vals of
              None \<Rightarrow> Inr (real i)
            | Some xs \<Rightarrow> if i < length xs then Inr (xs ! i) else Inl IndexError) of
        Inl e \<Rightarrow> Inl e
      | Inr x \<Rightarrow>
         (case r_n_effs info of
            [] \<Rightarrow> Inl IndexError
          | n0 # _ \<Rightarrow>
             (case write_n_effs_rows (Suc i) rest x_vals of
                Inl e \<Rightarrow> Inl e
              | Inr rows \<Rightarrow> Inr ((x, Re n0) # rows))))"

definition write_n_effs_to_file ::
  "solve_result list \<Rightarrow> string \<Rightarrow> real list option \<Rightarrow> error + (real \<times> real) list" where
  "write_n_effs_to_file n_effs' filename x_vals = write_n_effs_rows 0 n_effs' x_vals"

text \<open>
  The loop of both sweeps: one solve per element, in order, each result appended to the
  local list \<^verbatim>\<open>n_effs\<close>. Nothing catches an exception of a solve: it leaves the loop and
  the method, and the local list goes with it.
\<close>

fun sweep_structure_loop ::
  "('st \<Rightarrow> 's \<Rightarrow> real \<Rightarrow> (error + solve_result) \<times> 'st) \<Rightarrow>
   'st \<Rightarrow> 's list \<Rightarrow> real \<Rightarrow> solve_result list \<Rightarrow> (error + solve_result list) \<times> 'st" where
  "sweep_structure_loop solve_impl self [] wavelength n_effs' = (Inr n_effs', self)"
| "sweep_structure_loop solve_impl self (s # rest) wavelength n_effs' =
     (case solve solve_impl self s wavelength of
        (Inl e, self') \<Rightarrow> (Inl e, self')
      | (Inr r, self') \<Rightarrow> sweep_structure_loop solve_impl self' rest wavelength (n_effs' @ [r]))"

fun sweep_wavelength_loop ::
  "('st \<Rightarrow> 's \<Rightarrow> real \<Rightarrow> (error + solve_result) \<times> 'st) \<Rightarrow>
   'st \<Rightarrow> 's \<Rightarrow> real list \<Rightarrow> solve_result list \<Rightarrow> (error + solve_result list) \<times> 'st" where
  "sweep_wavelength_loop solve_impl self structure' [] n_effs' = (Inr n_effs', self)"
| "sweep_wavelength_loop solve_impl self structure' (w # rest) n_effs' =
     (case solve solve_impl self structure' w of
        (Inl e, self') \<Rightarrow> (Inl e, self')
      | (Inr r, self') \<Rightarrow> sweep_wavelength_loop solve_impl self' structure' rest (n_effs' @ [r]))"

text \<open>
  \<^verbatim>\<open>solve_sweep_structure\<close> and \<^verbatim>\<open>solve_sweep_wavelength\<close>. A non-empty \<^verbatim>\<open>filename\<close> makes
  the sweep write its summary; plotting is an external collaborator and has no part
  in the value returned.
\<close>

definition solve_sweep_structure ::
  "('st \<Rightarrow> 's \<Rightarrow> real \<Rightarrow> (error + solve_result) \<times> 'st) \<Rightarrow>
   'st \<Rightarrow> 's list \<Rightarrow> real \<Rightarrow> string \<Rightarrow> bool \<Rightarrow> (error + solve_result list) \<times> 'st" where
  "solve_sweep_structure solve_impl self structures wavelength filename plot =
     (case sweep_structure_loop solve_impl self structures wavelength [] of
        (Inl e, self') \<Rightarrow> (Inl e, self')
      | (Inr n_effs', self') \<Rightarrow>
          if filename \<noteq> [] then
            (case write_n_effs_to_file n_effs' filename None of
               Inl e \<Rightarrow> (Inl e, self')
             | Inr _ \<Rightarrow> (Inr n_effs', self'))
          else (Inr n_effs', self'))"

definition solve_sweep_wavelength ::
  "('st \<Rightarrow> 's \<Rightarrow> real \<Rightarrow> (error + solve_result) \<times> 'st) \<Rightarrow>
   'st \<Rightarrow> 's \<Rightarrow> real list \<Rightarrow> string \<Rightarrow> bool \<Rightarrow> (error + solve_result list) \<times> 'st" where
  "solve_sweep_wavelength solve_impl self structure' wavelengths filename plot =
     (case sweep_wavelength_loop solve_impl self structure' wavelengths [] of
        (Inl e, self') \<Rightarrow> (Inl e, self')
      | (Inr n_effs', self') \<Rightarrow>
          if filename \<noteq> [] then
            (case write_n_effs_to_file n_effs' filename (Some wavelengths) of
               Inl e \<Rightarrow> (Inl e, self')
             | Inr _ \<Rightarrow> (Inr n_effs', self'))
          else (Inr n_effs', self'))"

section \<open>Group index\<close>

text \<open>
  A numpy complex scalar: a complex number, or a value with an infinite or
  not-a-number component.
\<close>

datatype npcomplex = FinC complex | NonFiniteC

text \<open>
  The loop of \<^verbatim>\<open>solve_ng\<close> over \<^verbatim>\<open>zip(n_ctrs, n_bcks, n_frws)\<close>, which stops with the
  shortest of the three. The effective indices are numpy scalars, so dividing by
  \<^verbatim>\<open>2*wavelength_step = 0\<close> raises nothing: numpy warns and the quotient, hence the
  entry, is not finite.
\<close>

fun ng_loop ::
  "real \<Rightarrow> real \<Rightarrow> (complex \<times> complex \<times> complex) list \<Rightarrow> npcomplex list \<Rightarrow>
   npcomplex list" where
  "ng_loop wavelength wavelength_step [] n_gs = n_gs"
| "ng_loop wavelength wavelength_step ((n_ctr, n_bck, n_frw) # rest) n_gs =
     ng_loop wavelength wavelength_step rest
       (n_gs @ [if 2 * wavelength_step = 0 then NonFiniteC
                else FinC (n_ctr - complex_of_real wavelength * (n_frw - n_bck)
                                     / complex_of_real (2 * wavelength_step))])"

text \<open>
  \<^verbatim>\<open>solve_ng\<close>: three solves on the same solver object, one after the other, reading
  \<^verbatim>\<open>self.n_effs\<close> after each. Iterating over \<^verbatim>\<open>None\<close> raises \<^verbatim>\<open>TypeError\<close>.
\<close>

definition solve_ng ::
  "(('s, 'm, 'z) ModeSolver_scheme \<Rightarrow> 's \<Rightarrow> real \<Rightarrow>
      (error + solve_result) \<times> ('s, 'm, 'z) ModeSolver_scheme) \<Rightarrow>
   ('s, 'm, 'z) ModeSolver_scheme \<Rightarrow> 's \<Rightarrow> 's \<Rightarrow> 's \<Rightarrow> real \<Rightarrow> real \<Rightarrow>
   (error + npcomplex list) \<times> ('s, 'm, 'z) ModeSolver_scheme" where
  "solve_ng solve_impl self structure_ctr structure_bck structure_frw wavelength
       wavelength_step =
     (case solve solve_impl self structure_ctr wavelength of
        (Inl e, self1) \<Rightarrow> (Inl e, self1)
      | (Inr _, self1) \<Rightarrow>
     (case solve solve_impl self1 structure_bck (wavelength - wavelength_step) of
        (Inl e, self2) \<Rightarrow> (Inl e, self2)
      | (Inr _, self2) \<Rightarrow>
     (case solve solve_impl self2 structure_frw (wavelength + wavelength_step) of
        (Inl e, self3) \<Rightarrow> (Inl e, self3)
      | (Inr _, self3) \<Rightarrow>
         (case (n_effs self1, n_effs self2, n_effs self3) of
            (Some n_ctrs, Some n_bcks, Some n_frws) \<Rightarrow>
              (Inr (ng_loop wavelength wavelength_step (zip n_ctrs (zip n_bcks n_frws)) []),
               self3)
          | _ \<Rightarrow> (Inl TypeError, self3)))))"

section \<open>Exact arithmetic, and what is assumed of numpy\<close>

text \<open>
  One instance of the numpy operations, used to run examples: every operation is
  carried out exactly on the reals (numpy itself rounds to double precision), with
  the IEEE 754 results for infinities, not-a-number and division by zero.
\<close>

fun ideal_add :: "npfloat \<Rightarrow> npfloat \<Rightarrow> npfloat" where
  "ideal_add NaN _ = NaN"
| "ideal_add _ NaN = NaN"
| "ideal_add (Fin a) (Fin b) = Fin (a + b)"
| "ideal_add PInf NInf = NaN"
| "ideal_add NInf PInf = NaN"
| "ideal_add PInf _ = PInf"
| "ideal_add _ PInf = PInf"
| "ideal_add NInf _ = NInf"
| "ideal_add _ NInf = NInf"

definition ideal_sum :: "npfloat list \<Rightarrow> npfloat" where
  "ideal_sum xs = foldl ideal_add (Fin 0) xs"

fun ideal_square :: "npfloat \<Rightarrow> npfloat" where
  "ideal_square (Fin r) = Fin (r\<^sup>2)"
| "ideal_square NaN = NaN"
| "ideal_square _ = PInf"

fun ideal_divide :: "npfloat \<Rightarrow> npfloat \<Rightarrow> npfloat" where
  "ideal_divide NaN _ = NaN"
| "ideal_divide _ NaN = NaN"
| "ideal_divide (Fin x) (Fin t) =
     (if t \<noteq> 0 then Fin (x / t)
      else if 0 < x then PInf
      else if x < 0 then NInf
      else NaN)"
| "ideal_divide (Fin x) _ = Fin 0"
| "ideal_divide PInf (Fin t) = (if 0 \<le> t then PInf else NInf)"
| "ideal_divide NInf (Fin t) = (if 0 \<le> t then NInf else PInf)"
| "ideal_divide _ _ = NaN"

fun ideal_multiply :: "npfloat \<Rightarrow> npfloat \<Rightarrow> npfloat" where
  "ideal_multiply NaN _ = NaN"
| "ideal_multiply _ NaN = NaN"
| "ideal_multiply (Fin a) (Fin b) = Fin (a * b)"
| "ideal_multiply (Fin a) PInf = (if a = 0 then NaN else if 0 < a then PInf else NInf)"
| "ideal_multiply (Fin a) NInf = (if a = 0 then NaN else if 0 < a then NInf else PInf)"
| "ideal_multiply PInf (Fin b) = (if b = 0 then NaN else if 0 < b then PInf else NInf)"
| "ideal_multiply NInf (Fin b) = (if b = 0 then NaN else if 0 < b then NInf else PInf)"
| "ideal_multiply PInf PInf = PInf"
| "ideal_multiply NInf NInf = PInf"
| "ideal_multiply PInf NInf = NInf"
| "ideal_multiply NInf PInf = NInf"

definition ideal_numpy :: numpy where
  "ideal_numpy =
     \<lparr>np_abs_of = (\<lambda>z. Fin (cmod z)), np_square = ideal_square, np_sum = ideal_sum,
      np_divide = ideal_divide, np_multiply = ideal_multiply\<rparr>"

text \<open>
  Facts of IEEE 754 arithmetic about zero and the non-finite values, which hold of
  numpy on doubles whatever the rounding: the magnitude of zero, the square of zero and
  a sum of zeros are zero; zero divided by zero is not-a-number; nothing divided by
  zero is finite; a product with a non-finite factor is not finite, and not-a-number
  times anything is not-a-number.
\<close>

definition ieee_special_cases :: "numpy \<Rightarrow> bool" where
  "ieee_special_cases np \<longleftrightarrow>
     np_abs_of np 0 = Fin 0 \<and>
     np_square np (Fin 0) = Fin 0 \<and>
     (\<forall>n. np_sum np (replicate n (Fin 0)) = Fin 0) \<and>
     np_divide np (Fin 0) (Fin 0) = NaN \<and>
     (\<forall>x r. np_divide np x (Fin 0) \<noteq> Fin r) \<and>
     (\<forall>c. np_multiply np NaN c = NaN) \<and>
     (\<forall>v c r. np_multiply np v c = Fin r \<longrightarrow> (\<exists>s. v = Fin s))"

text \<open>\<open>x\<close> equals \<open>y\<close> up to the relative error \<open>u\<close>.\<close>

definition near :: "real \<Rightarrow> real \<Rightarrow> real \<Rightarrow> bool" where
  "near u x y \<longleftrightarrow> \<bar>x - y\<bar> \<le> u * \<bar>y\<bar>"

text \<open>
  The operations that the overlap computation performs on one triplet of fields are
  accurate to the relative error \<open>u\<close>: each \<^verbatim>\<open>np.sum(np.abs(e)**2)\<close> is finite and near the sum
  of \<open>|z|\<^sup>2\<close> over the grid, the sum of the three is finite and near the exact sum, and each
  quotient and each product by 100 is finite and near the exact one. On doubles this holds
  with a small \<open>u\<close> as long as nothing overflows or underflows.
\<close>

definition triplet_accurate :: "numpy \<Rightarrow> real \<Rightarrow> field \<Rightarrow> field \<Rightarrow> field \<Rightarrow> bool" where
  "triplet_accurate np u f g h \<longleftrightarrow>
     (\<exists>a b c t.
        np_sum np (map (\<lambda>z. np_square np (np_abs_of np z)) (concat f)) = Fin a \<and>
        near u a (\<Sum>z\<leftarrow>concat f. (cmod z)\<^sup>2) \<and>
        np_sum np (map (\<lambda>z. np_square np (np_abs_of np z)) (concat g)) = Fin b \<and>
        near u b (\<Sum>z\<leftarrow>concat g. (cmod z)\<^sup>2) \<and>
        np_sum np (map (\<lambda>z. np_square np (np_abs_of np z)) (concat h)) = Fin c \<and>
        near u c (\<Sum>z\<leftarrow>concat h. (cmod z)\<^sup>2) \<and>
        np_sum np [Fin a, Fin b, Fin c] = Fin t \<and> near u t (a + b + c) \<and>
        (\<forall>x \<in> {a, b, c}. \<exists>q p.
           np_divide np (Fin x) (Fin t) = Fin q \<and> near u q (x / t) \<and>
           np_multiply np (Fin q) (Fin 100) = Fin p \<and> near u p (q * 100)))"

section \<open>Example engines\<close>

text \<open>
  Concrete engines on which the solvers can be run. A structure is a natural number;
  the eigensolver does not converge on structure 0, nor at a wavelength that is not
  positive.

  Modelled from the spec: the engine constructor \<open>checked_sv_new\<close> (and \<open>checked_fv_new\<close>)
  rejects a boundary code that does not have exactly four symbols with
  \<open>IllPosedBoundaryError\<close>, as the specification asks of the operator builder; the
  engine module itself is missing from the source.
\<close>

definition checked_sv_new :: "real \<Rightarrow> nat \<Rightarrow> string \<Rightarrow> string \<Rightarrow> error + real \<times> nat" where
  "checked_sv_new wavelength structure' boundary' method =
     (if length boundary' = 4 then Inr (wavelength, structure') else Inl IllPosedBoundaryError)"

definition checked_fv_new :: "real \<Rightarrow> nat \<Rightarrow> string \<Rightarrow> error + real \<times> nat" where
  "checked_fv_new wavelength structure' boundary' =
     (if length boundary' = 4 then Inr (wavelength, structure') else Inl IllPosedBoundaryError)"

text \<open>Engine constructors that accept every boundary code.\<close>

definition lenient_sv_new :: "real \<Rightarrow> nat \<Rightarrow> string \<Rightarrow> string \<Rightarrow> error + real \<times> nat" where
  "lenient_sv_new wavelength structure' boundary' method = Inr (wavelength, structure')"

definition lenient_fv_new :: "real \<Rightarrow> nat \<Rightarrow> string \<Rightarrow> error + real \<times> nat" where
  "lenient_fv_new wavelength structure' boundary' = Inr (wavelength, structure')"

text \<open>
  A semi-vectorial engine with two modes on a one-cell grid: the fundamental field is
  \<open>\<i> * structure\<close>, the effective index falls linearly with the wavelength.
\<close>

definition demo_sv_solve ::
  "real \<times> nat \<Rightarrow> int \<Rightarrow> real \<Rightarrow> bool \<Rightarrow> field option \<Rightarrow> error + field eigen_result" where
  "demo_sv_solve eng n_eigs' tol' mode_profiles' guess =
     (case eng of (wavelength, structure') \<Rightarrow>
        if structure' = 0 \<or> wavelength \<le> 0 then Inl NonConvergenceError
        else Inr \<lparr>res_neff = [complex_of_real (2 - wavelength / 10)],
                  res_modes = [[[\<i> * complex_of_real (real structure')]], [[Complex 3 4]]]\<rparr>)"

text \<open>
  A semi-vectorial engine for an absorbing structure: the effective index has the
  imaginary part 1.
\<close>

definition lossy_sv_solve ::
  "real \<times> nat \<Rightarrow> int \<Rightarrow> real \<Rightarrow> bool \<Rightarrow> field option \<Rightarrow> error + field eigen_result" where
  "lossy_sv_solve eng n_eigs' tol' mode_profiles' guess =
     (case eng of (wavelength, structure') \<Rightarrow>
        Inr \<lparr>res_neff = [Complex (2 - wavelength / 10) 1], res_modes = [[[1]]]\<rparr>)"

text \<open>
  A fully-vectorial engine. Structure 1 has two modes on a one-cell grid, the first
  dominated by \<open>Ey\<close>, the second with equal energy in the three electric components;
  structure 2 has one mode whose six fields are all zero; every other structure has one
  mode on a grid of two by two cells, dominated by \<open>Ez\<close>.
\<close>

definition grid_mode :: "field \<Rightarrow> field \<Rightarrow> field \<Rightarrow> field \<Rightarrow> field \<Rightarrow> field \<Rightarrow> mode" where
  "grid_mode ex ey ez hx hy hz =
     \<lparr>mode_fields = [''Ex'' \<mapsto> ex, ''Ey'' \<mapsto> ey, ''Ez'' \<mapsto> ez,
                     ''Hx'' \<mapsto> hx, ''Hy'' \<mapsto> hy, ''Hz'' \<mapsto> hz]\<rparr>"

definition mk_mode :: "complex \<Rightarrow> complex \<Rightarrow> complex \<Rightarrow> complex \<Rightarrow> complex \<Rightarrow> complex \<Rightarrow> mode" where
  "mk_mode ex ey ez hx hy hz = grid_mode [[ex]] [[ey]] [[ez]] [[hx]] [[hy]] [[hz]]"

definition demo_fv_solve ::
  "real \<times> nat \<Rightarrow> int \<Rightarrow> real \<Rightarrow> real option \<Rightarrow> field option \<Rightarrow> error + mode eigen_result" where
  "demo_fv_solve eng n_eigs' tol' n_eff_guess' guess =
     (case eng of (wavelength, structure') \<Rightarrow>
        if structure' = 0 \<or> wavelength \<le> 0 then Inl NonConvergenceError
        else if structure' = 1 then
          Inr \<lparr>res_neff = [complex_of_real (2 - wavelength / 10), 1],
               res_modes = [mk_mode 1 2 0 2 1 0, mk_mode 1 1 1 \<i> \<i> \<i>]\<rparr>
        else if structure' = 2 then
          Inr \<lparr>res_neff = [1], res_modes = [mk_mode 0 0 0 0 0 0]\<rparr>
        else
          Inr \<lparr>res_neff = [1],
               res_modes = [grid_mode [[1, 1], [1, 1]] [[1, 0], [0, 0]] [[2, 1], [0, 0]]
                                      [[3, 0], [0, 1]] [[0, 0], [0, 0]] [[\<i>, \<i>], [2, 2]]]\<rparr>)"

definition demo_sv :: "nat ModeSolverSemiVectorial" where
  "demo_sv = ModeSolverSemiVectorial_init 2 0 ''0000'' True None ''Ex''"

definition demo_sv_plain :: "nat ModeSolverSemiVectorial" where
  "demo_sv_plain = ModeSolverSemiVectorial_init 2 0 ''0000'' False (Some [[1]]) ''Ex''"

definition demo_fv :: "nat ModeSolverFullyVectorial" where
  "demo_fv = ModeSolverFullyVectorial_init 2 (1 / 1000) ''0000'' (Some [[1]]) (Some 2)"

section \<open>Auxiliary facts\<close>

lemmas demo_defs =
  demo_sv_def demo_sv_plain_def demo_fv_def ModeSolverSemiVectorial_init_def ModeSolverFullyVectorial_init_def
  ModeSolver_init_def ModeSolver.extend_def ModeSolverSemiVectorial.fields_def
  checked_sv_new_def checked_fv_new_def lenient_sv_new_def lenient_fv_new_def
  demo_sv_solve_def demo_fv_solve_def lossy_sv_solve_def

lemma ng_loop_eq:
  "ng_loop wavelength wavelength_step zs n_gs =
     n_gs @ map (\<lambda>(n_ctr, n_bck, n_frw).
                   if wavelength_step = 0 then NonFiniteC
                   else FinC (n_ctr - complex_of_real wavelength * (n_frw - n_bck)
                                        / complex_of_real (2 * wavelength_step))) zs"
  by (induction zs arbitrary: n_gs) auto

lemma sv_solve_n_effs:
  "sv_solve ms_new ms_solve self s w = (Inr r, self') \<Longrightarrow> n_effs self' = Some (r_n_effs r)"
  by (auto simp: sv_solve_def Let_def split: sum.splits list.splits if_splits)

lemma fv_solve_n_effs:
  "fv_solve np ms_new ms_solve self s w = (Inr r, self') \<Longrightarrow> n_effs self' = Some (r_n_effs r)"
  by (auto simp: fv_solve_def Let_def split: sum.splits list.splits if_splits)

lemma np_abs_idem: "np_abs (np_abs a) = np_abs a"
  by (simp add: np_abs_def)

lemma sv_solve_profiles:
  assumes "ms_new w s (boundary self) (semi_vectorial_method self) = Inr eng"
    and "ms_solve eng (n_eigs self) (tol self) (mode_profiles self) (initial_mode_guess self) = Inr res"
    and "mode_profiles self"
    and "res_modes res = m0 # others"
  shows "sv_solve ms_new ms_solve self s w =
    (Inr \<lparr>r_n_effs = res_neff res, r_modes = Some (length (heap self))\<rparr>,
     self\<lparr>the_structure := Some s,
          ms := Some \<lparr>neff = res_neff res, modes_at = length (heap self)\<rparr>,
          eigensolves := eigensolves self @
            [\<lparr>call_structure = s, call_wavelength = w,
              call_initial_mode_guess = initial_mode_guess self, call_n_eff_guess = None\<rparr>],
          heap := heap self @ [np_abs m0 # others],
          n_effs := Some (res_neff res),
          initial_mode_guess := Some (np_abs m0),
          modes := Some (length (heap self))\<rparr>)"
  using assms by (simp add: sv_solve_def Let_def np_abs_idem)

lemma sv_solve_no_profiles:
  assumes "ms_new w s (boundary self) (semi_vectorial_method self) = Inr eng"
    and "ms_solve eng (n_eigs self) (tol self) (mode_profiles self) (initial_mode_guess self) = Inr res"
    and "\<not> mode_profiles self"
  shows "sv_solve ms_new ms_solve self s w =
    (Inr \<lparr>r_n_effs = res_neff res, r_modes = None\<rparr>,
     self\<lparr>the_structure := Some s,
          ms := Some \<lparr>neff = res_neff res, modes_at = length (heap self)\<rparr>,
          eigensolves := eigensolves self @
            [\<lparr>call_structure = s, call_wavelength = w,
              call_initial_mode_guess = initial_mode_guess self, call_n_eff_guess = None\<rparr>],
          heap := heap self @ [res_modes res],
          n_effs := Some (res_neff res),
          modes := Some (length (heap self))\<rparr>)"
  using assms by (simp add: sv_solve_def Let_def)

lemma sv_solve_rejected:
  assumes "ms_new w s (boundary self) (semi_vectorial_method self) = Inl e"
  shows "sv_solve ms_new ms_solve self s w = (Inl e, self\<lparr>the_structure := Some s\<rparr>)"
  using assms by (simp add: sv_solve_def Let_def)

lemma fv_solve_rejected:
  assumes "ms_new w s (boundary self) = Inl e"
  shows "fv_solve np ms_new ms_solve self s w = (Inl e, self\<lparr>the_structure := Some s\<rparr>)"
  using assms by (simp add: fv_solve_def Let_def)

lemma sv_solve_log:
  assumes "ms_new w s (boundary self) (semi_vectorial_method self) = Inr eng"
  shows "eigensolves (snd (sv_solve ms_new ms_solve self s w)) = eigensolves self @
            [\<lparr>call_structure = s, call_wavelength = w,
              call_initial_mode_guess = initial_mode_guess self, call_n_eff_guess = None\<rparr>]"
  using assms by (simp add: sv_solve_def Let_def split: sum.splits list.splits)

lemma fv_solve_log:
  assumes "ms_new w s (boundary self) = Inr eng"
  shows "eigensolves (snd (fv_solve np ms_new ms_solve self s w)) = eigensolves self @
            [\<lparr>call_structure = s, call_wavelength = w,
              call_initial_mode_guess = initial_mode_guess self,
              call_n_eff_guess = n_eff_guess self\<rparr>]"
  using assms by (simp add: fv_solve_def Let_def split: sum.splits list.splits)

lemma sv_solve_frame:
  "boundary (snd (sv_solve ms_new ms_solve self s w)) = boundary self \<and>
   semi_vectorial_method (snd (sv_solve ms_new ms_solve self s w)) = semi_vectorial_method self \<and>
   n_eigs (snd (sv_solve ms_new ms_solve self s w)) = n_eigs self \<and>
   tol (snd (sv_solve ms_new ms_solve self s w)) = tol self \<and>
   mode_profiles (snd (sv_solve ms_new ms_solve self s w)) = mode_profiles self \<and>
   n_eff_guess (snd (sv_solve ms_new ms_solve self s w)) = n_eff_guess self"
  by (simp add: sv_solve_def Let_def split: sum.splits list.splits)

lemma fv_solve_frame:
  "boundary (snd (fv_solve np ms_new ms_solve self s w)) = boundary self \<and>
   n_eigs (snd (fv_solve np ms_new ms_solve self s w)) = n_eigs self \<and>
   tol (snd (fv_solve np ms_new ms_solve self s w)) = tol self \<and>
   mode_profiles (snd (fv_solve np ms_new ms_solve self s w)) = mode_profiles self \<and>
   n_eff_guess (snd (fv_solve np ms_new ms_solve self s w)) = n_eff_guess self"
  by (simp add: fv_solve_def Let_def split: sum.splits list.splits)

lemma fv_solve_success:
  assumes "fv_solve np ms_new ms_solve self s w = (Inr r, self')"
  shows "\<exists>eng res ovs mts.
           ms_new w s (boundary self) = Inr eng \<and>
           ms_solve eng (n_eigs self) (tol self) (n_eff_guess self) (initial_mode_guess self) = Inr res \<and>
           overlaps_loop np (res_modes res) [] = Inr ovs \<and>
           mode_types_loop np ovs [] = Inr mts \<and>
           r = \<lparr>r_n_effs = res_neff res, r_modes = Some (length (heap self))\<rparr> \<and>
           self' = self\<lparr>the_structure := Some s,
                        ms := Some \<lparr>neff = res_neff res, modes_at = length (heap self)\<rparr>,
                        eigensolves := eigensolves self @
                          [\<lparr>call_structure = s, call_wavelength = w,
                            call_initial_mode_guess = initial_mode_guess self,
                            call_n_eff_guess = n_eff_guess self\<rparr>],
                        heap := heap self @ [res_modes res],
                        n_effs := Some (res_neff res),
                        modes := Some (length (heap self)),
                        overlaps := Some ovs,
                        mode_types := Some mts,
                        initial_mode_guess := None\<rparr>"
  using assms
  by (auto simp: fv_solve_def Let_def get_overlaps_def get_mode_types_def split: sum.splits)

lemma solve_ng_state:
  assumes "solve_impl self s_ctr w = (Inr r1, self1)"
    and "solve_impl self1 s_bck (w - step) = (Inr r2, self2)"
  shows "snd (solve_ng solve_impl self s_ctr s_bck s_frw w step) =
         snd (solve_impl self2 s_frw (w + step))"
  using assms
  by (cases "solve_impl self2 s_frw (w + step)")
     (auto simp: solve_ng_def solve_def split: sum.splits option.splits)

lemma fv_solve_ng_guesses:
  assumes c: "fv_solve np ms_new ms_solve self s_ctr w = (Inr r1, self1)"
    and b: "fv_solve np ms_new ms_solve self1 s_bck (w - step) = (Inr r2, self2)"
    and f: "ms_new (w + step) s_frw (boundary self) = Inr eng3"
  shows "map call_initial_mode_guess
           (drop (length (eigensolves self))
              (eigensolves (snd (solve_ng (fv_solve np ms_new ms_solve) self s_ctr s_bck s_frw w step))))
         = [initial_mode_guess self, None, None]"
proof -
  from fv_solve_success [OF c] have
    l1: "eigensolves self1 = eigensolves self @
           [\<lparr>call_structure = s_ctr, call_wavelength = w,
             call_initial_mode_guess = initial_mode_guess self,
             call_n_eff_guess = n_eff_guess self\<rparr>]"
    and g1: "initial_mode_guess self1 = None" and b1: "boundary self1 = boundary self"
    by auto
  from fv_solve_success [OF b] have
    l2: "eigensolves self2 = eigensolves self1 @
           [\<lparr>call_structure = s_bck, call_wavelength = w - step,
             call_initial_mode_guess = initial_mode_guess self1,
             call_n_eff_guess = n_eff_guess self1\<rparr>]"
    and g2: "initial_mode_guess self2 = None" and b2: "boundary self2 = boundary self1"
    by auto
  from f b1 b2 have "ms_new (w + step) s_frw (boundary self2) = Inr eng3" by simp
  from fv_solve_log [where ms_new = ms_new and ms_solve = ms_solve, OF this]
  have l3: "eigensolves (snd (fv_solve np ms_new ms_solve self2 s_frw (w + step))) =
      eigensolves self2 @
        [\<lparr>call_structure = s_frw, call_wavelength = w + step,
          call_initial_mode_guess = initial_mode_guess self2,
          call_n_eff_guess = n_eff_guess self2\<rparr>]" .
  show ?thesis
    unfolding solve_ng_state [of "fv_solve np ms_new ms_solve", OF c b]
    by (simp add: l3 l2 l1 g1 g2)
qed

lemma sv_plain_solve_ng_guesses:
  assumes np: "\<not> mode_profiles self"
    and c: "sv_solve ms_new ms_solve self s_ctr w = (Inr r1, self1)"
    and b: "sv_solve ms_new ms_solve self1 s_bck (w - step) = (Inr r2, self2)"
    and f: "ms_new (w + step) s_frw (boundary self) (semi_vectorial_method self) = Inr eng3"
  shows "map call_initial_mode_guess
           (drop (length (eigensolves self))
              (eigensolves (snd (solve_ng (sv_solve ms_new ms_solve) self s_ctr s_bck s_frw w step))))
         = [initial_mode_guess self, initial_mode_guess self, initial_mode_guess self]"
proof -
  have step1: "eigensolves self' = eigensolves st @
           [\<lparr>call_structure = s, call_wavelength = x,
             call_initial_mode_guess = initial_mode_guess st,
             call_n_eff_guess = None\<rparr>] \<and>
        initial_mode_guess self' = initial_mode_guess st \<and> boundary self' = boundary st \<and>
        semi_vectorial_method self' = semi_vectorial_method st \<and>
        mode_profiles self' = mode_profiles st"
    if "sv_solve ms_new ms_solve st s x = (Inr r, self')" "\<not> mode_profiles st"
    for st s x r self'
    using that by (auto simp: sv_solve_def Let_def split: sum.splits)
  note s1 = step1 [OF c np]
  from s1 np have np1: "\<not> mode_profiles self1" by simp
  note s2 = step1 [OF b np1]
  from f s1 s2 have "ms_new (w + step) s_frw (boundary self2) (semi_vectorial_method self2) = Inr eng3"
    by simp
  from sv_solve_log [where ms_new = ms_new and ms_solve = ms_solve, OF this]
  have l3: "eigensolves (snd (sv_solve ms_new ms_solve self2 s_frw (w + step))) =
      eigensolves self2 @
        [\<lparr>call_structure = s_frw, call_wavelength = w + step,
          call_initial_mode_guess = initial_mode_guess self2,
          call_n_eff_guess = None\<rparr>]" .
  show ?thesis
    unfolding solve_ng_state [of "sv_solve ms_new ms_solve", OF c b]
    using s1 s2 by (simp add: l3)
qed

lemma sv_profiles_solve_ng_guesses:
  assumes p: "mode_profiles self"
    and n1: "ms_new w s_ctr (boundary self) (semi_vectorial_method self) = Inr eng1"
    and r1: "ms_solve eng1 (n_eigs self) (tol self) (mode_profiles self) (initial_mode_guess self)
               = Inr res1"
    and m1: "res_modes res1 = m1 # others1"
    and n2: "ms_new (w - step) s_bck (boundary self) (semi_vectorial_method self) = Inr eng2"
    and r2: "ms_solve eng2 (n_eigs self) (tol self) (mode_profiles self) (Some (np_abs m1))
               = Inr res2"
    and m2: "res_modes res2 = m2 # others2"
    and n3: "ms_new (w + step) s_frw (boundary self) (semi_vectorial_method self) = Inr eng3"
  shows "map call_initial_mode_guess
           (drop (length (eigensolves self))
              (eigensolves (snd (solve_ng (sv_solve ms_new ms_solve) self s_ctr s_bck s_frw w step))))
         = [initial_mode_guess self, Some (np_abs m1), Some (np_abs m2)]"
proof -
  obtain q1 self1 where c: "sv_solve ms_new ms_solve self s_ctr w = (Inr q1, self1)"
    and l1: "eigensolves self1 = eigensolves self @
           [\<lparr>call_structure = s_ctr, call_wavelength = w,
             call_initial_mode_guess = initial_mode_guess self,
             call_n_eff_guess = None\<rparr>]"
    and g1: "initial_mode_guess self1 = Some (np_abs m1)"
    and f1: "boundary self1 = boundary self" "semi_vectorial_method self1 = semi_vectorial_method self"
      "n_eigs self1 = n_eigs self" "tol self1 = tol self" "mode_profiles self1 = mode_profiles self"
    using sv_solve_profiles [where ms_new = ms_new and ms_solve = ms_solve, OF n1 r1 p m1]
    by simp
  from n2 f1 have n2': "ms_new (w - step) s_bck (boundary self1) (semi_vectorial_method self1) = Inr eng2"
    by simp
  from r2 f1 g1 have r2': "ms_solve eng2 (n_eigs self1) (tol self1) (mode_profiles self1)
      (initial_mode_guess self1) = Inr res2"
    by simp
  from p f1 have p1: "mode_profiles self1" by simp
  obtain q2 self2 where b: "sv_solve ms_new ms_solve self1 s_bck (w - step) = (Inr q2, self2)"
    and l2: "eigensolves self2 = eigensolves self1 @
           [\<lparr>call_structure = s_bck, call_wavelength = w - step,
             call_initial_mode_guess = initial_mode_guess self1,
             call_n_eff_guess = None\<rparr>]"
    and g2: "initial_mode_guess self2 = Some (np_abs m2)"
    and f2: "boundary self2 = boundary self1" "semi_vectorial_method self2 = semi_vectorial_method self1"
    using sv_solve_profiles [where ms_new = ms_new and ms_solve = ms_solve, OF n2' r2' p1 m2]
    by simp
  from n3 f1 f2 have "ms_new (w + step) s_frw (boundary self2) (semi_vectorial_method self2) = Inr eng3"
    by simp
  from sv_solve_log [where ms_new = ms_new and ms_solve = ms_solve, OF this]
  have l3: "eigensolves (snd (sv_solve ms_new ms_solve self2 s_frw (w + step))) =
      eigensolves self2 @
        [\<lparr>call_structure = s_frw, call_wavelength = w + step,
          call_initial_mode_guess = initial_mode_guess self2,
          call_n_eff_guess = None\<rparr>]" .
  show ?thesis
    unfolding solve_ng_state [of "sv_solve ms_new ms_solve", OF c b]
    by (simp add: l3 l2 l1 g1 g2)
qed

lemmas fv_eval_defs =
  fv_solve_def get_overlaps_def get_mode_types_def mode_areas_def mk_mode_def grid_mode_def
  normalise_areas_def energy_def ideal_numpy_def ideal_sum_def mode_type_of_def np_argmax_def
  labels_def np_round_def np_rint_def rint_def

lemma sweep_structure_loop_append:
  "sweep_structure_loop solve_impl self (xs @ ys) w acc =
     (case sweep_structure_loop solve_impl self xs w acc of
        (Inl e, self') \<Rightarrow> (Inl e, self')
      | (Inr acc', self') \<Rightarrow> sweep_structure_loop solve_impl self' ys w acc')"
  by (induction xs arbitrary: self acc) (auto split: prod.splits sum.splits)

lemma sweep_wavelength_loop_append:
  "sweep_wavelength_loop solve_impl self s (xs @ ys) acc =
     (case sweep_wavelength_loop solve_impl self s xs acc of
        (Inl e, self') \<Rightarrow> (Inl e, self')
      | (Inr acc', self') \<Rightarrow> sweep_wavelength_loop solve_impl self' s ys acc')"
  by (induction xs arbitrary: self acc) (auto split: prod.splits sum.splits)

lemma sweep_structure_loop_length:
  "sweep_structure_loop solve_impl self xs w acc = (Inr acc', self') \<Longrightarrow>
   length acc' = length acc + length xs"
  by (induction xs arbitrary: self acc) (auto split: prod.splits sum.splits)

lemma sweep_wavelength_loop_length:
  "sweep_wavelength_loop solve_impl self s xs acc = (Inr acc', self') \<Longrightarrow>
   length acc' = length acc + length xs"
  by (induction xs arbitrary: self acc) (auto split: prod.splits sum.splits)

lemma solve_sweep_structure_state:
  "snd (solve_sweep_structure solve_impl self ss w filename plot) =
   snd (sweep_structure_loop solve_impl self ss w [])"
  by (simp add: solve_sweep_structure_def split: prod.splits sum.splits)

lemma solve_sweep_wavelength_state:
  "snd (solve_sweep_wavelength solve_impl self s ws filename plot) =
   snd (sweep_wavelength_loop solve_impl self s ws [])"
  by (simp add: solve_sweep_wavelength_def split: prod.splits sum.splits)

lemma fv_solve_step:
  "n_eff_guess (snd (fv_solve np ms_new ms_solve self s w)) = n_eff_guess self \<and>
   (\<exists>new. eigensolves (snd (fv_solve np ms_new ms_solve self s w)) = eigensolves self @ new \<and>
      length new \<le> 1 \<and>
      (\<forall>c \<in> set new. call_n_eff_guess c = n_eff_guess self \<and>
                      call_initial_mode_guess c = initial_mode_guess self)) \<and>
   (\<forall>r. fst (fv_solve np ms_new ms_solve self s w) = Inr r \<longrightarrow>
      initial_mode_guess (snd (fv_solve np ms_new ms_solve self s w)) = None)"
  by (auto simp: fv_solve_def Let_def split: sum.splits)

lemma fv_calls_step:
  assumes "length new1 \<le> 1"
    and "\<forall>c \<in> set new1. call_n_eff_guess c = g \<and> call_initial_mode_guess c = i"
    and "\<forall>c \<in> set new2. call_n_eff_guess c = g \<and> call_initial_mode_guess c = None"
  shows "(\<forall>c \<in> set (new1 @ new2). call_n_eff_guess c = g) \<and>
         (\<forall>c \<in> set (tl (new1 @ new2)). call_initial_mode_guess c = None) \<and>
         (i = None \<longrightarrow> (\<forall>c \<in> set (new1 @ new2). call_initial_mode_guess c = None))"
proof (cases new1)
  case Nil
  have "set (tl new2) \<subseteq> set new2" by (cases new2) auto
  with Nil assms show ?thesis by auto
next
  case (Cons c cs)
  with assms have "cs = []" by simp
  with Cons assms show ?thesis by auto
qed

lemma fv_sweep_structure_calls:
  "n_eff_guess (snd (sweep_structure_loop (fv_solve np ms_new ms_solve) self ss w acc))
     = n_eff_guess self \<and>
   (\<exists>new. eigensolves (snd (sweep_structure_loop (fv_solve np ms_new ms_solve) self ss w acc))
       = eigensolves self @ new \<and>
      (\<forall>c \<in> set new. call_n_eff_guess c = n_eff_guess self) \<and>
      (\<forall>c \<in> set (tl new). call_initial_mode_guess c = None) \<and>
      (initial_mode_guess self = None \<longrightarrow> (\<forall>c \<in> set new. call_initial_mode_guess c = None)))"
proof (induction ss arbitrary: self acc)
  case Nil
  show ?case by simp
next
  case (Cons s ss)
  obtain out self1 where o: "fv_solve np ms_new ms_solve self s w = (out, self1)"
    by (cases "fv_solve np ms_new ms_solve self s w")
  from fv_solve_step [of np ms_new ms_solve self s w] o
  obtain new1 where g1: "n_eff_guess self1 = n_eff_guess self"
    and l1: "eigensolves self1 = eigensolves self @ new1"
    and n1: "length new1 \<le> 1"
      "\<forall>c \<in> set new1. call_n_eff_guess c = n_eff_guess self \<and>
                      call_initial_mode_guess c = initial_mode_guess self"
    and i1: "\<forall>r. out = Inr r \<longrightarrow> initial_mode_guess self1 = None"
    by auto
  show ?case
  proof (cases out)
    case (Inl e)
    with o have eq: "sweep_structure_loop (fv_solve np ms_new ms_solve) self (s # ss) w acc
        = (Inl e, self1)"
      by (simp add: solve_def)
    from fv_calls_step [OF n1, of "[]"] show ?thesis
      unfolding eq using g1 l1 by simp
  next
    case (Inr r)
    with o have eq: "sweep_structure_loop (fv_solve np ms_new ms_solve) self (s # ss) w acc
        = sweep_structure_loop (fv_solve np ms_new ms_solve) self1 ss w (acc @ [r])"
      by (simp add: solve_def)
    from Inr i1 have cold: "initial_mode_guess self1 = None" by simp
    from Cons.IH [of self1 "acc @ [r]"] cold g1
    obtain new2 where
      g2: "n_eff_guess (snd (sweep_structure_loop (fv_solve np ms_new ms_solve) self1 ss w (acc @ [r])))
            = n_eff_guess self"
      and l2: "eigensolves (snd (sweep_structure_loop (fv_solve np ms_new ms_solve) self1 ss w (acc @ [r])))
            = eigensolves self1 @ new2"
      and ok2: "\<forall>c \<in> set new2. call_n_eff_guess c = n_eff_guess self \<and>
                  call_initial_mode_guess c = None"
      by auto
    from fv_calls_step [OF n1 ok2] show ?thesis
      unfolding eq using g2 l2 l1 by simp
  qed
qed

lemma fv_sweep_wavelength_calls:
  "n_eff_guess (snd (sweep_wavelength_loop (fv_solve np ms_new ms_solve) self s ws acc))
     = n_eff_guess self \<and>
   (\<exists>new. eigensolves (snd (sweep_wavelength_loop (fv_solve np ms_new ms_solve) self s ws acc))
       = eigensolves self @ new \<and>
      (\<forall>c \<in> set new. call_n_eff_guess c = n_eff_guess self) \<and>
      (\<forall>c \<in> set (tl new). call_initial_mode_guess c = None) \<and>
      (initial_mode_guess self = None \<longrightarrow> (\<forall>c \<in> set new. call_initial_mode_guess c = None)))"
proof (induction ws arbitrary: self acc)
  case Nil
  show ?case by simp
next
  case (Cons w ws)
  obtain out self1 where o: "fv_solve np ms_new ms_solve self s w = (out, self1)"
    by (cases "fv_solve np ms_new ms_solve self s w")
  from fv_solve_step [of np ms_new ms_solve self s w] o
  obtain new1 where g1: "n_eff_guess self1 = n_eff_guess self"
    and l1: "eigensolves self1 = eigensolves self @ new1"
    and n1: "length new1 \<le> 1"
      "\<forall>c \<in> set new1. call_n_eff_guess c = n_eff_guess self \<and>
                      call_initial_mode_guess c = initial_mode_guess self"
    and i1: "\<forall>r. out = Inr r \<longrightarrow> initial_mode_guess self1 = None"
    by auto
  show ?case
  proof (cases out)
    case (Inl e)
    with o have eq: "sweep_wavelength_loop (fv_solve np ms_new ms_solve) self s (w # ws) acc
        = (Inl e, self1)"
      by (simp add: solve_def)
    from fv_calls_step [OF n1, of "[]"] show ?thesis
      unfolding eq using g1 l1 by simp
  next
    case (Inr r)
    with o have eq: "sweep_wavelength_loop (fv_solve np ms_new ms_solve) self s (w # ws) acc
        = sweep_wavelength_loop (fv_solve np ms_new ms_solve) self1 s ws (acc @ [r])"
      by (simp add: solve_def)
    from Inr i1 have cold: "initial_mode_guess self1 = None" by simp
    from Cons.IH [of self1 "acc @ [r]"] cold g1
    obtain new2 where
      g2: "n_eff_guess (snd (sweep_wavelength_loop (fv_solve np ms_new ms_solve) self1 s ws (acc @ [r])))
            = n_eff_guess self"
      and l2: "eigensolves (snd (sweep_wavelength_loop (fv_solve np ms_new ms_solve) self1 s ws (acc @ [r])))
            = eigensolves self1 @ new2"
      and ok2: "\<forall>c \<in> set new2. call_n_eff_guess c = n_eff_guess self \<and>
                  call_initial_mode_guess c = None"
      by auto
    from fv_calls_step [OF n1 ok2] show ?thesis
      unfolding eq using g2 l2 l1 by simp
  qed
qed

lemma sv_solve_heap:
  "a < length (heap self) \<Longrightarrow>
   heap (snd (sv_solve ms_new ms_solve self s w)) ! a = heap self ! a \<and>
   a < length (heap (snd (sv_solve ms_new ms_solve self s w)))"
  by (auto simp: sv_solve_def Let_def nth_append split: sum.splits list.splits)

lemma fv_solve_heap:
  "a < length (heap self) \<Longrightarrow>
   heap (snd (fv_solve np ms_new ms_solve self s w)) ! a = heap self ! a \<and>
   a < length (heap (snd (fv_solve np ms_new ms_solve self s w)))"
  by (auto simp: fv_solve_def Let_def nth_append split: sum.splits list.splits)

lemma sweep_structure_loop_heap:
  assumes pres: "\<And>st s w. a < length (heap st) \<Longrightarrow>
      heap (snd (solve_impl st s w)) ! a = heap st ! a \<and> a < length (heap (snd (solve_impl st s w)))"
  shows "a < length (heap self) \<Longrightarrow>
     heap (snd (sweep_structure_loop solve_impl self ss w acc)) ! a = heap self ! a \<and>
     a < length (heap (snd (sweep_structure_loop solve_impl self ss w acc)))"
proof (induction ss arbitrary: self acc)
  case Nil
  then show ?case by simp
next
  case (Cons s ss)
  obtain out self1 where o: "solve_impl self s w = (out, self1)"
    by (cases "solve_impl self s w")
  from pres [OF Cons.prems, of s w] o
  have h1: "heap self1 ! a = heap self ! a" "a < length (heap self1)" by simp_all
  show ?case
  proof (cases out)
    case (Inl e)
    with o h1 show ?thesis by (simp add: solve_def)
  next
    case (Inr r)
    with o Cons.IH [OF h1(2), of "acc @ [r]"] h1 show ?thesis by (simp add: solve_def)
  qed
qed

lemma sweep_wavelength_loop_heap:
  assumes pres: "\<And>st s w. a < length (heap st) \<Longrightarrow>
      heap (snd (solve_impl st s w)) ! a = heap st ! a \<and> a < length (heap (snd (solve_impl st s w)))"
  shows "a < length (heap self) \<Longrightarrow>
     heap (snd (sweep_wavelength_loop solve_impl self s ws acc)) ! a = heap self ! a \<and>
     a < length (heap (snd (sweep_wavelength_loop solve_impl self s ws acc)))"
proof (induction ws arbitrary: self acc)
  case Nil
  then show ?case by simp
next
  case (Cons w ws)
  obtain out self1 where o: "solve_impl self s w = (out, self1)"
    by (cases "solve_impl self s w")
  from pres [OF Cons.prems, of s w] o
  have h1: "heap self1 ! a = heap self ! a" "a < length (heap self1)" by simp_all
  show ?case
  proof (cases out)
    case (Inl e)
    with o h1 show ?thesis by (simp add: solve_def)
  next
    case (Inr r)
    with o Cons.IH [OF h1(2), of "acc @ [r]"] h1 show ?thesis by (simp add: solve_def)
  qed
qed

lemma solve_ng_heap:
  assumes pres: "\<And>st s w. a < length (heap st) \<Longrightarrow>
      heap (snd (solve_impl st s w)) ! a = heap st ! a \<and> a < length (heap (snd (solve_impl st s w)))"
    and a: "a < length (heap self)"
  shows "heap (snd (solve_ng solve_impl self s1 s2 s3 w step)) ! a = heap self ! a"
proof -
  obtain o1 t1 where e1: "solve_impl self s1 w = (o1, t1)" by (cases "solve_impl self s1 w")
  obtain o2 t2 where e2: "solve_impl t1 s2 (w - step) = (o2, t2)"
    by (cases "solve_impl t1 s2 (w - step)")
  obtain o3 t3 where e3: "solve_impl t2 s3 (w + step) = (o3, t3)"
    by (cases "solve_impl t2 s3 (w + step)")
  from pres [OF a, of s1 w] e1 have h1: "heap t1 ! a = heap self ! a" "a < length (heap t1)"
    by simp_all
  from pres [OF h1(2), of s2 "w - step"] e2 have h2: "heap t2 ! a = heap t1 ! a" "a < length (heap t2)"
    by simp_all
  from pres [OF h2(2), of s3 "w + step"] e3 have h3: "heap t3 ! a = heap t2 ! a"
    by simp_all
  show ?thesis
    using e1 e2 e3 h1 h2 h3
    by (auto simp: solve_ng_def solve_def split: sum.splits option.splits)
qed

lemma mode_areas_value:
  assumes "mode_fields m ''Ex'' = Some ex" "mode_fields m ''Ey'' = Some ey"
    "mode_fields m ''Ez'' = Some ez" "mode_fields m ''Hx'' = Some hx"
    "mode_fields m ''Hy'' = Some hy" "mode_fields m ''Hz'' = Some hz"
  shows "mode_areas np m = Inr (normalise_areas np [energy np ex, energy np ey, energy np ez] @
                                normalise_areas np [energy np hx, energy np hy, energy np hz])"
  using assms by (simp add: mode_areas_def)

lemma mode_areas_total:
  assumes "{''Ex'', ''Ey'', ''Ez'', ''Hx'', ''Hy'', ''Hz''} \<subseteq> dom (mode_fields m)"
  shows "\<exists>areas. mode_areas np m = Inr areas \<and> length areas = 6"
proof -
  from assms obtain ex ey ez hx hy hz where
    "mode_fields m ''Ex'' = Some ex" "mode_fields m ''Ey'' = Some ey"
    "mode_fields m ''Ez'' = Some ez" "mode_fields m ''Hx'' = Some hx"
    "mode_fields m ''Hy'' = Some hy" "mode_fields m ''Hz'' = Some hz"
    by (auto simp: dom_def)
  from mode_areas_value [OF this] show ?thesis by (simp add: normalise_areas_def)
qed

lemma overlaps_loop_nth:
  "overlaps_loop np ml acc = Inr ovs \<Longrightarrow>
   length ovs = length acc + length ml \<and>
   (\<forall>i < length ml. mode_areas np (ml ! i) = Inr (ovs ! (length acc + i))) \<and>
   (\<forall>i < length acc. ovs ! i = acc ! i)"
proof (induction ml arbitrary: acc)
  case Nil
  then show ?case by simp
next
  case (Cons m ml)
  from Cons.prems obtain areas where a: "mode_areas np m = Inr areas"
    and rest: "overlaps_loop np ml (acc @ [areas]) = Inr ovs"
    by (auto split: sum.splits)
  from Cons.IH [OF rest] have len: "length ovs = length acc + 1 + length ml"
    and later: "\<forall>i < length ml. mode_areas np (ml ! i) = Inr (ovs ! (length acc + 1 + i))"
    and earlier: "\<forall>i < length acc + 1. ovs ! i = (acc @ [areas]) ! i"
    by simp_all
  from earlier have here: "ovs ! length acc = areas" by (auto simp: nth_append)
  from earlier have old: "\<forall>i < length acc. ovs ! i = acc ! i" by (auto simp: nth_append)
  have "mode_areas np ((m # ml) ! i) = Inr (ovs ! (length acc + i))" if "i < length (m # ml)" for i
  proof (cases i)
    case 0
    with a here show ?thesis by simp
  next
    case (Suc k)
    with that later show ?thesis by simp
  qed
  with len old show ?case by simp
qed

lemma overlaps_loop_total:
  "\<forall>m \<in> set ml. {''Ex'', ''Ey'', ''Ez'', ''Hx'', ''Hy'', ''Hz''} \<subseteq> dom (mode_fields m) \<Longrightarrow>
   \<exists>ovs. overlaps_loop np ml acc = Inr ovs"
proof (induction ml arbitrary: acc)
  case Nil
  show ?case by simp
next
  case (Cons m ml)
  from Cons.prems mode_areas_total [of m np] obtain areas where "mode_areas np m = Inr areas"
    by auto
  moreover from Cons.prems Cons.IH [of "acc @ [areas]"]
  obtain ovs where "overlaps_loop np ml (acc @ [areas]) = Inr ovs" by auto
  ultimately show ?case by simp
qed

lemma np_le_refl: "v \<noteq> NaN \<Longrightarrow> np_le v v"
  by (cases v) auto

lemma np_le_total: "a \<noteq> NaN \<Longrightarrow> b \<noteq> NaN \<Longrightarrow> np_le a b \<or> np_le b a"
  by (cases a; cases b) auto

lemma np_le_trans: "np_le a b \<Longrightarrow> np_le b c \<Longrightarrow> np_le a c"
  by (cases a; cases b; cases c) auto

lemma np_le_not_nan: "np_le a b \<Longrightarrow> a \<noteq> NaN \<and> b \<noteq> NaN"
  by (cases a; cases b) auto

lemma np_argmax_three:
  "\<exists>j<3. np_argmax [v0, v1, v2] = Inr j \<and>
     ((\<forall>k<3. [v0, v1, v2] ! k \<noteq> NaN) \<longrightarrow>
        (\<forall>k<3. np_le ([v0, v1, v2] ! k) ([v0, v1, v2] ! j)) \<and>
        (\<forall>k<j. \<not> np_le ([v0, v1, v2] ! j) ([v0, v1, v2] ! k))) \<and>
     ((\<exists>k<3. [v0, v1, v2] ! k = NaN) \<longrightarrow>
        [v0, v1, v2] ! j = NaN \<and> (\<forall>k<j. [v0, v1, v2] ! k \<noteq> NaN))"
proof -
  have c3: "k = 0 \<or> k = 1 \<or> k = 2" if "k < 3" for k :: nat using that by arith
  have c2: "k = 0 \<or> k = 1" if "k < 2" for k :: nat using that by arith
  have e3: "(\<exists>k<3. P k) \<longleftrightarrow> P 0 \<or> P 1 \<or> P (2::nat)" for P
    by (auto simp: numeral_3_eq_3 numeral_2_eq_2 less_Suc_eq)
  have a3: "(\<forall>k<3. P k) \<longleftrightarrow> P 0 \<and> P 1 \<and> P (2::nat)" for P
    using e3 [of "\<lambda>k. \<not> P k"] by blast
  have a2: "(\<forall>k<2. P k) \<longleftrightarrow> P 0 \<and> P (1::nat)" for P
    by (auto simp: numeral_2_eq_2 less_Suc_eq)
  have a1: "(\<forall>k<1. P k) \<longleftrightarrow> P (0::nat)" for P by simp
  show ?thesis
  proof (cases "v0 = NaN")
    case True
    then have "np_argmax [v0, v1, v2] = Inr 0" by (simp add: np_argmax_def)
    with True show ?thesis by (intro exI [of _ 0]) (simp add: a3)
  next
    case n0: False
    show ?thesis
    proof (cases "np_le v1 v0")
      case le10: True
      then have n1: "v1 \<noteq> NaN" using np_le_not_nan by blast
      show ?thesis
      proof (cases "np_le v2 v0")
        case True
        then have "v2 \<noteq> NaN" using np_le_not_nan by blast
        moreover from True le10 n0 have "np_argmax [v0, v1, v2] = Inr 0"
          by (simp add: np_argmax_def)
        ultimately show ?thesis using n0 n1 True le10
          by (intro exI [of _ 0]) (simp add: a3 e3 np_le_refl)
      next
        case False
        with le10 n0 have am: "np_argmax [v0, v1, v2] = Inr 2" by (simp add: np_argmax_def)
        show ?thesis
        proof (cases "v2 = NaN")
          case True
          with am n0 n1 show ?thesis by (intro exI [of _ 2]) (simp add: a3 a2 e3)
        next
          case n2: False
          from False n0 n2 have "np_le v0 v2" using np_le_total by blast
          moreover from this le10 have "np_le v1 v2" using np_le_trans by blast
          moreover have "\<not> np_le v2 v1"
            using False le10 np_le_trans by blast
          ultimately show ?thesis using am n0 n1 n2 False
            by (intro exI [of _ 2]) (simp add: a3 a2 e3 np_le_refl)
        qed
      qed
    next
      case nle10: False
      show ?thesis
      proof (cases "v1 = NaN")
        case True
        with nle10 n0 have "np_argmax [v0, v1, v2] = Inr 1" by (simp add: np_argmax_def)
        with True n0 show ?thesis by (intro exI [of _ 1]) (simp add: a3 a1 e3)
      next
        case n1: False
        from nle10 n0 n1 have le01: "np_le v0 v1" using np_le_total by blast
        show ?thesis
        proof (cases "np_le v2 v1")
          case True
          then have n2: "v2 \<noteq> NaN" using np_le_not_nan by blast
          from True nle10 n0 n1 have "np_argmax [v0, v1, v2] = Inr 1"
            by (simp add: np_argmax_def)
          with True nle10 le01 n0 n1 n2 show ?thesis
            by (intro exI [of _ 1]) (simp add: a3 a1 e3 np_le_refl)
        next
          case False
          with nle10 n0 n1 have am: "np_argmax [v0, v1, v2] = Inr 2"
            by (simp add: np_argmax_def)
          show ?thesis
          proof (cases "v2 = NaN")
            case True
            with am n0 n1 show ?thesis by (intro exI [of _ 2]) (simp add: a3 a2 e3)
          next
            case n2: False
            from False n1 n2 have le12: "np_le v1 v2" using np_le_total by blast
            with le01 have "np_le v0 v2" using np_le_trans by blast
            moreover have "\<not> np_le v2 v0" using le01 False np_le_trans by blast
            ultimately show ?thesis using am n0 n1 n2 False le12
              by (intro exI [of _ 2]) (simp add: a3 a2 e3 np_le_refl)
          qed
        qed
      qed
    qed
  qed
qed

lemma np_argmax_first_three:
  assumes "length vs = 3"
  shows "\<exists>j<3. np_argmax vs = Inr j \<and>
     ((\<forall>k<3. vs ! k \<noteq> NaN) \<longrightarrow>
        (\<forall>k<3. np_le (vs ! k) (vs ! j)) \<and> (\<forall>k<j. \<not> np_le (vs ! j) (vs ! k))) \<and>
     ((\<exists>k<3. vs ! k = NaN) \<longrightarrow> vs ! j = NaN \<and> (\<forall>k<j. vs ! k \<noteq> NaN))"
proof -
  from assms obtain v0 v1 v2 where "vs = [v0, v1, v2]"
    by (cases vs; cases "tl vs"; cases "tl (tl vs)") (auto simp: numeral_3_eq_3)
  with np_argmax_three [of v0 v1 v2] show ?thesis by simp
qed

lemma mode_type_of_value:
  assumes len: "3 \<le> length ov"
  shows "\<exists>j<3. mode_type_of np ov =
             Inr ([''qTE'', ''qTM'', ''qTE/qTM''] ! j, np_round np (ov ! j) 2) \<and>
           ((\<forall>k<3. ov ! k \<noteq> NaN) \<longrightarrow>
              (\<forall>k<3. np_le (ov ! k) (ov ! j)) \<and> (\<forall>k<j. \<not> np_le (ov ! j) (ov ! k))) \<and>
           ((\<exists>k<3. ov ! k = NaN) \<longrightarrow> ov ! j = NaN \<and> (\<forall>k<j. ov ! k \<noteq> NaN))"
proof -
  have c3: "k = 0 \<or> k = 1 \<or> k = 2" if "k < 3" for k :: nat using that by arith
  from len have l3: "length (take 3 ov) = 3" by simp
  have nth3: "take 3 ov ! k = ov ! k" if "k < 3" for k using that by simp
  from np_argmax_first_three [OF l3] obtain j where j: "j < 3"
    and am: "np_argmax (take 3 ov) = Inr j"
    and fin: "(\<forall>k<3. take 3 ov ! k \<noteq> NaN) \<longrightarrow>
        (\<forall>k<3. np_le (take 3 ov ! k) (take 3 ov ! j)) \<and>
        (\<forall>k<j. \<not> np_le (take 3 ov ! j) (take 3 ov ! k))"
    and nan: "(\<exists>k<3. take 3 ov ! k = NaN) \<longrightarrow>
        take 3 ov ! j = NaN \<and> (\<forall>k<j. take 3 ov ! k \<noteq> NaN)"
    by blast
  have lab: "labels j = Some ([''qTE'', ''qTM'', ''qTE/qTM''] ! j)"
    using c3 [OF j] by (auto simp: labels_def)
  from j len have jl: "j < length ov" by simp
  have val: "mode_type_of np ov =
      Inr ([''qTE'', ''qTM'', ''qTE/qTM''] ! j, np_round np (ov ! j) 2)"
    using am lab jl by (simp add: mode_type_of_def)
  have lt: "k < 3" if "k < j" for k using that j by simp
  have fin': "(\<forall>k<3. ov ! k \<noteq> NaN) \<longrightarrow>
              (\<forall>k<3. np_le (ov ! k) (ov ! j)) \<and> (\<forall>k<j. \<not> np_le (ov ! j) (ov ! k))"
    using fin nth3 [OF j] by (metis nth3 lt)
  have nan': "(\<exists>k<3. ov ! k = NaN) \<longrightarrow> ov ! j = NaN \<and> (\<forall>k<j. ov ! k \<noteq> NaN)"
    using nan nth3 [OF j] by (metis nth3 lt)
  from j val fin' nan' show ?thesis by blast
qed

lemma mode_types_loop_nth:
  "mode_types_loop np ovs acc = Inr mts \<Longrightarrow>
   length mts = length acc + length ovs \<and>
   (\<forall>i < length ovs. mode_type_of np (ovs ! i) = Inr (mts ! (length acc + i))) \<and>
   (\<forall>i < length acc. mts ! i = acc ! i)"
proof (induction ovs arbitrary: acc)
  case Nil
  then show ?case by simp
next
  case (Cons ov ovs)
  from Cons.prems obtain t where a: "mode_type_of np ov = Inr t"
    and rest: "mode_types_loop np ovs (acc @ [t]) = Inr mts"
    by (auto split: sum.splits)
  from Cons.IH [OF rest] have len: "length mts = length acc + 1 + length ovs"
    and later: "\<forall>i < length ovs. mode_type_of np (ovs ! i) = Inr (mts ! (length acc + 1 + i))"
    and earlier: "\<forall>i < length acc + 1. mts ! i = (acc @ [t]) ! i"
    by simp_all
  from earlier have here: "mts ! length acc = t" by (auto simp: nth_append)
  from earlier have old: "\<forall>i < length acc. mts ! i = acc ! i" by (auto simp: nth_append)
  have "mode_type_of np ((ov # ovs) ! i) = Inr (mts ! (length acc + i))"
    if "i < length (ov # ovs)" for i
  proof (cases i)
    case 0
    with a here show ?thesis by simp
  next
    case (Suc k)
    with that later show ?thesis by simp
  qed
  with len old show ?case by simp
qed

lemma mode_types_loop_total:
  "\<forall>ov \<in> set ovs. 3 \<le> length ov \<Longrightarrow> \<exists>mts. mode_types_loop np ovs acc = Inr mts"
proof (induction ovs arbitrary: acc)
  case Nil
  show ?case by simp
next
  case (Cons ov ovs)
  from Cons.prems mode_type_of_value [of ov np] obtain t where "mode_type_of np ov = Inr t"
    by auto
  moreover from Cons.prems Cons.IH [of "acc @ [t]"]
  obtain mts where "mode_types_loop np ovs (acc @ [t]) = Inr mts" by auto
  ultimately show ?case by simp
qed

lemma fv_solve_returns:
  assumes new: "ms_new w s (boundary self) = Inr eng"
    and run: "ms_solve eng (n_eigs self) (tol self) (n_eff_guess self) (initial_mode_guess self)
                = Inr res"
    and flds: "\<forall>m \<in> set (res_modes res).
                 {''Ex'', ''Ey'', ''Ez'', ''Hx'', ''Hy'', ''Hz''} \<subseteq> dom (mode_fields m)"
  shows "\<exists>r self' ovs mts.
           fv_solve np ms_new ms_solve self s w = (Inr r, self') \<and>
           overlaps self' = Some ovs \<and> mode_types self' = Some mts \<and>
           overlaps_loop np (res_modes res) [] = Inr ovs \<and>
           mode_types_loop np ovs [] = Inr mts \<and>
           length ovs = length (res_modes res) \<and> length mts = length (res_modes res) \<and>
           (\<forall>ov \<in> set ovs. length ov = 6)"
proof -
  from overlaps_loop_total [OF flds] obtain ovs where
    ol: "overlaps_loop np (res_modes res) [] = Inr ovs"
    by blast
  from overlaps_loop_nth [OF ol] have lo: "length ovs = length (res_modes res)"
    and at: "\<forall>i < length (res_modes res). mode_areas np (res_modes res ! i) = Inr (ovs ! i)"
    by simp_all
  have six: "length ov = 6" if "ov \<in> set ovs" for ov
  proof -
    from that obtain i where i: "i < length ovs" "ov = ovs ! i" by (auto simp: in_set_conv_nth)
    with lo have "res_modes res ! i \<in> set (res_modes res)" by simp
    with flds mode_areas_total [of "res_modes res ! i" np] at i lo show ?thesis by auto
  qed
  then have "\<forall>ov \<in> set ovs. 3 \<le> length ov" by auto
  from mode_types_loop_total [OF this] obtain mts where
    ml: "mode_types_loop np ovs [] = Inr mts"
    by blast
  from mode_types_loop_nth [OF ml] lo have lm: "length mts = length (res_modes res)" by simp
  have "fv_solve np ms_new ms_solve self s w =
      (Inr \<lparr>r_n_effs = res_neff res, r_modes = Some (length (heap self))\<rparr>,
       snd (fv_solve np ms_new ms_solve self s w))"
    using new run ol ml
    by (simp add: fv_solve_def Let_def get_overlaps_def get_mode_types_def)
  moreover have "overlaps (snd (fv_solve np ms_new ms_solve self s w)) = Some ovs"
    "mode_types (snd (fv_solve np ms_new ms_solve self s w)) = Some mts"
    using new run ol ml
    by (simp_all add: fv_solve_def Let_def get_overlaps_def get_mode_types_def)
  ultimately show ?thesis using ol ml lo lm six by blast
qed

lemma grid_sum_nonneg: "0 \<le> (\<Sum>z\<leftarrow>zs. (cmod z)\<^sup>2)"
  by (rule sum_list_nonneg) auto

lemma grid_sum_zero_iff: "(\<Sum>z\<leftarrow>zs. (cmod z)\<^sup>2) = 0 \<longleftrightarrow> (\<forall>z \<in> set zs. z = 0)"
proof (induction zs)
  case Nil
  show ?case by simp
next
  case (Cons z zs)
  have "0 \<le> (cmod z)\<^sup>2" "0 \<le> (\<Sum>z\<leftarrow>zs. (cmod z)\<^sup>2)" by (simp_all add: grid_sum_nonneg)
  then have "(cmod z)\<^sup>2 + (\<Sum>z\<leftarrow>zs. (cmod z)\<^sup>2) = 0 \<longleftrightarrow>
      (cmod z)\<^sup>2 = 0 \<and> (\<Sum>z\<leftarrow>zs. (cmod z)\<^sup>2) = 0"
    by linarith
  with Cons show ?case by simp
qed

lemma energy_zero_field:
  assumes "ieee_special_cases np" and "\<forall>z \<in> set (concat e). z = 0"
  shows "energy np e = Fin 0"
proof -
  have "map (\<lambda>z. np_square np (np_abs_of np z)) zs = replicate (length zs) (Fin 0)"
    if "\<forall>z \<in> set zs. z = 0" for zs
    using that assms(1) by (induction zs) (auto simp: ieee_special_cases_def)
  from this [OF assms(2)] assms(1) show ?thesis
    by (simp add: energy_def ieee_special_cases_def)
qed

lemma normalise_areas_three:
  "normalise_areas np [a, b, c] =
     map (\<lambda>x. np_multiply np (np_divide np x (np_sum np [a, b, c])) (Fin 100)) [a, b, c]"
  by (simp add: normalise_areas_def)

lemma normalise_areas_zero:
  assumes "ieee_special_cases np"
  shows "np_sum np [Fin 0, Fin 0, Fin 0] = Fin 0"
    and "normalise_areas np [Fin 0, Fin 0, Fin 0] = [NaN, NaN, NaN]"
proof -
  have "replicate 3 (Fin 0) = [Fin 0, Fin 0, Fin 0]" by (simp add: numeral_3_eq_3)
  with assms show t: "np_sum np [Fin 0, Fin 0, Fin 0] = Fin 0"
    unfolding ieee_special_cases_def by metis
  with assms show "normalise_areas np [Fin 0, Fin 0, Fin 0] = [NaN, NaN, NaN]"
    by (simp add: normalise_areas_def ieee_special_cases_def)
qed

lemma normalise_areas_finite:
  assumes "ieee_special_cases np"
    and "\<exists>v \<in> set (normalise_areas np [a, b, c]). \<exists>x. v = Fin x"
  shows "np_sum np [a, b, c] \<noteq> Fin 0"
proof
  assume z: "np_sum np [a, b, c] = Fin 0"
  from assms(2) obtain y x where y: "y \<in> {a, b, c}"
    and "np_multiply np (np_divide np y (Fin 0)) (Fin 100) = Fin x"
    by (auto simp: normalise_areas_def z)
  with assms(1) obtain q where "np_divide np y (Fin 0) = Fin q"
    unfolding ieee_special_cases_def by blast
  with assms(1) show False unfolding ieee_special_cases_def by blast
qed

lemma ideal_numpy_special_cases: "ieee_special_cases ideal_numpy"
proof -
  have s: "ideal_sum (replicate n (Fin 0)) = Fin 0" for n
  proof -
    have "foldl ideal_add (Fin 0) (replicate n (Fin 0)) = Fin 0"
      by (induction n) simp_all
    then show ?thesis by (simp add: ideal_sum_def)
  qed
  have d: "ideal_divide x (Fin 0) \<noteq> Fin r" for x r by (cases x) auto
  have m: "\<exists>s. v = Fin s" if "ideal_multiply v c = Fin r" for v c r
    using that by (cases v; cases c) (auto split: if_splits)
  show ?thesis
    unfolding ieee_special_cases_def using s d m by (auto simp: ideal_numpy_def)
qed

lemma near_bounds:
  assumes "near u x y" and "0 \<le> y"
  shows "(1 - u) * y \<le> x" and "x \<le> (1 + u) * y"
  using assms unfolding near_def by (simp_all add: algebra_simps abs_le_iff)

lemma rounding_polynomials:
  fixes u :: real
  assumes "0 \<le> u" and "u \<le> 1 / 10"
  shows "(1 + u)\<^sup>2 \<le> (1 + 4 * u) * (1 - u)"
    and "(1 - 4 * u) * (1 + u) \<le> (1 - u)\<^sup>2"
    and "(1 + u) ^ 3 \<le> (1 - u)\<^sup>2 * (1 + 10 * u)"
    and "(1 + u)\<^sup>2 - 10 * u * (1 - u)\<^sup>2 \<le> (1 - u) ^ 3"
proof -
  define v where "v = u * u"
  define w where "w = u * v"
  have v0: "0 \<le> v" by (simp add: v_def)
  have v1: "v \<le> u / 10" using assms mult_left_mono [of u "1 / 10" u] by (simp add: v_def)
  have w0: "0 \<le> w" using assms v0 by (simp add: w_def)
  have w1: "w \<le> u / 100"
    using assms v1 mult_left_mono [of v "u / 10" u] mult_left_mono [of u "1 / 10" "u / 10"]
    by (simp add: w_def v_def)
  have p2: "(1 + u)\<^sup>2 = 1 + 2 * u + v" "(1 - u)\<^sup>2 = 1 - 2 * u + v"
    by (simp_all add: v_def power2_eq_square algebra_simps)
  have p3: "(1 + u) ^ 3 = 1 + 3 * u + 3 * v + w" "(1 - u) ^ 3 = 1 - 3 * u + 3 * v - w"
    by (simp_all add: v_def w_def power3_eq_cube algebra_simps)
  have m1: "(1 + 4 * u) * (1 - u) = 1 + 3 * u - 4 * v"
    and m2: "(1 - 4 * u) * (1 + u) = 1 - 3 * u - 4 * v"
    and m3: "(1 - 2 * u + v) * (1 + 10 * u) = 1 + 8 * u - 19 * v + 10 * w"
    and m4: "10 * u * (1 - 2 * u + v) = 10 * u - 20 * v + 10 * w"
    by (simp_all add: v_def w_def algebra_simps)
  show "(1 + u)\<^sup>2 \<le> (1 + 4 * u) * (1 - u)" unfolding p2 m1 using v0 v1 by linarith
  show "(1 - 4 * u) * (1 + u) \<le> (1 - u)\<^sup>2" unfolding p2 m2 using v0 v1 assms by linarith
  show "(1 + u) ^ 3 \<le> (1 - u)\<^sup>2 * (1 + 10 * u)"
    unfolding p2 p3 m3 using v0 v1 w0 w1 assms by linarith
  show "(1 + u)\<^sup>2 - 10 * u * (1 - u)\<^sup>2 \<le> (1 - u) ^ 3"
    unfolding p2 p3 m4 using v0 v1 w0 w1 assms by linarith
qed

lemma entry_bounds:
  fixes u t a q p :: real
  assumes u: "0 \<le> u" "u \<le> 1" and t: "0 < t" and a: "0 \<le> a"
    and q: "near u q (a / t)" and p: "near u p (q * 100)"
  shows "100 * (1 - u)\<^sup>2 * a \<le> p * t" and "p * t \<le> 100 * (1 + u)\<^sup>2 * a"
proof -
  from a t have at: "0 \<le> a / t" by simp
  from near_bounds [OF q at] have q1: "(1 - u) * (a / t) \<le> q" and q2: "q \<le> (1 + u) * (a / t)" .
  from q1 t have "(1 - u) * (a / t) * t \<le> q * t" by (intro mult_right_mono) auto
  with t have qt1: "(1 - u) * a \<le> q * t" by simp
  from q2 t have "q * t \<le> (1 + u) * (a / t) * t" by (intro mult_right_mono) auto
  with t have qt2: "q * t \<le> (1 + u) * a" by simp
  from u at have "0 \<le> (1 - u) * (a / t)" by (intro mult_nonneg_nonneg) auto
  with q1 have q0: "0 \<le> q * 100" by simp
  from near_bounds [OF p q0] have p1: "(1 - u) * (q * 100) \<le> p" and p2: "p \<le> (1 + u) * (q * 100)" .
  from p1 t have "(1 - u) * (q * 100) * t \<le> p * t" by (intro mult_right_mono) auto
  then have pt1: "100 * (1 - u) * (q * t) \<le> p * t" by (simp add: algebra_simps)
  from p2 t have "p * t \<le> (1 + u) * (q * 100) * t" by (intro mult_right_mono) auto
  then have pt2: "p * t \<le> 100 * (1 + u) * (q * t)" by (simp add: algebra_simps)
  from qt1 u have "100 * (1 - u) * ((1 - u) * a) \<le> 100 * (1 - u) * (q * t)"
    by (intro mult_left_mono) auto
  with pt1 show "100 * (1 - u)\<^sup>2 * a \<le> p * t" by (simp add: power2_eq_square algebra_simps)
  from qt2 u have "100 * (1 + u) * (q * t) \<le> 100 * (1 + u) * ((1 + u) * a)"
    by (intro mult_left_mono) auto
  with pt2 show "p * t \<le> 100 * (1 + u)\<^sup>2 * a" by (simp add: power2_eq_square algebra_simps)
qed

lemma entry_near_fraction:
  fixes u A S a t q p :: real
  assumes u: "0 \<le> u" "u \<le> 1 / 10"
    and A: "0 \<le> A" "A \<le> S" and S: "0 < S"
    and a: "(1 - u) * A \<le> a" "a \<le> (1 + u) * A"
    and t: "(1 - u)\<^sup>2 * S \<le> t" "t \<le> (1 + u)\<^sup>2 * S"
    and q: "near u q (a / t)" and p: "near u p (q * 100)"
  shows "\<bar>p - 100 * A / S\<bar> \<le> 1000 * u"
proof -
  from u have k1: "0 < 1 - u" and k2: "0 < 1 + u" and u1: "u \<le> 1" by simp_all
  from k1 S have "0 < (1 - u)\<^sup>2 * S" by simp
  with t have tp: "0 < t" by simp
  from k1 A have "0 \<le> (1 - u) * A" by simp
  with a have a0: "0 \<le> a" by simp
  note eb = entry_bounds [OF u(1) u1 tp a0 q p]
  define r where "r = A / S"
  from S have rS: "r * S = A" by (simp add: r_def)
  from A S have r0: "0 \<le> r" by (simp add: r_def)
  have c1: "0 \<le> 100 * (1 + u)\<^sup>2" by simp
  have c2: "0 \<le> 100 * (1 - u)\<^sup>2" by simp
  \<comment> \<open>upper bound\<close>
  from a(2) c1 have "100 * (1 + u)\<^sup>2 * a \<le> 100 * (1 + u)\<^sup>2 * ((1 + u) * A)"
    by (rule mult_left_mono)
  also have "\<dots> = 100 * A * (1 + u) ^ 3" by (simp add: power2_eq_square power3_eq_cube)
  also from rounding_polynomials(3) [OF u] A
  have "\<dots> \<le> 100 * A * ((1 - u)\<^sup>2 * (1 + 10 * u))" by (intro mult_left_mono) auto
  finally have up1: "100 * (1 + u)\<^sup>2 * a \<le> 100 * A * ((1 - u)\<^sup>2 * (1 + 10 * u))" .
  from A u have "1000 * u * (1 - u)\<^sup>2 * A \<le> 1000 * u * (1 - u)\<^sup>2 * S"
    by (intro mult_left_mono) auto
  then have "100 * A * ((1 - u)\<^sup>2 * (1 + 10 * u)) \<le> (100 * r + 1000 * u) * ((1 - u)\<^sup>2 * S)"
    by (simp add: rS [symmetric] algebra_simps)
  also from t(1) r0 u have "\<dots> \<le> (100 * r + 1000 * u) * t" by (intro mult_left_mono) auto
  finally have "100 * A * ((1 - u)\<^sup>2 * (1 + 10 * u)) \<le> (100 * r + 1000 * u) * t" .
  with up1 eb(2) have "p * t \<le> (100 * r + 1000 * u) * t" by linarith
  with tp have upper: "p \<le> 100 * r + 1000 * u" by simp
  \<comment> \<open>lower bound\<close>
  from a(1) c2 have "100 * (1 - u)\<^sup>2 * ((1 - u) * A) \<le> 100 * (1 - u)\<^sup>2 * a"
    by (rule mult_left_mono)
  then have lo1: "100 * A * (1 - u) ^ 3 \<le> 100 * (1 - u)\<^sup>2 * a"
    by (simp add: power2_eq_square power3_eq_cube algebra_simps)
  from t(2) r0 have "100 * r * t \<le> 100 * r * ((1 + u)\<^sup>2 * S)" by (intro mult_left_mono) auto
  then have l2: "100 * r * t \<le> 100 * (1 + u)\<^sup>2 * A" by (simp add: rS [symmetric] algebra_simps)
  from t(1) u have "1000 * u * ((1 - u)\<^sup>2 * S) \<le> 1000 * u * t" by (intro mult_left_mono) auto
  moreover from A u have "1000 * u * ((1 - u)\<^sup>2 * A) \<le> 1000 * u * ((1 - u)\<^sup>2 * S)"
    by (intro mult_left_mono) auto
  ultimately have l3: "1000 * u * ((1 - u)\<^sup>2 * A) \<le> 1000 * u * t" by linarith
  from rounding_polynomials(4) [OF u] A
  have "100 * A * ((1 + u)\<^sup>2 - 10 * u * (1 - u)\<^sup>2) \<le> 100 * A * (1 - u) ^ 3"
    by (intro mult_left_mono) auto
  then have l4: "100 * (1 + u)\<^sup>2 * A - 1000 * u * ((1 - u)\<^sup>2 * A) \<le> 100 * A * (1 - u) ^ 3"
    by (simp add: algebra_simps)
  from l2 l3 l4 lo1 eb(1) have "(100 * r - 1000 * u) * t \<le> p * t"
    by (simp add: algebra_simps)
  with tp have lower: "100 * r - 1000 * u \<le> p" by simp
  from upper lower show ?thesis by (simp add: r_def abs_le_iff)
qed

lemma triplet_sum_bounds:
  fixes u s t pa pb pc :: real
  assumes u: "0 \<le> u" "u \<le> 1 / 10"
    and s: "0 < s" and t: "(1 - u) * s \<le> t" "t \<le> (1 + u) * s"
    and lo: "100 * (1 - u)\<^sup>2 * s \<le> (pa + pb + pc) * t"
    and hi: "(pa + pb + pc) * t \<le> 100 * (1 + u)\<^sup>2 * s"
  shows "\<bar>pa + pb + pc - 100\<bar> \<le> 400 * u"
proof -
  from u s have "0 < (1 - u) * s" by simp
  with t have tp: "0 < t" by simp
  from rounding_polynomials(1) [OF u] s
  have "100 * s * (1 + u)\<^sup>2 \<le> 100 * s * ((1 + 4 * u) * (1 - u))" by (intro mult_left_mono) auto
  then have "100 * (1 + u)\<^sup>2 * s \<le> (100 + 400 * u) * ((1 - u) * s)" by (simp add: algebra_simps)
  also from t(1) u have "\<dots> \<le> (100 + 400 * u) * t" by (intro mult_left_mono) auto
  finally have "(pa + pb + pc) * t \<le> (100 + 400 * u) * t" using hi by linarith
  with tp have upper: "pa + pb + pc \<le> 100 + 400 * u" by simp
  from rounding_polynomials(2) [OF u] s
  have "100 * s * ((1 - 4 * u) * (1 + u)) \<le> 100 * s * (1 - u)\<^sup>2" by (intro mult_left_mono) auto
  then have l1: "(100 - 400 * u) * ((1 + u) * s) \<le> 100 * (1 - u)\<^sup>2 * s" by (simp add: algebra_simps)
  from t(2) u have "(100 - 400 * u) * t \<le> (100 - 400 * u) * ((1 + u) * s)"
    by (intro mult_left_mono) auto
  with l1 lo have "(100 - 400 * u) * t \<le> (pa + pb + pc) * t" by linarith
  with tp have lower: "100 - 400 * u \<le> pa + pb + pc" by simp
  from upper lower show ?thesis by (simp add: abs_le_iff)
qed


lemma normalise_triplet:
  assumes acc: "triplet_accurate np u f g h" and u: "0 \<le> u" "u \<le> 1 / 10"
    and pos: "0 < (\<Sum>z\<leftarrow>concat f. (cmod z)\<^sup>2) + (\<Sum>z\<leftarrow>concat g. (cmod z)\<^sup>2)
                   + (\<Sum>z\<leftarrow>concat h. (cmod z)\<^sup>2)"
  shows "\<exists>p1 p2 p3.
     normalise_areas np [energy np f, energy np g, energy np h] = [Fin p1, Fin p2, Fin p3] \<and>
     \<bar>p1 + p2 + p3 - 100\<bar> \<le> 400 * u \<and>
     \<bar>p1 - 100 * (\<Sum>z\<leftarrow>concat f. (cmod z)\<^sup>2) /
        ((\<Sum>z\<leftarrow>concat f. (cmod z)\<^sup>2) + (\<Sum>z\<leftarrow>concat g. (cmod z)\<^sup>2)
           + (\<Sum>z\<leftarrow>concat h. (cmod z)\<^sup>2))\<bar> \<le> 1000 * u \<and>
     \<bar>p2 - 100 * (\<Sum>z\<leftarrow>concat g. (cmod z)\<^sup>2) /
        ((\<Sum>z\<leftarrow>concat f. (cmod z)\<^sup>2) + (\<Sum>z\<leftarrow>concat g. (cmod z)\<^sup>2)
           + (\<Sum>z\<leftarrow>concat h. (cmod z)\<^sup>2))\<bar> \<le> 1000 * u \<and>
     \<bar>p3 - 100 * (\<Sum>z\<leftarrow>concat h. (cmod z)\<^sup>2) /
        ((\<Sum>z\<leftarrow>concat f. (cmod z)\<^sup>2) + (\<Sum>z\<leftarrow>concat g. (cmod z)\<^sup>2)
           + (\<Sum>z\<leftarrow>concat h. (cmod z)\<^sup>2))\<bar> \<le> 1000 * u"
proof -
  define A where "A = (\<Sum>z\<leftarrow>concat f. (cmod z)\<^sup>2)"
  define B where "B = (\<Sum>z\<leftarrow>concat g. (cmod z)\<^sup>2)"
  define C where "C = (\<Sum>z\<leftarrow>concat h. (cmod z)\<^sup>2)"
  define S where "S = A + B + C"
  have nn: "0 \<le> A" "0 \<le> B" "0 \<le> C" by (simp_all add: A_def B_def C_def grid_sum_nonneg)
  from pos have S: "0 < S" by (simp add: S_def A_def B_def C_def)
  from nn have le: "A \<le> S" "B \<le> S" "C \<le> S" by (simp_all add: S_def)
  from acc obtain a b c t where
    ea: "np_sum np (map (\<lambda>z. np_square np (np_abs_of np z)) (concat f)) = Fin a"
    and na: "near u a A"
    and eb: "np_sum np (map (\<lambda>z. np_square np (np_abs_of np z)) (concat g)) = Fin b"
    and nb: "near u b B"
    and ec: "np_sum np (map (\<lambda>z. np_square np (np_abs_of np z)) (concat h)) = Fin c"
    and nc: "near u c C"
    and st: "np_sum np [Fin a, Fin b, Fin c] = Fin t" and nt: "near u t (a + b + c)"
    and each: "\<forall>x \<in> {a, b, c}. \<exists>q p.
           np_divide np (Fin x) (Fin t) = Fin q \<and> near u q (x / t) \<and>
           np_multiply np (Fin q) (Fin 100) = Fin p \<and> near u p (q * 100)"
    unfolding triplet_accurate_def A_def B_def C_def by blast
  from each obtain qa pa where
    da: "np_divide np (Fin a) (Fin t) = Fin qa" and nqa: "near u qa (a / t)"
    and ma: "np_multiply np (Fin qa) (Fin 100) = Fin pa" and npa: "near u pa (qa * 100)"
    by blast
  from each obtain qb pb where
    db: "np_divide np (Fin b) (Fin t) = Fin qb" and nqb: "near u qb (b / t)"
    and mb: "np_multiply np (Fin qb) (Fin 100) = Fin pb" and npb: "near u pb (qb * 100)"
    by blast
  from each obtain qc pc where
    dc: "np_divide np (Fin c) (Fin t) = Fin qc" and nqc: "near u qc (c / t)"
    and mc: "np_multiply np (Fin qc) (Fin 100) = Fin pc" and npc: "near u pc (qc * 100)"
    by blast
  from u have k1: "0 < 1 - u" and k2: "0 < 1 + u" and u1: "u \<le> 1" by simp_all
  note ba = near_bounds [OF na nn(1)] and bb = near_bounds [OF nb nn(2)]
    and bc = near_bounds [OF nc nn(3)]
  from k1 nn have "0 \<le> (1 - u) * A" "0 \<le> (1 - u) * B" "0 \<le> (1 - u) * C" by simp_all
  with ba(1) bb(1) bc(1) have abc: "0 \<le> a" "0 \<le> b" "0 \<le> c" by simp_all
  define s where "s = a + b + c"
  from ba bb bc have sb: "(1 - u) * S \<le> s" "s \<le> (1 + u) * S"
    by (simp_all add: s_def S_def algebra_simps)
  from k1 S have "0 < (1 - u) * S" by simp
  with sb(1) have sp: "0 < s" by simp
  from nt have nt': "near u t s" by (simp add: s_def)
  from sp have "0 \<le> s" by simp
  note bt = near_bounds [OF nt' this]
  from k1 sp have "0 < (1 - u) * s" by simp
  with bt(1) have tp: "0 < t" by simp
  from sb(1) k1 have "(1 - u) * ((1 - u) * S) \<le> (1 - u) * s" by (intro mult_left_mono) auto
  with bt(1) have t1: "(1 - u)\<^sup>2 * S \<le> t" by (simp add: power2_eq_square algebra_simps)
  from sb(2) k2 have "(1 + u) * s \<le> (1 + u) * ((1 + u) * S)" by (intro mult_left_mono) auto
  with bt(2) have t2: "t \<le> (1 + u)\<^sup>2 * S" by (simp add: power2_eq_square algebra_simps)
  note fa = entry_near_fraction [OF u nn(1) le(1) S ba t1 t2 nqa npa]
  note fb = entry_near_fraction [OF u nn(2) le(2) S bb t1 t2 nqb npb]
  note fc = entry_near_fraction [OF u nn(3) le(3) S bc t1 t2 nqc npc]
  note xa = entry_bounds [OF u(1) u1 tp abc(1) nqa npa]
  note xb = entry_bounds [OF u(1) u1 tp abc(2) nqb npb]
  note xc = entry_bounds [OF u(1) u1 tp abc(3) nqc npc]
  from xa(1) xb(1) xc(1) have lo: "100 * (1 - u)\<^sup>2 * s \<le> (pa + pb + pc) * t"
    by (simp add: s_def algebra_simps)
  from xa(2) xb(2) xc(2) have hi: "(pa + pb + pc) * t \<le> 100 * (1 + u)\<^sup>2 * s"
    by (simp add: s_def algebra_simps)
  note tot = triplet_sum_bounds [OF u sp bt lo hi]
  have val: "normalise_areas np [energy np f, energy np g, energy np h] = [Fin pa, Fin pb, Fin pc]"
    by (simp add: normalise_areas_def energy_def ea eb ec st da db dc ma mb mc)
  from val tot fa fb fc show ?thesis unfolding S_def A_def B_def C_def by blast
qed

lemma ideal_sum_Fin: "ideal_sum (map Fin xs) = Fin (sum_list xs)"
proof -
  have "foldl ideal_add (Fin a) (map Fin xs) = Fin (a + sum_list xs)" for a
    by (induction xs arbitrary: a) (simp_all add: algebra_simps)
  from this [of 0] show ?thesis by (simp add: ideal_sum_def)
qed

lemma ideal_energy: "energy ideal_numpy e = Fin (\<Sum>z\<leftarrow>concat e. (cmod z)\<^sup>2)"
proof -
  have "map (\<lambda>z. ideal_square (Fin (cmod z))) zs = map Fin (map (\<lambda>z. (cmod z)\<^sup>2) zs)" for zs
    by simp
  then show ?thesis by (simp add: energy_def ideal_numpy_def ideal_sum_Fin del: map_map)
qed

lemma ideal_triplet_accurate:
  assumes "(\<Sum>z\<leftarrow>concat f. (cmod z)\<^sup>2) + (\<Sum>z\<leftarrow>concat g. (cmod z)\<^sup>2)
             + (\<Sum>z\<leftarrow>concat h. (cmod z)\<^sup>2) \<noteq> 0"
  shows "triplet_accurate ideal_numpy 0 f g h"
proof -
  define A where "A = (\<Sum>z\<leftarrow>concat f. (cmod z)\<^sup>2)"
  define B where "B = (\<Sum>z\<leftarrow>concat g. (cmod z)\<^sup>2)"
  define C where "C = (\<Sum>z\<leftarrow>concat h. (cmod z)\<^sup>2)"
  from assms have t: "A + B + C \<noteq> 0" by (simp add: A_def B_def C_def)
  have e: "energy ideal_numpy f = Fin A" "energy ideal_numpy g = Fin B"
    "energy ideal_numpy h = Fin C"
    by (simp_all add: ideal_energy A_def B_def C_def)
  have "np_sum ideal_numpy [Fin A, Fin B, Fin C] = ideal_sum (map Fin [A, B, C])"
    by (simp add: ideal_numpy_def)
  then have s: "np_sum ideal_numpy [Fin A, Fin B, Fin C] = Fin (A + B + C)"
    by (simp only: ideal_sum_Fin) simp
  have d: "np_divide ideal_numpy (Fin x) (Fin (A + B + C)) = Fin (x / (A + B + C))"
    and m: "np_multiply ideal_numpy (Fin y) (Fin 100) = Fin (y * 100)" for x y
    using t by (simp_all add: ideal_numpy_def)
  have "np_sum ideal_numpy (map (\<lambda>z. np_square ideal_numpy (np_abs_of ideal_numpy z)) (concat f))
          = Fin A \<and> near 0 A A \<and>
        np_sum ideal_numpy (map (\<lambda>z. np_square ideal_numpy (np_abs_of ideal_numpy z)) (concat g))
          = Fin B \<and> near 0 B B \<and>
        np_sum ideal_numpy (map (\<lambda>z. np_square ideal_numpy (np_abs_of ideal_numpy z)) (concat h))
          = Fin C \<and> near 0 C C \<and>
        np_sum ideal_numpy [Fin A, Fin B, Fin C] = Fin (A + B + C) \<and>
        near 0 (A + B + C) (A + B + C) \<and>
        (\<forall>x \<in> {A, B, C}. \<exists>q p.
           np_divide ideal_numpy (Fin x) (Fin (A + B + C)) = Fin q \<and>
           near 0 q (x / (A + B + C)) \<and>
           np_multiply ideal_numpy (Fin q) (Fin 100) = Fin p \<and> near 0 p (q * 100))"
    by (simp add: e [unfolded energy_def] s d m near_def)
  then show ?thesis unfolding triplet_accurate_def A_def B_def C_def by blast
qed

section \<open>Group index: the central difference\<close>

text \<open>
  C1 as stated fails. \<open>solve_ng\<close> applies the formula to the effective indices as they
  are and takes no real part: for an absorbing structure, whose effective indices have
  the imaginary part 1, the group index returned is \<open>2 + \<i>\<close>, which is not real.
\<close>

theorem solve_ng_complex_counterexample:
  "fst (solve_ng (sv_solve lenient_sv_new lossy_sv_solve) demo_sv 1 1 1 (3 / 2) (1 / 10)) =
     Inr [FinC (Complex 2 1)] \<and>
   Im (Complex 2 1) \<noteq> 0"
  by (simp add: solve_ng_def solve_def sv_solve_def demo_defs Let_def complex_eq_iff)

text \<open>
  C1, amended. Whenever the three solves of \<open>solve_ng\<close> return (on any solver class),
  \<open>solve_ng\<close> returns a list as long as the shortest of the three effective-index
  sequences, these being \<open>self.n_effs\<close> after the solve at \<open>wavelength\<close>, at
  \<open>wavelength - wavelength_step\<close> and at \<open>wavelength + wavelength_step\<close>. When the step is
  not zero, the \<open>i\<close>-th entry is
  \<open>n_eff_center[i] - wavelength * (n_eff_forward[i] - n_eff_backward[i]) / (2 * wavelength_step)\<close>,
  a complex number in general and a real one whenever the effective indices are real.
  When the step is zero, every entry is a non-finite value.
\<close>

theorem solve_ng_formula:
  assumes ctr: "solve_impl self structure_ctr wavelength = (Inr r_ctr, self1)"
    and bck: "solve_impl self1 structure_bck (wavelength - wavelength_step) = (Inr r_bck, self2)"
    and frw: "solve_impl self2 structure_frw (wavelength + wavelength_step) = (Inr r_frw, self3)"
    and n1: "n_effs self1 = Some n_eff_center"
    and n2: "n_effs self2 = Some n_eff_backward"
    and n3: "n_effs self3 = Some n_eff_forward"
  shows "\<exists>n_gs.
           solve_ng solve_impl self structure_ctr structure_bck structure_frw wavelength
             wavelength_step = (Inr n_gs, self3) \<and>
           length n_gs =
             min (length n_eff_center) (min (length n_eff_backward) (length n_eff_forward)) \<and>
           (\<forall>i < length n_gs.
              n_gs ! i =
                (if wavelength_step = 0 then NonFiniteC
                 else FinC (n_eff_center ! i -
                        complex_of_real wavelength * (n_eff_forward ! i - n_eff_backward ! i)
                          / complex_of_real (2 * wavelength_step)))) \<and>
           (wavelength_step \<noteq> 0 \<and>
            (\<forall>z \<in> set n_eff_center \<union> set n_eff_backward \<union> set n_eff_forward. Im z = 0) \<longrightarrow>
              (\<forall>i < length n_gs. \<exists>x. n_gs ! i = FinC (complex_of_real x)))"
proof -
  let ?f = "\<lambda>(n_ctr, n_bck, n_frw).
              if wavelength_step = 0 then NonFiniteC
              else FinC (n_ctr - complex_of_real wavelength * (n_frw - n_bck)
                                   / complex_of_real (2 * wavelength_step))"
  let ?zs = "zip n_eff_center (zip n_eff_backward n_eff_forward)"
  have run: "solve_ng solve_impl self structure_ctr structure_bck structure_frw wavelength
               wavelength_step = (Inr (map ?f ?zs), self3)"
    using assms by (simp add: solve_ng_def solve_def ng_loop_eq)
  have len: "length (map ?f ?zs) =
      min (length n_eff_center) (min (length n_eff_backward) (length n_eff_forward))"
    by simp
  have entry: "(map ?f ?zs) ! i =
                (if wavelength_step = 0 then NonFiniteC
                 else FinC (n_eff_center ! i -
                        complex_of_real wavelength * (n_eff_forward ! i - n_eff_backward ! i)
                          / complex_of_real (2 * wavelength_step)))"
    if "i < length (map ?f ?zs)" for i
    using that by simp
  have re: "\<exists>x. (map ?f ?zs) ! i = FinC (complex_of_real x)"
    if i: "i < length (map ?f ?zs)" and step: "wavelength_step \<noteq> 0"
      and real: "\<forall>z \<in> set n_eff_center \<union> set n_eff_backward \<union> set n_eff_forward. Im z = 0"
    for i
  proof -
    from i have "n_eff_center ! i \<in> set n_eff_center"
      "n_eff_backward ! i \<in> set n_eff_backward" "n_eff_forward ! i \<in> set n_eff_forward"
      by simp_all
    with real have im: "Im (n_eff_center ! i) = 0" "Im (n_eff_backward ! i) = 0"
      "Im (n_eff_forward ! i) = 0"
      by blast+
    let ?g = "n_eff_center ! i -
                complex_of_real wavelength * (n_eff_forward ! i - n_eff_backward ! i)
                  / complex_of_real (2 * wavelength_step)"
    from im have "Im ?g = 0" by (simp add: Im_divide)
    then have "?g \<in> \<real>" by (simp only: complex_is_Real_iff)
    then obtain x where gx: "?g = complex_of_real x" by (rule Reals_cases)
    from entry [OF i] step have "(map ?f ?zs) ! i = FinC ?g" by (simp only: if_False)
    then have "(map ?f ?zs) ! i = FinC (complex_of_real x)" by (simp only: gx)
    then show ?thesis by blast
  qed
  show ?thesis using run len entry re by blast
qed

theorem solve_ng_formula_witness:
  "fst (solve_ng (sv_solve lenient_sv_new demo_sv_solve) demo_sv 1 2 3 (3 / 2) (1 / 10)) =
     Inr [FinC 2] \<and>
   fst (solve_ng (sv_solve lenient_sv_new demo_sv_solve) demo_sv 1 2 3 (3 / 2) 0) =
     Inr [NonFiniteC]"
proof -
  let ?solve = "sv_solve lenient_sv_new demo_sv_solve"
  define S1 where "S1 = snd (?solve demo_sv 1 (3 / 2))"
  define S2 where "S2 = snd (?solve S1 2 (3 / 2 - 1 / 10))"
  define S3 where "S3 = snd (?solve S2 3 (3 / 2 + 1 / 10))"
  define T2 where "T2 = snd (?solve S1 2 (3 / 2 - 0))"
  define T3 where "T3 = snd (?solve T2 3 (3 / 2 + 0))"
  have h1: "?solve demo_sv 1 (3 / 2) = (Inr \<lparr>r_n_effs = [37 / 20], r_modes = Some 0\<rparr>, S1)"
    unfolding S1_def by (simp add: sv_solve_def demo_defs Let_def)
  have n1: "n_effs S1 = Some [37 / 20]"
    unfolding S1_def by (simp add: sv_solve_def demo_defs Let_def)
  have h2: "?solve S1 2 (3 / 2 - 1 / 10) = (Inr \<lparr>r_n_effs = [93 / 50], r_modes = Some 1\<rparr>, S2)"
    unfolding S2_def S1_def by (simp add: sv_solve_def demo_defs Let_def)
  have n2: "n_effs S2 = Some [93 / 50]"
    unfolding S2_def S1_def by (simp add: sv_solve_def demo_defs Let_def)
  have h3: "?solve S2 3 (3 / 2 + 1 / 10) = (Inr \<lparr>r_n_effs = [46 / 25], r_modes = Some 2\<rparr>, S3)"
    unfolding S3_def S2_def S1_def by (simp add: sv_solve_def demo_defs Let_def)
  have n3: "n_effs S3 = Some [46 / 25]"
    unfolding S3_def S2_def S1_def by (simp add: sv_solve_def demo_defs Let_def)
  have k2: "?solve S1 2 (3 / 2 - 0) = (Inr \<lparr>r_n_effs = [37 / 20], r_modes = Some 1\<rparr>, T2)"
    unfolding T2_def S1_def by (simp add: sv_solve_def demo_defs Let_def)
  have m2: "n_effs T2 = Some [37 / 20]"
    unfolding T2_def S1_def by (simp add: sv_solve_def demo_defs Let_def)
  have k3: "?solve T2 3 (3 / 2 + 0) = (Inr \<lparr>r_n_effs = [37 / 20], r_modes = Some 2\<rparr>, T3)"
    unfolding T3_def T2_def S1_def by (simp add: sv_solve_def demo_defs Let_def)
  have m3: "n_effs T3 = Some [37 / 20]"
    unfolding T3_def T2_def S1_def by (simp add: sv_solve_def demo_defs Let_def)
  from solve_ng_formula [OF h1 h2 h3 n1 n2 n3]
  obtain n_gs where run: "solve_ng ?solve demo_sv 1 2 3 (3 / 2) (1 / 10) = (Inr n_gs, S3)"
    and len: "length n_gs = 1"
    and entry: "\<forall>i < length n_gs. n_gs ! i =
       (if (1 / 10 :: real) = 0 then NonFiniteC
        else FinC ([37 / 20] ! i -
                complex_of_real (3 / 2) * ([46 / 25] ! i - [93 / 50] ! i)
                  / complex_of_real (2 * (1 / 10))))"
    by auto
  from len entry have "n_gs ! 0 = FinC 2" by simp
  with len have "n_gs = [FinC 2]" by (cases n_gs) auto
  with run have A: "fst (solve_ng ?solve demo_sv 1 2 3 (3 / 2) (1 / 10)) = Inr [FinC 2]"
    by simp
  from solve_ng_formula [OF h1 k2 k3 n1 m2 m3]
  obtain n_gs' where run': "solve_ng ?solve demo_sv 1 2 3 (3 / 2) 0 = (Inr n_gs', T3)"
    and len': "length n_gs' = 1"
    and entry': "\<forall>i < length n_gs'. n_gs' ! i = NonFiniteC"
    by auto
  from len' entry' have "n_gs' ! 0 = NonFiniteC" by simp
  with len' have "n_gs' = [NonFiniteC]" by (cases n_gs') auto
  with run' have "fst (solve_ng ?solve demo_sv 1 2 3 (3 / 2) 0) = Inr [NonFiniteC]"
    by simp
  with A show ?thesis by simp
qed

section \<open>Semi-vectorial solves: the warm start\<close>

text \<open>
  C4. A semi-vectorial solve with mode profiles enabled, whose engine returns at least
  one mode, completes and leaves in \<open>initial_mode_guess\<close> the element-wise magnitude of the
  field \<open>m0\<close> of the first (fundamental) mode the engine returned. The next solve on the
  same solver hands exactly that magnitude to the engine as its initial mode guess, and
  both sweeps continue from the state the solve left, so the next element of a sweep is
  solved with that guess.
\<close>

theorem sv_solve_warm_start:
  assumes new: "ms_new w s (boundary self) (semi_vectorial_method self) = Inr eng"
    and run: "ms_solve eng (n_eigs self) (tol self) (mode_profiles self)
                (initial_mode_guess self) = Inr res"
    and prof: "mode_profiles self"
    and fund: "res_modes res = m0 # others"
    and new2: "ms_new w2 s2 (boundary self) (semi_vectorial_method self) = Inr eng2"
  shows "\<exists>r self'.
           sv_solve ms_new ms_solve self s w = (Inr r, self') \<and>
           initial_mode_guess self' = Some (map (map (\<lambda>z. complex_of_real (cmod z))) m0) \<and>
           eigensolves (snd (sv_solve ms_new ms_solve self' s2 w2)) =
             eigensolves self' @
               [\<lparr>call_structure = s2, call_wavelength = w2,
                 call_initial_mode_guess = Some (map (map (\<lambda>z. complex_of_real (cmod z))) m0),
                 call_n_eff_guess = None\<rparr>] \<and>
           sweep_structure_loop (sv_solve ms_new ms_solve) self (s # rest) w acc =
             sweep_structure_loop (sv_solve ms_new ms_solve) self' rest w (acc @ [r]) \<and>
           sweep_wavelength_loop (sv_solve ms_new ms_solve) self s (w # rest') acc =
             sweep_wavelength_loop (sv_solve ms_new ms_solve) self' s rest' (acc @ [r])"
proof -
  let ?r = "\<lparr>r_n_effs = res_neff res, r_modes = Some (length (heap self))\<rparr>"
  obtain self' where eq: "sv_solve ms_new ms_solve self s w = (Inr ?r, self')"
    and guess: "initial_mode_guess self' = Some (np_abs m0)"
    using sv_solve_profiles [where ms_new = ms_new and ms_solve = ms_solve, OF new run prof fund]
    by simp
  have "boundary self' = boundary self" "semi_vectorial_method self' = semi_vectorial_method self"
    using sv_solve_frame [of ms_new ms_solve self s w] eq by simp_all
  with new2 have "ms_new w2 s2 (boundary self') (semi_vectorial_method self') = Inr eng2"
    by simp
  from sv_solve_log [where ms_new = ms_new and ms_solve = ms_solve, OF this] guess
  have log: "eigensolves (snd (sv_solve ms_new ms_solve self' s2 w2)) =
             eigensolves self' @
               [\<lparr>call_structure = s2, call_wavelength = w2,
                 call_initial_mode_guess = Some (np_abs m0), call_n_eff_guess = None\<rparr>]"
    by simp
  have sw1: "sweep_structure_loop (sv_solve ms_new ms_solve) self (s # rest) w acc =
             sweep_structure_loop (sv_solve ms_new ms_solve) self' rest w (acc @ [?r])"
    using eq by (simp add: solve_def)
  have sw2: "sweep_wavelength_loop (sv_solve ms_new ms_solve) self s (w # rest') acc =
             sweep_wavelength_loop (sv_solve ms_new ms_solve) self' s rest' (acc @ [?r])"
    using eq by (simp add: solve_def)
  show ?thesis using eq guess log sw1 sw2 unfolding np_abs_def by blast
qed

theorem sv_solve_warm_start_witness:
  "\<exists>r self'.
     sv_solve lenient_sv_new demo_sv_solve demo_sv 1 (3 / 2) = (Inr r, self') \<and>
     initial_mode_guess self' = Some [[1]] \<and>
     eigensolves (snd (sv_solve lenient_sv_new demo_sv_solve self' 2 (8 / 5))) =
       eigensolves self' @
         [\<lparr>call_structure = 2, call_wavelength = 8 / 5,
           call_initial_mode_guess = Some [[1]], call_n_eff_guess = None\<rparr>]"
proof -
  have new: "lenient_sv_new (3 / 2) 1 (boundary demo_sv) (semi_vectorial_method demo_sv)
      = Inr (3 / 2, 1)"
    by (simp add: lenient_sv_new_def)
  have run: "demo_sv_solve (3 / 2, 1) (n_eigs demo_sv) (tol demo_sv) (mode_profiles demo_sv)
      (initial_mode_guess demo_sv)
      = Inr \<lparr>res_neff = [complex_of_real (2 - (3 / 2) / 10)],
             res_modes = [[[\<i> * complex_of_real (real 1)]], [[Complex 3 4]]]\<rparr>"
    by (simp add: demo_sv_solve_def)
  have prof: "mode_profiles demo_sv" by (simp add: demo_defs)
  have fund: "res_modes \<lparr>res_neff = [complex_of_real (2 - (3 / 2) / 10)],
             res_modes = [[[\<i> * complex_of_real (real 1)]], [[Complex 3 4]]]\<rparr>
             = [[\<i> * complex_of_real (real 1)]] # [[[Complex 3 4]]]"
    by simp
  have new2: "lenient_sv_new (8 / 5) 2 (boundary demo_sv) (semi_vectorial_method demo_sv)
      = Inr (8 / 5, 2)"
    by (simp add: lenient_sv_new_def)
  from sv_solve_warm_start
    [where ms_new = lenient_sv_new and ms_solve = demo_sv_solve and rest = "[]" and rest' = "[]"
       and acc = "[]", OF new run prof fund new2]
  obtain r self' where
    "sv_solve lenient_sv_new demo_sv_solve demo_sv 1 (3 / 2) = (Inr r, self')"
    "initial_mode_guess self' = Some [[1]]"
    "eigensolves (snd (sv_solve lenient_sv_new demo_sv_solve self' 2 (8 / 5))) =
       eigensolves self' @
         [\<lparr>call_structure = 2, call_wavelength = 8 / 5,
           call_initial_mode_guess = Some [[1]], call_n_eff_guess = None\<rparr>]"
    by (auto simp: norm_mult)
  then show ?thesis by blast
qed

section \<open>Group index: the guesses of the three solves\<close>

text \<open>
  C2 as stated fails. On a semi-vectorial solver with mode profiles enabled, \<open>solve_ng\<close>
  runs its three solves on the one solver object, and each solve stores the magnitude
  of its fundamental field as the guess of the next: the backward solve is started from
  the centre solve's field, the forward solve from the backward solve's.
\<close>

theorem solve_ng_guess_chain_counterexample:
  "initial_mode_guess demo_sv = None \<and>
   demo_sv_solve (3 / 2, 1) 2 0 True None =
     Inr \<lparr>res_neff = [37 / 20], res_modes = [[[\<i>]], [[Complex 3 4]]]\<rparr> \<and>
   demo_sv_solve (7 / 5, 2) 2 0 True (Some (np_abs [[\<i>]])) =
     Inr \<lparr>res_neff = [93 / 50], res_modes = [[[\<i> * 2]], [[Complex 3 4]]]\<rparr> \<and>
   map call_initial_mode_guess
     (eigensolves (snd (solve_ng (sv_solve lenient_sv_new demo_sv_solve) demo_sv 1 2 3
        (3 / 2) (1 / 10)))) =
     [None, Some (np_abs [[\<i>]]), Some (np_abs [[\<i> * 2]])] \<and>
   np_abs [[\<i>]] = [[1]] \<and> np_abs [[\<i> * 2]] = [[2]]"
  by (simp add: solve_ng_def solve_def sv_solve_def demo_defs Let_def np_abs_def norm_mult)

text \<open>
  C2, amended. The initial mode guesses handed to the engine by the three solves of
  \<open>solve_ng\<close>, in order, are:
  \<^item> on a fully-vectorial solver: the guess stored in the solver, then none, then none;
  \<^item> on a semi-vectorial solver with mode profiles disabled: three times the guess
    stored in the solver;
  \<^item> on a semi-vectorial solver with mode profiles enabled: the guess stored in the
    solver, then the magnitude of the centre solve's fundamental field, then the
    magnitude of the backward solve's fundamental field.
  So the backward and forward solves are independent of the earlier results in the first
  two cases, and form a warm-start chain in the third.
\<close>

theorem solve_ng_guess_chain:
  "(fv_solve np fv_new fv_run fself s_ctr w = (Inr fr1, fself1) \<and>
    fv_solve np fv_new fv_run fself1 s_bck (w - step) = (Inr fr2, fself2) \<and>
    fv_new (w + step) s_frw (boundary fself) = Inr feng3 \<longrightarrow>
      map call_initial_mode_guess
        (drop (length (eigensolves fself))
           (eigensolves (snd (solve_ng (fv_solve np fv_new fv_run) fself s_ctr s_bck s_frw w step))))
      = [initial_mode_guess fself, None, None]) \<and>
   (\<not> mode_profiles pself \<and>
    sv_solve sv_new sv_run pself s_ctr w = (Inr pr1, pself1) \<and>
    sv_solve sv_new sv_run pself1 s_bck (w - step) = (Inr pr2, pself2) \<and>
    sv_new (w + step) s_frw (boundary pself) (semi_vectorial_method pself) = Inr peng3 \<longrightarrow>
      map call_initial_mode_guess
        (drop (length (eigensolves pself))
           (eigensolves (snd (solve_ng (sv_solve sv_new sv_run) pself s_ctr s_bck s_frw w step))))
      = [initial_mode_guess pself, initial_mode_guess pself, initial_mode_guess pself]) \<and>
   (mode_profiles self \<and>
    sv_new w s_ctr (boundary self) (semi_vectorial_method self) = Inr eng1 \<and>
    sv_run eng1 (n_eigs self) (tol self) (mode_profiles self) (initial_mode_guess self) = Inr res1 \<and>
    res_modes res1 = m1 # others1 \<and>
    sv_new (w - step) s_bck (boundary self) (semi_vectorial_method self) = Inr eng2 \<and>
    sv_run eng2 (n_eigs self) (tol self) (mode_profiles self)
      (Some (map (map (\<lambda>z. complex_of_real (cmod z))) m1)) = Inr res2 \<and>
    res_modes res2 = m2 # others2 \<and>
    sv_new (w + step) s_frw (boundary self) (semi_vectorial_method self) = Inr eng3 \<longrightarrow>
      map call_initial_mode_guess
        (drop (length (eigensolves self))
           (eigensolves (snd (solve_ng (sv_solve sv_new sv_run) self s_ctr s_bck s_frw w step))))
      = [initial_mode_guess self,
         Some (map (map (\<lambda>z. complex_of_real (cmod z))) m1),
         Some (map (map (\<lambda>z. complex_of_real (cmod z))) m2)])"
proof (intro conjI impI)
  assume "fv_solve np fv_new fv_run fself s_ctr w = (Inr fr1, fself1) \<and>
    fv_solve np fv_new fv_run fself1 s_bck (w - step) = (Inr fr2, fself2) \<and>
    fv_new (w + step) s_frw (boundary fself) = Inr feng3"
  then show "map call_initial_mode_guess
        (drop (length (eigensolves fself))
           (eigensolves (snd (solve_ng (fv_solve np fv_new fv_run) fself s_ctr s_bck s_frw w step))))
      = [initial_mode_guess fself, None, None]"
    using fv_solve_ng_guesses [where ms_new = fv_new and ms_solve = fv_run] by blast
next
  assume "\<not> mode_profiles pself \<and>
    sv_solve sv_new sv_run pself s_ctr w = (Inr pr1, pself1) \<and>
    sv_solve sv_new sv_run pself1 s_bck (w - step) = (Inr pr2, pself2) \<and>
    sv_new (w + step) s_frw (boundary pself) (semi_vectorial_method pself) = Inr peng3"
  then show "map call_initial_mode_guess
        (drop (length (eigensolves pself))
           (eigensolves (snd (solve_ng (sv_solve sv_new sv_run) pself s_ctr s_bck s_frw w step))))
      = [initial_mode_guess pself, initial_mode_guess pself, initial_mode_guess pself]"
    using sv_plain_solve_ng_guesses [where ms_new = sv_new and ms_solve = sv_run] by blast
next
  assume a: "mode_profiles self \<and>
    sv_new w s_ctr (boundary self) (semi_vectorial_method self) = Inr eng1 \<and>
    sv_run eng1 (n_eigs self) (tol self) (mode_profiles self) (initial_mode_guess self) = Inr res1 \<and>
    res_modes res1 = m1 # others1 \<and>
    sv_new (w - step) s_bck (boundary self) (semi_vectorial_method self) = Inr eng2 \<and>
    sv_run eng2 (n_eigs self) (tol self) (mode_profiles self)
      (Some (map (map (\<lambda>z. complex_of_real (cmod z))) m1)) = Inr res2 \<and>
    res_modes res2 = m2 # others2 \<and>
    sv_new (w + step) s_frw (boundary self) (semi_vectorial_method self) = Inr eng3"
  from a have h: "mode_profiles self"
    "sv_new w s_ctr (boundary self) (semi_vectorial_method self) = Inr eng1"
    "sv_run eng1 (n_eigs self) (tol self) (mode_profiles self) (initial_mode_guess self) = Inr res1"
    "res_modes res1 = m1 # others1"
    "sv_new (w - step) s_bck (boundary self) (semi_vectorial_method self) = Inr eng2"
    "sv_run eng2 (n_eigs self) (tol self) (mode_profiles self) (Some (np_abs m1)) = Inr res2"
    "res_modes res2 = m2 # others2"
    "sv_new (w + step) s_frw (boundary self) (semi_vectorial_method self) = Inr eng3"
    by (auto simp add: np_abs_def)
  have "map call_initial_mode_guess
        (drop (length (eigensolves self))
           (eigensolves (snd (solve_ng (sv_solve sv_new sv_run) self s_ctr s_bck s_frw w step))))
      = [initial_mode_guess self, Some (np_abs m1), Some (np_abs m2)]"
    by (rule sv_profiles_solve_ng_guesses [where ms_new = sv_new and ms_solve = sv_run, OF h])
  then show "map call_initial_mode_guess
        (drop (length (eigensolves self))
           (eigensolves (snd (solve_ng (sv_solve sv_new sv_run) self s_ctr s_bck s_frw w step))))
      = [initial_mode_guess self,
         Some (map (map (\<lambda>z. complex_of_real (cmod z))) m1),
         Some (map (map (\<lambda>z. complex_of_real (cmod z))) m2)]"
    by (simp add: np_abs_def)
qed

theorem solve_ng_guess_chain_witness:
  "map call_initial_mode_guess
     (eigensolves (snd (solve_ng (fv_solve ideal_numpy lenient_fv_new demo_fv_solve) demo_fv 1 1 1
        (3 / 2) (1 / 10)))) = [Some [[1]], None, None] \<and>
   map call_initial_mode_guess
     (eigensolves (snd (solve_ng (sv_solve lenient_sv_new demo_sv_solve) demo_sv_plain 1 2 3
        (3 / 2) (1 / 10)))) = [Some [[1]], Some [[1]], Some [[1]]] \<and>
   map call_initial_mode_guess
     (eigensolves (snd (solve_ng (sv_solve lenient_sv_new demo_sv_solve) demo_sv 1 2 3
        (3 / 2) (1 / 10)))) = [None, Some [[1]], Some [[2]]]"
proof -
  let ?fv = "fv_solve ideal_numpy lenient_fv_new demo_fv_solve"
  let ?sv = "sv_solve lenient_sv_new demo_sv_solve"
  define F1 where "F1 = snd (?fv demo_fv 1 (3 / 2))"
  define F2 where "F2 = snd (?fv F1 1 (3 / 2 - 1 / 10))"
  define P1 where "P1 = snd (?sv demo_sv_plain 1 (3 / 2))"
  define P2 where "P2 = snd (?sv P1 2 (3 / 2 - 1 / 10))"
  have f1: "?fv demo_fv 1 (3 / 2) = (Inr \<lparr>r_n_effs = [37 / 20, 1], r_modes = Some 0\<rparr>, F1)"
    unfolding F1_def by (simp add: fv_eval_defs demo_defs Let_def)
  have f2: "?fv F1 1 (3 / 2 - 1 / 10) = (Inr \<lparr>r_n_effs = [93 / 50, 1], r_modes = Some 1\<rparr>, F2)"
    unfolding F2_def F1_def by (simp add: fv_eval_defs demo_defs Let_def)
  have f3: "lenient_fv_new (3 / 2 + 1 / 10) 1 (boundary demo_fv) = Inr (3 / 2 + 1 / 10, 1)"
    by (simp add: lenient_fv_new_def)
  have p0: "\<not> mode_profiles demo_sv_plain" by (simp add: demo_defs)
  have p1: "?sv demo_sv_plain 1 (3 / 2) = (Inr \<lparr>r_n_effs = [37 / 20], r_modes = None\<rparr>, P1)"
    unfolding P1_def by (simp add: sv_solve_def demo_defs Let_def)
  have p2: "?sv P1 2 (3 / 2 - 1 / 10) = (Inr \<lparr>r_n_effs = [93 / 50], r_modes = None\<rparr>, P2)"
    unfolding P2_def P1_def by (simp add: sv_solve_def demo_defs Let_def)
  have p3: "lenient_sv_new (3 / 2 + 1 / 10) 3 (boundary demo_sv_plain)
      (semi_vectorial_method demo_sv_plain) = Inr (3 / 2 + 1 / 10, 3)"
    by (simp add: lenient_sv_new_def)
  have q0: "mode_profiles demo_sv" by (simp add: demo_defs)
  have q1: "lenient_sv_new (3 / 2) 1 (boundary demo_sv) (semi_vectorial_method demo_sv)
      = Inr (3 / 2, 1)"
    by (simp add: lenient_sv_new_def)
  have q2: "demo_sv_solve (3 / 2, 1) (n_eigs demo_sv) (tol demo_sv) (mode_profiles demo_sv)
      (initial_mode_guess demo_sv)
      = Inr \<lparr>res_neff = [37 / 20], res_modes = [[[\<i>]], [[Complex 3 4]]]\<rparr>"
    by (simp add: demo_sv_solve_def)
  have q3: "res_modes \<lparr>res_neff = [37 / 20], res_modes = [[[\<i>]], [[Complex 3 4]]]\<rparr>
      = [[\<i>]] # [[[Complex 3 4]]]"
    by simp
  have q4: "lenient_sv_new (3 / 2 - 1 / 10) 2 (boundary demo_sv) (semi_vectorial_method demo_sv)
      = Inr (3 / 2 - 1 / 10, 2)"
    by (simp add: lenient_sv_new_def)
  have q5: "demo_sv_solve (3 / 2 - 1 / 10, 2) (n_eigs demo_sv) (tol demo_sv) (mode_profiles demo_sv)
      (Some (map (map (\<lambda>z. complex_of_real (cmod z))) [[\<i>]]))
      = Inr \<lparr>res_neff = [93 / 50], res_modes = [[[\<i> * 2]], [[Complex 3 4]]]\<rparr>"
    by (simp add: demo_sv_solve_def)
  have q6: "res_modes \<lparr>res_neff = [93 / 50], res_modes = [[[\<i> * 2]], [[Complex 3 4]]]\<rparr>
      = [[\<i> * 2]] # [[[Complex 3 4]]]"
    by simp
  have q7: "lenient_sv_new (3 / 2 + 1 / 10) 3 (boundary demo_sv) (semi_vectorial_method demo_sv)
      = Inr (3 / 2 + 1 / 10, 3)"
    by (simp add: lenient_sv_new_def)
  have e0: "eigensolves demo_fv = []" "eigensolves demo_sv_plain = []" "eigensolves demo_sv = []"
    "initial_mode_guess demo_fv = Some [[1]]" "initial_mode_guess demo_sv_plain = Some [[1]]"
    "initial_mode_guess demo_sv = None"
    by (simp_all add: demo_defs)
  note inst = solve_ng_guess_chain
    [where fv_new = lenient_fv_new and fv_run = demo_fv_solve and fself = demo_fv
       and sv_new = lenient_sv_new and sv_run = demo_sv_solve and pself = demo_sv_plain
       and self = demo_sv and w = "3 / 2" and step = "1 / 10"]
  from inst [THEN conjunct1, rule_format, OF conjI [OF f1 conjI [OF f2 f3]]]
  have A: "map call_initial_mode_guess
     (eigensolves (snd (solve_ng ?fv demo_fv 1 1 1 (3 / 2) (1 / 10)))) = [Some [[1]], None, None]"
    by (simp add: e0)
  from inst [THEN conjunct2, THEN conjunct1, rule_format,
      OF conjI [OF p0 conjI [OF p1 conjI [OF p2 p3]]]]
  have B: "map call_initial_mode_guess
     (eigensolves (snd (solve_ng ?sv demo_sv_plain 1 2 3 (3 / 2) (1 / 10))))
       = [Some [[1]], Some [[1]], Some [[1]]]"
    by (simp add: e0)
  from inst [THEN conjunct2, THEN conjunct2, rule_format,
      OF conjI [OF q0 conjI [OF q1 conjI [OF q2 conjI [OF q3 conjI [OF q4 conjI [OF q5 conjI [OF q6 q7]]]]]]]]
  have C: "map call_initial_mode_guess
     (eigensolves (snd (solve_ng ?sv demo_sv 1 2 3 (3 / 2) (1 / 10))))
       = [None, Some [[1]], Some [[2]]]"
    by (simp add: e0 norm_mult)
  from A B C show ?thesis by blast
qed

section \<open>Sweeps: a failing step\<close>

text \<open>
  C3 as stated fails in its second half. A sweep whose third solve does not converge
  ends with that exception alone: the results of the two completed steps, which the
  loop had collected, are not returned. The first half holds: the fourth structure is
  never solved.
\<close>

theorem sweep_failure_discards_results_counterexample:
  "fst (sweep_structure_loop (sv_solve lenient_sv_new demo_sv_solve) demo_sv [1, 2] (3 / 2) []) =
     Inr [\<lparr>r_n_effs = [37 / 20], r_modes = Some 0\<rparr>, \<lparr>r_n_effs = [37 / 20], r_modes = Some 1\<rparr>] \<and>
   fst (solve_sweep_structure (sv_solve lenient_sv_new demo_sv_solve) demo_sv [1, 2, 0, 3] (3 / 2)
          ''n_effs.dat'' True) = Inl NonConvergenceError \<and>
   map call_structure
     (eigensolves (snd (solve_sweep_structure (sv_solve lenient_sv_new demo_sv_solve) demo_sv
        [1, 2, 0, 3] (3 / 2) ''n_effs.dat'' True))) = [1, 2, 0]"
  by (simp add: solve_sweep_structure_def solve_def sv_solve_def demo_defs Let_def)

text \<open>
  C3, amended. In both sweeps, if the solves of the first \<open>k\<close> elements succeed (having
  produced \<open>k\<close> results) and the solve of element \<open>k\<close> raises \<open>e\<close>, then the sweep raises \<open>e\<close>
  and returns no result list; the solver is left as the failing solve left it, whatever
  elements follow, so no later element is solved.
\<close>

theorem sweep_aborts_at_first_failure:
  "(sweep_structure_loop solve_impl self pre w [] = (Inr completed, self_k) \<and>
    solve_impl self_k s w = (Inl e, self_f) \<longrightarrow>
      length completed = length pre \<and>
      solve_sweep_structure solve_impl self (pre @ s # rest) w filename plot = (Inl e, self_f)) \<and>
   (sweep_wavelength_loop solve_impl self' s' pre' [] = (Inr completed', self_k') \<and>
    solve_impl self_k' s' w' = (Inl e', self_f') \<longrightarrow>
      length completed' = length pre' \<and>
      solve_sweep_wavelength solve_impl self' s' (pre' @ w' # rest') filename' plot' =
        (Inl e', self_f'))"
proof (intro conjI impI)
  assume a: "sweep_structure_loop solve_impl self pre w [] = (Inr completed, self_k) \<and>
    solve_impl self_k s w = (Inl e, self_f)"
  then show "length completed = length pre"
    using sweep_structure_loop_length [of solve_impl self pre w "[]" completed self_k] by simp
  from a show "solve_sweep_structure solve_impl self (pre @ s # rest) w filename plot
      = (Inl e, self_f)"
    by (simp add: solve_sweep_structure_def sweep_structure_loop_append solve_def)
next
  assume a: "sweep_wavelength_loop solve_impl self' s' pre' [] = (Inr completed', self_k') \<and>
    solve_impl self_k' s' w' = (Inl e', self_f')"
  then show "length completed' = length pre'"
    using sweep_wavelength_loop_length [of solve_impl self' s' pre' "[]" completed' self_k']
    by simp
  from a show "solve_sweep_wavelength solve_impl self' s' (pre' @ w' # rest') filename' plot'
      = (Inl e', self_f')"
    by (simp add: solve_sweep_wavelength_def sweep_wavelength_loop_append solve_def)
qed

theorem sweep_aborts_at_first_failure_witness:
  "fst (solve_sweep_structure (sv_solve lenient_sv_new demo_sv_solve) demo_sv ([1, 2] @ 0 # [3])
          (3 / 2) ''n_effs.dat'' True) = Inl NonConvergenceError \<and>
   fst (solve_sweep_wavelength (sv_solve lenient_sv_new demo_sv_solve) demo_sv 1
          ([3 / 2] @ 0 # [8 / 5]) ''n_effs.dat'' True) = Inl NonConvergenceError"
proof -
  let ?sv = "sv_solve lenient_sv_new demo_sv_solve"
  define K where "K = snd (sweep_structure_loop ?sv demo_sv [1, 2] (3 / 2) [])"
  define F where "F = snd (?sv K 0 (3 / 2))"
  define K' where "K' = snd (sweep_wavelength_loop ?sv demo_sv 1 [3 / 2] [])"
  define F' where "F' = snd (?sv K' 1 0)"
  have a1: "sweep_structure_loop ?sv demo_sv [1, 2] (3 / 2) [] =
      (Inr [\<lparr>r_n_effs = [37 / 20], r_modes = Some 0\<rparr>, \<lparr>r_n_effs = [37 / 20], r_modes = Some 1\<rparr>], K)"
    unfolding K_def by (simp add: solve_def sv_solve_def demo_defs Let_def)
  have a2: "?sv K 0 (3 / 2) = (Inl NonConvergenceError, F)"
    unfolding F_def K_def by (simp add: solve_def sv_solve_def demo_defs Let_def)
  have b1: "sweep_wavelength_loop ?sv demo_sv 1 [3 / 2] [] =
      (Inr [\<lparr>r_n_effs = [37 / 20], r_modes = Some 0\<rparr>], K')"
    unfolding K'_def by (simp add: solve_def sv_solve_def demo_defs Let_def)
  have b2: "?sv K' 1 0 = (Inl NonConvergenceError, F')"
    unfolding F'_def K'_def by (simp add: solve_def sv_solve_def demo_defs Let_def)
  note inst = sweep_aborts_at_first_failure
    [where solve_impl = ?sv and self = demo_sv and self' = demo_sv and rest = "[3]"
       and rest' = "[8 / 5]" and filename = "''n_effs.dat''" and filename' = "''n_effs.dat''"
       and plot = True and plot' = True]
  from inst [THEN conjunct1, rule_format, OF conjI [OF a1 a2]]
    inst [THEN conjunct2, rule_format, OF conjI [OF b1 b2]]
  show ?thesis by simp
qed

section \<open>Fully-vectorial solves: what is carried forward\<close>

text \<open>
  C5. A fully-vectorial solve that completes leaves \<open>initial_mode_guess\<close> at none, and
  no solve, completed or not, changes \<open>n_eff_guess\<close>. Hence in both sweeps every engine
  invocation receives the \<open>n_eff_guess\<close> the solver was constructed with, every
  invocation after the first receives no initial mode guess, and \<open>n_eff_guess\<close> is still
  the same when the sweep ends.
\<close>

theorem fv_guess_reset_n_eff_guess_kept:
  "(fv_solve np ms_new ms_solve self s w = (Inr r, self') \<longrightarrow>
      initial_mode_guess self' = None \<and> n_eff_guess self' = n_eff_guess self) \<and>
   n_eff_guess (snd (fv_solve np ms_new ms_solve self s w)) = n_eff_guess self \<and>
   n_eff_guess (snd (solve_sweep_structure (fv_solve np ms_new ms_solve) self ss w filename plot))
     = n_eff_guess self \<and>
   (\<forall>c \<in> set (drop (length (eigensolves self))
        (eigensolves (snd (solve_sweep_structure (fv_solve np ms_new ms_solve) self ss w
           filename plot)))).
      call_n_eff_guess c = n_eff_guess self) \<and>
   (\<forall>c \<in> set (tl (drop (length (eigensolves self))
        (eigensolves (snd (solve_sweep_structure (fv_solve np ms_new ms_solve) self ss w
           filename plot))))).
      call_initial_mode_guess c = None) \<and>
   n_eff_guess (snd (solve_sweep_wavelength (fv_solve np ms_new ms_solve) self s ws filename plot))
     = n_eff_guess self \<and>
   (\<forall>c \<in> set (drop (length (eigensolves self))
        (eigensolves (snd (solve_sweep_wavelength (fv_solve np ms_new ms_solve) self s ws
           filename plot)))).
      call_n_eff_guess c = n_eff_guess self) \<and>
   (\<forall>c \<in> set (tl (drop (length (eigensolves self))
        (eigensolves (snd (solve_sweep_wavelength (fv_solve np ms_new ms_solve) self s ws
           filename plot))))).
      call_initial_mode_guess c = None)"
proof -
  have one: "fv_solve np ms_new ms_solve self s w = (Inr r, self') \<longrightarrow>
      initial_mode_guess self' = None \<and> n_eff_guess self' = n_eff_guess self"
    using fv_solve_step [of np ms_new ms_solve self s w] by auto
  have keep: "n_eff_guess (snd (fv_solve np ms_new ms_solve self s w)) = n_eff_guess self"
    using fv_solve_step [of np ms_new ms_solve self s w] by simp
  from fv_sweep_structure_calls [of np ms_new ms_solve self ss w "[]"]
  obtain new where a: "n_eff_guess (snd (sweep_structure_loop (fv_solve np ms_new ms_solve) self ss w []))
       = n_eff_guess self"
    "eigensolves (snd (sweep_structure_loop (fv_solve np ms_new ms_solve) self ss w []))
       = eigensolves self @ new"
    "\<forall>c \<in> set new. call_n_eff_guess c = n_eff_guess self"
    "\<forall>c \<in> set (tl new). call_initial_mode_guess c = None"
    by blast
  from fv_sweep_wavelength_calls [of np ms_new ms_solve self s ws "[]"]
  obtain new' where b: "n_eff_guess (snd (sweep_wavelength_loop (fv_solve np ms_new ms_solve) self s ws []))
       = n_eff_guess self"
    "eigensolves (snd (sweep_wavelength_loop (fv_solve np ms_new ms_solve) self s ws []))
       = eigensolves self @ new'"
    "\<forall>c \<in> set new'. call_n_eff_guess c = n_eff_guess self"
    "\<forall>c \<in> set (tl new'). call_initial_mode_guess c = None"
    by blast
  show ?thesis
    unfolding solve_sweep_structure_state solve_sweep_wavelength_state
    using one keep a b by simp
qed

theorem fv_guess_reset_n_eff_guess_kept_witness:
  "fst (fv_solve ideal_numpy lenient_fv_new demo_fv_solve demo_fv 1 (3 / 2)) =
     Inr \<lparr>r_n_effs = [37 / 20, 1], r_modes = Some 0\<rparr> \<and>
   initial_mode_guess demo_fv = Some [[1]] \<and>
   initial_mode_guess (snd (fv_solve ideal_numpy lenient_fv_new demo_fv_solve demo_fv 1 (3 / 2))) = None \<and>
   n_eff_guess (snd (fv_solve ideal_numpy lenient_fv_new demo_fv_solve demo_fv 1 (3 / 2))) = Some 2 \<and>
   map call_structure (eigensolves (snd (solve_sweep_structure
       (fv_solve ideal_numpy lenient_fv_new demo_fv_solve) demo_fv [1, 2, 1] (3 / 2) [] True))) = [1, 2, 1] \<and>
   map call_n_eff_guess (eigensolves (snd (solve_sweep_structure
       (fv_solve ideal_numpy lenient_fv_new demo_fv_solve) demo_fv [1, 2, 1] (3 / 2) [] True)))
     = [Some 2, Some 2, Some 2] \<and>
   map call_initial_mode_guess (tl (eigensolves (snd (solve_sweep_structure
       (fv_solve ideal_numpy lenient_fv_new demo_fv_solve) demo_fv [1, 2, 1] (3 / 2) [] True))))
     = [None, None] \<and>
   map call_wavelength (eigensolves (snd (solve_sweep_wavelength
       (fv_solve ideal_numpy lenient_fv_new demo_fv_solve) demo_fv 1 [3 / 2, 8 / 5] [] True))) = [3 / 2, 8 / 5] \<and>
   map call_n_eff_guess (eigensolves (snd (solve_sweep_wavelength
       (fv_solve ideal_numpy lenient_fv_new demo_fv_solve) demo_fv 1 [3 / 2, 8 / 5] [] True)))
     = [Some 2, Some 2] \<and>
   map call_initial_mode_guess (tl (eigensolves (snd (solve_sweep_wavelength
       (fv_solve ideal_numpy lenient_fv_new demo_fv_solve) demo_fv 1 [3 / 2, 8 / 5] [] True)))) = [None]"
proof -
  let ?fv = "fv_solve ideal_numpy lenient_fv_new demo_fv_solve"
  let ?L = "eigensolves (snd (solve_sweep_structure ?fv demo_fv [1, 2, 1] (3 / 2) [] True))"
  let ?M = "eigensolves (snd (solve_sweep_wavelength ?fv demo_fv 1 [3 / 2, 8 / 5] [] True))"
  define S where "S = snd (?fv demo_fv 1 (3 / 2))"
  have h: "?fv demo_fv 1 (3 / 2) = (Inr \<lparr>r_n_effs = [37 / 20, 1], r_modes = Some 0\<rparr>, S)"
    unfolding S_def by (simp add: fv_eval_defs demo_defs Let_def)
  have e: "eigensolves demo_fv = []" "n_eff_guess demo_fv = Some 2"
    "initial_mode_guess demo_fv = Some [[1]]"
    by (simp_all add: demo_defs)
  have l1: "map call_structure ?L = [1, 2, 1]"
    by (simp add: solve_sweep_structure_def solve_def fv_eval_defs demo_defs Let_def)
  have l2: "map call_wavelength ?M = [3 / 2, 8 / 5]"
    by (simp add: solve_sweep_wavelength_def solve_def fv_eval_defs demo_defs Let_def)
  from l1 have n1: "length ?L = 3" by (metis length_map length_Cons list.size(3) numeral_3_eq_3)
  from l2 have n2: "length ?M = 2" by (metis length_map length_Cons list.size(3) numeral_2_eq_2)
  note inst = fv_guess_reset_n_eff_guess_kept
    [where ms_new = lenient_fv_new and ms_solve = demo_fv_solve and self = demo_fv and s = 1
       and w = "3 / 2" and ss = "[1, 2, 1]" and ws = "[3 / 2, 8 / 5]" and filename = "[]"
       and plot = True and r = "\<lparr>r_n_effs = [37 / 20, 1], r_modes = Some 0\<rparr>" and self' = S]
  from inst h have one: "initial_mode_guess S = None" "n_eff_guess S = Some 2"
    by (simp_all add: e)
  from inst have a1: "\<forall>c \<in> set ?L. call_n_eff_guess c = Some 2"
    and a2: "\<forall>c \<in> set (tl ?L). call_initial_mode_guess c = None"
    and b1: "\<forall>c \<in> set ?M. call_n_eff_guess c = Some 2"
    and b2: "\<forall>c \<in> set (tl ?M). call_initial_mode_guess c = None"
    by (simp_all add: e)
  have const: "map f xs = replicate (length xs) v" if "\<forall>c \<in> set xs. f c = v"
    for f :: "nat eigensolve_call \<Rightarrow> 'b" and xs v
    using that by (induction xs) auto
  have r3: "replicate 3 v = [v, v, v]" and r2: "replicate 2 v = [v, v]" for v :: 'c
    by (simp_all add: numeral_3_eq_3 numeral_2_eq_2)
  have A1: "map call_n_eff_guess ?L = [Some 2, Some 2, Some 2]"
    using const [OF a1] n1 by (simp add: r3)
  have A2: "map call_initial_mode_guess (tl ?L) = [None, None]"
    using const [OF a2] n1 by (simp add: r2)
  have B1: "map call_n_eff_guess ?M = [Some 2, Some 2]"
    using const [OF b1] n2 by (simp add: r2)
  have B2: "map call_initial_mode_guess (tl ?M) = [None]"
    using const [OF b2] n2 by simp
  from h have "fst (?fv demo_fv 1 (3 / 2)) = Inr \<lparr>r_n_effs = [37 / 20, 1], r_modes = Some 0\<rparr>"
    by simp
  with one l1 l2 A1 A2 B1 B2 e(3) show ?thesis unfolding S_def by simp
qed

section \<open>The mode list a solve returns\<close>

text \<open>
  C6 as stated fails. The semi-vectorial solve puts a reference to the engine's mode
  list into the result and then overwrites entry 0 of that same list with its
  magnitude. The caller who reads \<^verbatim>\<open>r['modes'][0]\<close> finds the magnitude \<open>1\<close> where the engine
  had computed the complex field \<open>\<i>\<close>.
\<close>

theorem returned_modes_mutated_counterexample:
  "demo_sv_solve (3 / 2, 1) 2 0 True None =
     Inr \<lparr>res_neff = [37 / 20], res_modes = [[[\<i>]], [[Complex 3 4]]]\<rparr> \<and>
   fst (sv_solve lenient_sv_new demo_sv_solve demo_sv 1 (3 / 2)) =
     Inr \<lparr>r_n_effs = [37 / 20], r_modes = Some 0\<rparr> \<and>
   heap (snd (sv_solve lenient_sv_new demo_sv_solve demo_sv 1 (3 / 2))) ! 0 =
     [[[1]], [[Complex 3 4]]] \<and>
   [[[1]], [[Complex 3 4]]] \<noteq> [[[\<i>]], [[Complex 3 4]]]"
  by (simp add: sv_solve_def demo_defs Let_def np_abs_def)

text \<open>
  C6, amended. A semi-vectorial solve with mode profiles enabled returns in
  \<^verbatim>\<open>r['modes']\<close> a reference to a list that holds the element-wise magnitude of the
  engine's fundamental field at index 0 and the engine's fields, unchanged, at every
  other index. A fully-vectorial solve returns a reference to the engine's mode list
  unchanged. Whatever a mode list in the store holds, no later solve, sweep or
  group-index computation on the solver changes it: every solve works on a list of
  its own.
\<close>

theorem returned_modes_alias:
  "(mode_profiles self \<and>
    sv_new w s (boundary self) (semi_vectorial_method self) = Inr eng \<and>
    sv_run eng (n_eigs self) (tol self) (mode_profiles self) (initial_mode_guess self) = Inr res \<and>
    res_modes res = m0 # others \<longrightarrow>
      (\<exists>self'. sv_solve sv_new sv_run self s w =
           (Inr \<lparr>r_n_effs = res_neff res, r_modes = Some (length (heap self))\<rparr>, self') \<and>
         length (heap self) < length (heap self') \<and>
         heap self' ! length (heap self) =
           map (map (\<lambda>z. complex_of_real (cmod z))) m0 # others)) \<and>
   (fv_solve np fv_new fv_run fself s w = (Inr fr, fself') \<and>
    fv_new w s (boundary fself) = Inr feng \<and>
    fv_run feng (n_eigs fself) (tol fself) (n_eff_guess fself) (initial_mode_guess fself)
      = Inr fres \<longrightarrow>
      r_modes fr = Some (length (heap fself)) \<and>
      length (heap fself) < length (heap fself') \<and>
      heap fself' ! length (heap fself) = res_modes fres) \<and>
   (a < length (heap st) \<longrightarrow>
      heap (snd (sv_solve sv_new sv_run st s' w')) ! a = heap st ! a \<and>
      heap (snd (solve_sweep_structure (sv_solve sv_new sv_run) st ss w' filename plot)) ! a
        = heap st ! a \<and>
      heap (snd (solve_sweep_wavelength (sv_solve sv_new sv_run) st s' ws filename plot)) ! a
        = heap st ! a \<and>
      heap (snd (solve_ng (sv_solve sv_new sv_run) st s_ctr s' s_frw w' step)) ! a = heap st ! a) \<and>
   (b < length (heap fst') \<longrightarrow>
      heap (snd (fv_solve np fv_new fv_run fst' s' w')) ! b = heap fst' ! b \<and>
      heap (snd (solve_sweep_structure (fv_solve np fv_new fv_run) fst' ss w' filename plot)) ! b
        = heap fst' ! b \<and>
      heap (snd (solve_sweep_wavelength (fv_solve np fv_new fv_run) fst' s' ws filename plot)) ! b
        = heap fst' ! b \<and>
      heap (snd (solve_ng (fv_solve np fv_new fv_run) fst' s_ctr s' s_frw w' step)) ! b = heap fst' ! b)"
proof (intro conjI impI)
  assume a: "mode_profiles self \<and>
    sv_new w s (boundary self) (semi_vectorial_method self) = Inr eng \<and>
    sv_run eng (n_eigs self) (tol self) (mode_profiles self) (initial_mode_guess self) = Inr res \<and>
    res_modes res = m0 # others"
  then have h: "sv_new w s (boundary self) (semi_vectorial_method self) = Inr eng"
    "sv_run eng (n_eigs self) (tol self) (mode_profiles self) (initial_mode_guess self) = Inr res"
    "mode_profiles self" "res_modes res = m0 # others"
    by auto
  show "\<exists>self'. sv_solve sv_new sv_run self s w =
           (Inr \<lparr>r_n_effs = res_neff res, r_modes = Some (length (heap self))\<rparr>, self') \<and>
         length (heap self) < length (heap self') \<and>
         heap self' ! length (heap self) =
           map (map (\<lambda>z. complex_of_real (cmod z))) m0 # others"
    unfolding sv_solve_profiles [where ms_new = sv_new and ms_solve = sv_run, OF h]
    by (simp add: np_abs_def)
next
  assume a: "fv_solve np fv_new fv_run fself s w = (Inr fr, fself') \<and>
    fv_new w s (boundary fself) = Inr feng \<and>
    fv_run feng (n_eigs fself) (tol fself) (n_eff_guess fself) (initial_mode_guess fself)
      = Inr fres"
  with fv_solve_success [of np fv_new fv_run fself s w fr fself']
  show "r_modes fr = Some (length (heap fself))" "length (heap fself) < length (heap fself')"
    "heap fself' ! length (heap fself) = res_modes fres"
    by auto
next
  assume a: "a < length (heap st)"
  note pres = sv_solve_heap [where ms_new = sv_new and ms_solve = sv_run]
  from pres [OF a] show "heap (snd (sv_solve sv_new sv_run st s' w')) ! a = heap st ! a"
    by simp
  from sweep_structure_loop_heap [of a "sv_solve sv_new sv_run", OF pres a]
  show "heap (snd (solve_sweep_structure (sv_solve sv_new sv_run) st ss w' filename plot)) ! a
        = heap st ! a"
    by (simp add: solve_sweep_structure_state)
  from sweep_wavelength_loop_heap [of a "sv_solve sv_new sv_run", OF pres a]
  show "heap (snd (solve_sweep_wavelength (sv_solve sv_new sv_run) st s' ws filename plot)) ! a
        = heap st ! a"
    by (simp add: solve_sweep_wavelength_state)
  from solve_ng_heap [of a "sv_solve sv_new sv_run", OF pres a]
  show "heap (snd (solve_ng (sv_solve sv_new sv_run) st s_ctr s' s_frw w' step)) ! a = heap st ! a"
    by simp
next
  assume b: "b < length (heap fst')"
  note pres = fv_solve_heap [where ms_new = fv_new and ms_solve = fv_run]
  from pres [OF b] show "heap (snd (fv_solve np fv_new fv_run fst' s' w')) ! b = heap fst' ! b"
    by simp
  from sweep_structure_loop_heap [of b "fv_solve np fv_new fv_run", OF pres b]
  show "heap (snd (solve_sweep_structure (fv_solve np fv_new fv_run) fst' ss w' filename plot)) ! b
        = heap fst' ! b"
    by (simp add: solve_sweep_structure_state)
  from sweep_wavelength_loop_heap [of b "fv_solve np fv_new fv_run", OF pres b]
  show "heap (snd (solve_sweep_wavelength (fv_solve np fv_new fv_run) fst' s' ws filename plot)) ! b
        = heap fst' ! b"
    by (simp add: solve_sweep_wavelength_state)
  from solve_ng_heap [of b "fv_solve np fv_new fv_run", OF pres b]
  show "heap (snd (solve_ng (fv_solve np fv_new fv_run) fst' s_ctr s' s_frw w' step)) ! b = heap fst' ! b"
    by simp
qed


theorem returned_modes_alias_witness:
  "fst (sv_solve lenient_sv_new demo_sv_solve demo_sv 1 (3 / 2)) =
     Inr \<lparr>r_n_effs = [37 / 20], r_modes = Some 0\<rparr> \<and>
   heap (snd (sv_solve lenient_sv_new demo_sv_solve demo_sv 1 (3 / 2))) ! 0 =
     [[[1]], [[Complex 3 4]]] \<and>
   heap (snd (solve_sweep_structure (sv_solve lenient_sv_new demo_sv_solve)
           (snd (sv_solve lenient_sv_new demo_sv_solve demo_sv 1 (3 / 2)))
           [2, 3] (3 / 2) [] True)) ! 0 = [[[1]], [[Complex 3 4]]] \<and>
   fst (fv_solve ideal_numpy lenient_fv_new demo_fv_solve demo_fv 1 (3 / 2)) =
     Inr \<lparr>r_n_effs = [37 / 20, 1], r_modes = Some 0\<rparr> \<and>
   heap (snd (fv_solve ideal_numpy lenient_fv_new demo_fv_solve demo_fv 1 (3 / 2))) ! 0 =
     [mk_mode 1 2 0 2 1 0, mk_mode 1 1 1 \<i> \<i> \<i>] \<and>
   heap (snd (solve_ng (fv_solve ideal_numpy lenient_fv_new demo_fv_solve)
           (snd (fv_solve ideal_numpy lenient_fv_new demo_fv_solve demo_fv 1 (3 / 2)))
           1 2 1 (3 / 2) (1 / 10))) ! 0 = [mk_mode 1 2 0 2 1 0, mk_mode 1 1 1 \<i> \<i> \<i>]"
proof -
  let ?sv = "sv_solve lenient_sv_new demo_sv_solve"
  let ?fv = "fv_solve ideal_numpy lenient_fv_new demo_fv_solve"
  define S where "S = snd (?sv demo_sv 1 (3 / 2))"
  define F where "F = snd (?fv demo_fv 1 (3 / 2))"
  let ?res = "\<lparr>res_neff = [37 / 20], res_modes = [[[\<i>]], [[Complex 3 4]]]\<rparr>"
  let ?fres = "\<lparr>res_neff = [37 / 20, 1],
                res_modes = [mk_mode 1 2 0 2 1 0, mk_mode 1 1 1 \<i> \<i> \<i>]\<rparr>"
  have q0: "mode_profiles demo_sv" by (simp add: demo_defs)
  have q1: "lenient_sv_new (3 / 2) 1 (boundary demo_sv) (semi_vectorial_method demo_sv)
      = Inr (3 / 2, 1)"
    by (simp add: lenient_sv_new_def)
  have q2: "demo_sv_solve (3 / 2, 1) (n_eigs demo_sv) (tol demo_sv) (mode_profiles demo_sv)
      (initial_mode_guess demo_sv) = Inr ?res"
    by (simp add: demo_sv_solve_def)
  have q3: "res_modes ?res = [[\<i>]] # [[[Complex 3 4]]]" by simp
  have f1: "?fv demo_fv 1 (3 / 2) = (Inr \<lparr>r_n_effs = [37 / 20, 1], r_modes = Some 0\<rparr>, F)"
    unfolding F_def by (simp add: fv_eval_defs demo_defs Let_def)
  have f2: "lenient_fv_new (3 / 2) 1 (boundary demo_fv) = Inr (3 / 2, 1)"
    by (simp add: lenient_fv_new_def)
  have f3: "demo_fv_solve (3 / 2, 1) (n_eigs demo_fv) (tol demo_fv) (n_eff_guess demo_fv)
      (initial_mode_guess demo_fv) = Inr ?fres"
    by (simp add: demo_fv_solve_def)
  have e: "heap demo_sv = []" "heap demo_fv = []" by (simp_all add: demo_defs)
  note inst = returned_modes_alias
    [where sv_new = lenient_sv_new and sv_run = demo_sv_solve and self = demo_sv
       and fv_new = lenient_fv_new and fv_run = demo_fv_solve and fself = demo_fv
       and s = 1 and w = "3 / 2" and st = S and fst' = F and a = 0 and b = 0
       and ss = "[2, 3]" and w' = "3 / 2" and filename = "[]" and plot = True
       and s_ctr = 1 and s' = 2 and s_frw = 1 and step = "1 / 10"]
  from inst [THEN conjunct1, rule_format, OF conjI [OF q0 conjI [OF q1 conjI [OF q2 q3]]]]
  have A: "fst (?sv demo_sv 1 (3 / 2)) = Inr \<lparr>r_n_effs = [37 / 20], r_modes = Some 0\<rparr>"
    "0 < length (heap S)" "heap S ! 0 = [[[1]], [[Complex 3 4]]]"
    unfolding S_def by (auto simp: e)
  from inst [THEN conjunct2, THEN conjunct1, rule_format, OF conjI [OF f1 conjI [OF f2 f3]]]
  have B: "0 < length (heap F)" "heap F ! 0 = [mk_mode 1 2 0 2 1 0, mk_mode 1 1 1 \<i> \<i> \<i>]"
    by (simp_all add: e)
  from inst [THEN conjunct2, THEN conjunct2, THEN conjunct1, rule_format, OF A(2)] A(3)
  have C: "heap (snd (solve_sweep_structure ?sv S [2, 3] (3 / 2) [] True)) ! 0
      = [[[1]], [[Complex 3 4]]]"
    by simp
  from inst [THEN conjunct2, THEN conjunct2, THEN conjunct2, rule_format, OF B(1)] B(2)
  have D: "heap (snd (solve_ng ?fv F 1 2 1 (3 / 2) (1 / 10))) ! 0
      = [mk_mode 1 2 0 2 1 0, mk_mode 1 1 1 \<i> \<i> \<i>]"
    by simp
  from f1 have E: "fst (?fv demo_fv 1 (3 / 2)) = Inr \<lparr>r_n_effs = [37 / 20, 1], r_modes = Some 0\<rparr>"
    by simp
  from A C B D E show ?thesis unfolding S_def F_def by simp
qed

section \<open>The boundary code\<close>

text \<open>
  C9 as stated fails. The constructors store the boundary code as it comes: a solver
  built with the five-symbol code \<open>00000\<close> exists and holds that code, and when the engine
  accepts the code, a solve with it runs the eigensolver and returns a result.
\<close>

theorem boundary_not_validated_counterexample:
  "length ''00000'' = 5 \<and>
   boundary (ModeSolverSemiVectorial_init 2 0 ''00000'' True None ''Ex''
               :: nat ModeSolverSemiVectorial) = ''00000'' \<and>
   boundary (ModeSolverFullyVectorial_init 2 (1 / 1000) ''00000'' None None
               :: nat ModeSolverFullyVectorial) = ''00000'' \<and>
   fst (sv_solve lenient_sv_new demo_sv_solve
          (ModeSolverSemiVectorial_init 2 0 ''00000'' True None ''Ex'') 1 (3 / 2)) =
     Inr \<lparr>r_n_effs = [37 / 20], r_modes = Some 0\<rparr> \<and>
   map call_structure (eigensolves (snd (sv_solve lenient_sv_new demo_sv_solve
          (ModeSolverSemiVectorial_init 2 0 ''00000'' True None ''Ex'') 1 (3 / 2)))) = [1]"
  by (simp add: sv_solve_def demo_defs Let_def)

text \<open>
  C9, amended. Constructing a solver validates nothing: any boundary code, of any
  length, is stored unchanged. A solve hands the stored code to the engine's
  constructor before anything else; if that constructor rejects it, the solve raises
  the constructor's error, no eigensolve is attempted, and the solver is unchanged but
  for the structure it remembers. With an engine constructor that rejects codes not of
  length four, as the specification asks, solving with such a code therefore raises
  \<open>IllPosedBoundaryError\<close> before any eigensolve.
\<close>

theorem boundary_checked_by_engine_only:
  "boundary (ModeSolverSemiVectorial_init n t b p g m :: 's ModeSolverSemiVectorial) = b \<and>
   boundary (ModeSolverFullyVectorial_init n t b g ng :: 's ModeSolverFullyVectorial) = b \<and>
   (sv_new w s (boundary self) (semi_vectorial_method self) = Inl e \<longrightarrow>
      sv_solve sv_new sv_run self s w = (Inl e, self\<lparr>the_structure := Some s\<rparr>) \<and>
      eigensolves (snd (sv_solve sv_new sv_run self s w)) = eigensolves self) \<and>
   (fv_new w s' (boundary fself) = Inl e' \<longrightarrow>
      fv_solve np fv_new fv_run fself s' w = (Inl e', fself\<lparr>the_structure := Some s'\<rparr>) \<and>
      eigensolves (snd (fv_solve np fv_new fv_run fself s' w)) = eigensolves fself)"
  by (simp add: demo_defs sv_solve_rejected fv_solve_rejected)

theorem boundary_checked_by_engine_only_witness:
  "sv_solve checked_sv_new demo_sv_solve
      (ModeSolverSemiVectorial_init 2 0 ''00000'' True None ''Ex'') 1 (3 / 2) =
     (Inl IllPosedBoundaryError,
      (ModeSolverSemiVectorial_init 2 0 ''00000'' True None ''Ex'')\<lparr>the_structure := Some 1\<rparr>) \<and>
   eigensolves (snd (sv_solve checked_sv_new demo_sv_solve
      (ModeSolverSemiVectorial_init 2 0 ''00000'' True None ''Ex'') 1 (3 / 2))) = [] \<and>
   fv_solve ideal_numpy checked_fv_new demo_fv_solve
      (ModeSolverFullyVectorial_init 2 (1 / 1000) ''00000'' None None) 1 (3 / 2) =
     (Inl IllPosedBoundaryError,
      (ModeSolverFullyVectorial_init 2 (1 / 1000) ''00000'' None None)\<lparr>the_structure := Some 1\<rparr>) \<and>
   eigensolves (snd (fv_solve ideal_numpy checked_fv_new demo_fv_solve
      (ModeSolverFullyVectorial_init 2 (1 / 1000) ''00000'' None None) 1 (3 / 2))) = []"
proof -
  let ?sv = "ModeSolverSemiVectorial_init 2 0 ''00000'' True None ''Ex'' :: nat ModeSolverSemiVectorial"
  let ?fv = "ModeSolverFullyVectorial_init 2 (1 / 1000) ''00000'' None None :: nat ModeSolverFullyVectorial"
  have a: "checked_sv_new (3 / 2) 1 (boundary ?sv) (semi_vectorial_method ?sv)
      = Inl IllPosedBoundaryError"
    by (simp add: demo_defs)
  have b: "checked_fv_new (3 / 2) 1 (boundary ?fv) = Inl IllPosedBoundaryError"
    by (simp add: demo_defs)
  have e: "eigensolves ?sv = []" "eigensolves ?fv = []" by (simp_all add: demo_defs)
  note inst = boundary_checked_by_engine_only
    [where sv_new = checked_sv_new and sv_run = demo_sv_solve and self = ?sv
       and fv_new = checked_fv_new and fv_run = demo_fv_solve and fself = ?fv
       and w = "3 / 2" and s = 1 and s' = 1]
  from inst [THEN conjunct2, THEN conjunct2, THEN conjunct1, rule_format, OF a]
    inst [THEN conjunct2, THEN conjunct2, THEN conjunct2, rule_format, OF b]
  show ?thesis by (simp add: e)
qed

section \<open>Polarisation fractions\<close>

text \<open>
  C7 as stated fails for a mode without energy. A fully-vectorial solve whose engine returns a
  mode with all six field components identically zero completes, and every entry of that
  mode's fractions is NaN (zero divided by zero): neither triplet sums to 100.
\<close>

theorem zero_mode_overlaps_counterexample:
  "fst (fv_solve ideal_numpy lenient_fv_new demo_fv_solve demo_fv 2 (3 / 2)) =
     Inr \<lparr>r_n_effs = [1], r_modes = Some 0\<rparr> \<and>
   overlaps (snd (fv_solve ideal_numpy lenient_fv_new demo_fv_solve demo_fv 2 (3 / 2))) =
     Some [[NaN, NaN, NaN, NaN, NaN, NaN]]"
  by (simp add: fv_eval_defs demo_defs Let_def)

text \<open>
  C7, amended. Take a fully-vectorial solve whose engine returns modes with all six field
  components, and a mode \<open>i\<close> whose exact total electric energy and exact total magnetic energy
  (the sums of \<open>|z|\<^sup>2\<close> over the grid and the three components) are positive. If numpy carries
  out the operations of the overlap computation on that mode with relative error at most
  \<open>u \<le> 1/10\<close>, then the solve returns, the six fractions of the mode are finite, the first
  three sum to 100 within \<open>400 u\<close> and the last three sum to 100 within \<open>400 u\<close>, and each
  fraction is within \<open>1000 u\<close> of 100 times the component's sum of \<open>|z|\<^sup>2\<close> over the grid divided
  by the total of its triplet. In exact arithmetic (\<open>u = 0\<close>) the sums are 100.
\<close>

theorem overlaps_sum_near_100:
  assumes new: "ms_new w s (boundary self) = Inr eng"
    and run: "ms_solve eng (n_eigs self) (tol self) (n_eff_guess self) (initial_mode_guess self)
                = Inr res"
    and flds: "\<forall>m \<in> set (res_modes res).
                 {''Ex'', ''Ey'', ''Ez'', ''Hx'', ''Hy'', ''Hz''} \<subseteq> dom (mode_fields m)"
    and i: "i < length (res_modes res)"
    and f: "mode_fields (res_modes res ! i) ''Ex'' = Some ex"
      "mode_fields (res_modes res ! i) ''Ey'' = Some ey"
      "mode_fields (res_modes res ! i) ''Ez'' = Some ez"
      "mode_fields (res_modes res ! i) ''Hx'' = Some hx"
      "mode_fields (res_modes res ! i) ''Hy'' = Some hy"
      "mode_fields (res_modes res ! i) ''Hz'' = Some hz"
    and u: "0 \<le> u" "u \<le> 1 / 10"
    and accE: "triplet_accurate np u ex ey ez"
    and accH: "triplet_accurate np u hx hy hz"
    and posE: "0 < (\<Sum>z\<leftarrow>concat ex. (cmod z)\<^sup>2) + (\<Sum>z\<leftarrow>concat ey. (cmod z)\<^sup>2)
                    + (\<Sum>z\<leftarrow>concat ez. (cmod z)\<^sup>2)"
    and posH: "0 < (\<Sum>z\<leftarrow>concat hx. (cmod z)\<^sup>2) + (\<Sum>z\<leftarrow>concat hy. (cmod z)\<^sup>2)
                    + (\<Sum>z\<leftarrow>concat hz. (cmod z)\<^sup>2)"
  shows "\<exists>r self' ovs e1 e2 e3 h1 h2 h3.
     fv_solve np ms_new ms_solve self s w = (Inr r, self') \<and>
     overlaps self' = Some ovs \<and> length ovs = length (res_modes res) \<and>
     ovs ! i = [Fin e1, Fin e2, Fin e3, Fin h1, Fin h2, Fin h3] \<and>
     \<bar>e1 + e2 + e3 - 100\<bar> \<le> 400 * u \<and>
     \<bar>h1 + h2 + h3 - 100\<bar> \<le> 400 * u \<and>
     \<bar>e1 - 100 * (\<Sum>z\<leftarrow>concat ex. (cmod z)\<^sup>2) /
        ((\<Sum>z\<leftarrow>concat ex. (cmod z)\<^sup>2) + (\<Sum>z\<leftarrow>concat ey. (cmod z)\<^sup>2)
           + (\<Sum>z\<leftarrow>concat ez. (cmod z)\<^sup>2))\<bar> \<le> 1000 * u \<and>
     \<bar>e2 - 100 * (\<Sum>z\<leftarrow>concat ey. (cmod z)\<^sup>2) /
        ((\<Sum>z\<leftarrow>concat ex. (cmod z)\<^sup>2) + (\<Sum>z\<leftarrow>concat ey. (cmod z)\<^sup>2)
           + (\<Sum>z\<leftarrow>concat ez. (cmod z)\<^sup>2))\<bar> \<le> 1000 * u \<and>
     \<bar>e3 - 100 * (\<Sum>z\<leftarrow>concat ez. (cmod z)\<^sup>2) /
        ((\<Sum>z\<leftarrow>concat ex. (cmod z)\<^sup>2) + (\<Sum>z\<leftarrow>concat ey. (cmod z)\<^sup>2)
           + (\<Sum>z\<leftarrow>concat ez. (cmod z)\<^sup>2))\<bar> \<le> 1000 * u \<and>
     \<bar>h1 - 100 * (\<Sum>z\<leftarrow>concat hx. (cmod z)\<^sup>2) /
        ((\<Sum>z\<leftarrow>concat hx. (cmod z)\<^sup>2) + (\<Sum>z\<leftarrow>concat hy. (cmod z)\<^sup>2)
           + (\<Sum>z\<leftarrow>concat hz. (cmod z)\<^sup>2))\<bar> \<le> 1000 * u \<and>
     \<bar>h2 - 100 * (\<Sum>z\<leftarrow>concat hy. (cmod z)\<^sup>2) /
        ((\<Sum>z\<leftarrow>concat hx. (cmod z)\<^sup>2) + (\<Sum>z\<leftarrow>concat hy. (cmod z)\<^sup>2)
           + (\<Sum>z\<leftarrow>concat hz. (cmod z)\<^sup>2))\<bar> \<le> 1000 * u \<and>
     \<bar>h3 - 100 * (\<Sum>z\<leftarrow>concat hz. (cmod z)\<^sup>2) /
        ((\<Sum>z\<leftarrow>concat hx. (cmod z)\<^sup>2) + (\<Sum>z\<leftarrow>concat hy. (cmod z)\<^sup>2)
           + (\<Sum>z\<leftarrow>concat hz. (cmod z)\<^sup>2))\<bar> \<le> 1000 * u"
proof -
  from fv_solve_returns [where ms_new = ms_new and ms_solve = ms_solve, OF new run flds]
  obtain r self' ovs where
    ret: "fv_solve np ms_new ms_solve self s w = (Inr r, self')"
    and ov: "overlaps self' = Some ovs"
    and ol: "overlaps_loop np (res_modes res) [] = Inr ovs"
    and lo: "length ovs = length (res_modes res)"
    by blast
  from overlaps_loop_nth [OF ol] i have "mode_areas np (res_modes res ! i) = Inr (ovs ! i)"
    by simp
  with mode_areas_value [OF f, of np]
  have entry: "ovs ! i = normalise_areas np [energy np ex, energy np ey, energy np ez] @
      normalise_areas np [energy np hx, energy np hy, energy np hz]"
    by simp
  from normalise_triplet [OF accE u posE] obtain e1 e2 e3 where
    E: "normalise_areas np [energy np ex, energy np ey, energy np ez] = [Fin e1, Fin e2, Fin e3]"
    and Es: "\<bar>e1 + e2 + e3 - 100\<bar> \<le> 400 * u"
    and E1: "\<bar>e1 - 100 * (\<Sum>z\<leftarrow>concat ex. (cmod z)\<^sup>2) /
        ((\<Sum>z\<leftarrow>concat ex. (cmod z)\<^sup>2) + (\<Sum>z\<leftarrow>concat ey. (cmod z)\<^sup>2)
           + (\<Sum>z\<leftarrow>concat ez. (cmod z)\<^sup>2))\<bar> \<le> 1000 * u"
    and E2: "\<bar>e2 - 100 * (\<Sum>z\<leftarrow>concat ey. (cmod z)\<^sup>2) /
        ((\<Sum>z\<leftarrow>concat ex. (cmod z)\<^sup>2) + (\<Sum>z\<leftarrow>concat ey. (cmod z)\<^sup>2)
           + (\<Sum>z\<leftarrow>concat ez. (cmod z)\<^sup>2))\<bar> \<le> 1000 * u"
    and E3: "\<bar>e3 - 100 * (\<Sum>z\<leftarrow>concat ez. (cmod z)\<^sup>2) /
        ((\<Sum>z\<leftarrow>concat ex. (cmod z)\<^sup>2) + (\<Sum>z\<leftarrow>concat ey. (cmod z)\<^sup>2)
           + (\<Sum>z\<leftarrow>concat ez. (cmod z)\<^sup>2))\<bar> \<le> 1000 * u"
    by blast
  from normalise_triplet [OF accH u posH] obtain h1 h2 h3 where
    H: "normalise_areas np [energy np hx, energy np hy, energy np hz] = [Fin h1, Fin h2, Fin h3]"
    and Hs: "\<bar>h1 + h2 + h3 - 100\<bar> \<le> 400 * u"
    and H1: "\<bar>h1 - 100 * (\<Sum>z\<leftarrow>concat hx. (cmod z)\<^sup>2) /
        ((\<Sum>z\<leftarrow>concat hx. (cmod z)\<^sup>2) + (\<Sum>z\<leftarrow>concat hy. (cmod z)\<^sup>2)
           + (\<Sum>z\<leftarrow>concat hz. (cmod z)\<^sup>2))\<bar> \<le> 1000 * u"
    and H2: "\<bar>h2 - 100 * (\<Sum>z\<leftarrow>concat hy. (cmod z)\<^sup>2) /
        ((\<Sum>z\<leftarrow>concat hx. (cmod z)\<^sup>2) + (\<Sum>z\<leftarrow>concat hy. (cmod z)\<^sup>2)
           + (\<Sum>z\<leftarrow>concat hz. (cmod z)\<^sup>2))\<bar> \<le> 1000 * u"
    and H3: "\<bar>h3 - 100 * (\<Sum>z\<leftarrow>concat hz. (cmod z)\<^sup>2) /
        ((\<Sum>z\<leftarrow>concat hx. (cmod z)\<^sup>2) + (\<Sum>z\<leftarrow>concat hy. (cmod z)\<^sup>2)
           + (\<Sum>z\<leftarrow>concat hz. (cmod z)\<^sup>2))\<bar> \<le> 1000 * u"
    by blast
  from entry E H have val: "ovs ! i = [Fin e1, Fin e2, Fin e3, Fin h1, Fin h2, Fin h3]" by simp
  from ret ov lo val Es Hs E1 E2 E3 H1 H2 H3 show ?thesis by blast
qed

theorem overlaps_sum_near_100_witness:
  "overlaps (snd (fv_solve ideal_numpy lenient_fv_new demo_fv_solve demo_fv 3 (3 / 2))) =
     Some [[Fin 40, Fin 10, Fin 50, Fin 50, Fin 0, Fin 50]] \<and>
   energy ideal_numpy [[1, 1], [1, 1]] = Fin 4 \<and>
   energy ideal_numpy [[\<i>, \<i>], [2, 2]] = Fin 10"
proof -
  let ?big = "\<lparr>res_neff = [1],
      res_modes = [grid_mode [[1, 1], [1, 1]] [[1, 0], [0, 0]] [[2, 1], [0, 0]]
                             [[3, 0], [0, 1]] [[0, 0], [0, 0]] [[\<i>, \<i>], [2, 2]]]\<rparr>"
  have new: "lenient_fv_new (3 / 2) 3 (boundary demo_fv) = Inr (3 / 2, 3)"
    by (simp add: lenient_fv_new_def)
  have run: "demo_fv_solve (3 / 2, 3) (n_eigs demo_fv) (tol demo_fv) (n_eff_guess demo_fv)
      (initial_mode_guess demo_fv) = Inr ?big"
    by (simp add: demo_fv_solve_def)
  have flds: "\<forall>m \<in> set (res_modes ?big).
      {''Ex'', ''Ey'', ''Ez'', ''Hx'', ''Hy'', ''Hz''} \<subseteq> dom (mode_fields m)"
    by (simp add: grid_mode_def)
  have i: "0 < length (res_modes ?big)" by simp
  have f: "mode_fields (res_modes ?big ! 0) ''Ex'' = Some [[1, 1], [1, 1]]"
    "mode_fields (res_modes ?big ! 0) ''Ey'' = Some [[1, 0], [0, 0]]"
    "mode_fields (res_modes ?big ! 0) ''Ez'' = Some [[2, 1], [0, 0]]"
    "mode_fields (res_modes ?big ! 0) ''Hx'' = Some [[3, 0], [0, 1]]"
    "mode_fields (res_modes ?big ! 0) ''Hy'' = Some [[0, 0], [0, 0]]"
    "mode_fields (res_modes ?big ! 0) ''Hz'' = Some [[\<i>, \<i>], [2, 2]]"
    by (simp_all add: grid_mode_def)
  have en: "energy ideal_numpy [[1, 1], [1, 1]] = Fin 4" "energy ideal_numpy [[1, 0], [0, 0]] = Fin 1"
    "energy ideal_numpy [[2, 1], [0, 0]] = Fin 5" "energy ideal_numpy [[3, 0], [0, 1]] = Fin 10"
    "energy ideal_numpy [[0, 0], [0, 0]] = Fin 0" "energy ideal_numpy [[\<i>, \<i>], [2, 2]] = Fin 10"
    by (simp_all add: energy_def ideal_numpy_def ideal_sum_def)
  have accE: "triplet_accurate ideal_numpy 0 [[1, 1], [1, 1]] [[1, 0], [0, 0]] [[2, 1], [0, 0]]"
    by (rule ideal_triplet_accurate) simp
  have accH: "triplet_accurate ideal_numpy 0 [[3, 0], [0, 1]] [[0, 0], [0, 0]] [[\<i>, \<i>], [2, 2]]"
    by (rule ideal_triplet_accurate) simp
  have posE: "0 < (\<Sum>z\<leftarrow>concat [[1, 1], [1, 1]]. (cmod z)\<^sup>2)
      + (\<Sum>z\<leftarrow>concat [[1, 0], [0, 0]]. (cmod z)\<^sup>2) + (\<Sum>z\<leftarrow>concat [[2, 1], [0, 0 :: complex]]. (cmod z)\<^sup>2)"
    by simp
  have posH: "0 < (\<Sum>z\<leftarrow>concat [[3, 0], [0, 1]]. (cmod z)\<^sup>2)
      + (\<Sum>z\<leftarrow>concat [[0, 0], [0, 0]]. (cmod z)\<^sup>2) + (\<Sum>z\<leftarrow>concat [[\<i>, \<i>], [2, 2]]. (cmod z)\<^sup>2)"
    by simp
  have u: "(0 :: real) \<le> 0" "(0 :: real) \<le> 1 / 10" by simp_all
  from overlaps_sum_near_100
    [where ms_new = lenient_fv_new and ms_solve = demo_fv_solve and np = ideal_numpy,
      OF new run flds i f u accE accH posE posH]
  obtain r self' ovs e1 e2 e3 h1 h2 h3 where
    ret: "fv_solve ideal_numpy lenient_fv_new demo_fv_solve demo_fv 3 (3 / 2) = (Inr r, self')"
    and ov: "overlaps self' = Some ovs" and lo: "length ovs = length (res_modes ?big)"
    and val: "ovs ! 0 = [Fin e1, Fin e2, Fin e3, Fin h1, Fin h2, Fin h3]"
    and E1: "\<bar>e1 - 100 * (\<Sum>z\<leftarrow>concat [[1, 1], [1, 1]]. (cmod z)\<^sup>2) /
        ((\<Sum>z\<leftarrow>concat [[1, 1], [1, 1]]. (cmod z)\<^sup>2) + (\<Sum>z\<leftarrow>concat [[1, 0], [0, 0]]. (cmod z)\<^sup>2)
           + (\<Sum>z\<leftarrow>concat [[2, 1], [0, 0 :: complex]]. (cmod z)\<^sup>2))\<bar> \<le> 1000 * 0"
    and E2: "\<bar>e2 - 100 * (\<Sum>z\<leftarrow>concat [[1, 0], [0, 0]]. (cmod z)\<^sup>2) /
        ((\<Sum>z\<leftarrow>concat [[1, 1], [1, 1]]. (cmod z)\<^sup>2) + (\<Sum>z\<leftarrow>concat [[1, 0], [0, 0]]. (cmod z)\<^sup>2)
           + (\<Sum>z\<leftarrow>concat [[2, 1], [0, 0 :: complex]]. (cmod z)\<^sup>2))\<bar> \<le> 1000 * 0"
    and E3: "\<bar>e3 - 100 * (\<Sum>z\<leftarrow>concat [[2, 1], [0, 0]]. (cmod z)\<^sup>2) /
        ((\<Sum>z\<leftarrow>concat [[1, 1], [1, 1]]. (cmod z)\<^sup>2) + (\<Sum>z\<leftarrow>concat [[1, 0], [0, 0]]. (cmod z)\<^sup>2)
           + (\<Sum>z\<leftarrow>concat [[2, 1], [0, 0 :: complex]]. (cmod z)\<^sup>2))\<bar> \<le> 1000 * 0"
    and H1: "\<bar>h1 - 100 * (\<Sum>z\<leftarrow>concat [[3, 0], [0, 1]]. (cmod z)\<^sup>2) /
        ((\<Sum>z\<leftarrow>concat [[3, 0], [0, 1]]. (cmod z)\<^sup>2) + (\<Sum>z\<leftarrow>concat [[0, 0], [0, 0]]. (cmod z)\<^sup>2)
           + (\<Sum>z\<leftarrow>concat [[\<i>, \<i>], [2, 2]]. (cmod z)\<^sup>2))\<bar> \<le> 1000 * 0"
    and H2: "\<bar>h2 - 100 * (\<Sum>z\<leftarrow>concat [[0, 0], [0, 0]]. (cmod z)\<^sup>2) /
        ((\<Sum>z\<leftarrow>concat [[3, 0], [0, 1]]. (cmod z)\<^sup>2) + (\<Sum>z\<leftarrow>concat [[0, 0], [0, 0]]. (cmod z)\<^sup>2)
           + (\<Sum>z\<leftarrow>concat [[\<i>, \<i>], [2, 2]]. (cmod z)\<^sup>2))\<bar> \<le> 1000 * 0"
    and H3: "\<bar>h3 - 100 * (\<Sum>z\<leftarrow>concat [[\<i>, \<i>], [2, 2]]. (cmod z)\<^sup>2) /
        ((\<Sum>z\<leftarrow>concat [[3, 0], [0, 1]]. (cmod z)\<^sup>2) + (\<Sum>z\<leftarrow>concat [[0, 0], [0, 0]]. (cmod z)\<^sup>2)
           + (\<Sum>z\<leftarrow>concat [[\<i>, \<i>], [2, 2]]. (cmod z)\<^sup>2))\<bar> \<le> 1000 * 0"
    by blast
  from E1 E2 E3 H1 H2 H3 have "e1 = 40" "e2 = 10" "e3 = 50" "h1 = 50" "h2 = 0" "h3 = 50"
    by simp_all
  with val have o0: "ovs ! 0 = [Fin 40, Fin 10, Fin 50, Fin 50, Fin 0, Fin 50]" by simp
  from lo have "length ovs = 1" by simp
  with o0 have "ovs = [[Fin 40, Fin 10, Fin 50, Fin 50, Fin 0, Fin 50]]" by (cases ovs) auto
  with ret ov en show ?thesis by simp
qed

section \<open>Mode types\<close>



section \<open>Modes without energy\<close>

text \<open>
  C10. When the engine returns modes that carry all six field components, a fully-vectorial solve
  returns, and the fractions of mode \<open>i\<close> are each energy divided by the total of its triplet,
  times 100, with no guard on the total. With the special cases of IEEE arithmetic assumed of
  numpy: if one of the three fractions of a triplet is finite, then the computed total of that
  triplet is not zero and the exact total energy of the triplet is positive; and if the three
  fields of a triplet are identically zero, then the computed total is zero and the three
  fractions are NaN (zero divided by zero), where a guard is needed to report anything else.
\<close>

theorem overlaps_need_positive_energy:
  assumes new: "ms_new w s (boundary self) = Inr eng"
    and run: "ms_solve eng (n_eigs self) (tol self) (n_eff_guess self) (initial_mode_guess self)
                = Inr res"
    and flds: "\<forall>m \<in> set (res_modes res).
                 {''Ex'', ''Ey'', ''Ez'', ''Hx'', ''Hy'', ''Hz''} \<subseteq> dom (mode_fields m)"
    and i: "i < length (res_modes res)"
    and f: "mode_fields (res_modes res ! i) ''Ex'' = Some ex"
      "mode_fields (res_modes res ! i) ''Ey'' = Some ey"
      "mode_fields (res_modes res ! i) ''Ez'' = Some ez"
      "mode_fields (res_modes res ! i) ''Hx'' = Some hx"
      "mode_fields (res_modes res ! i) ''Hy'' = Some hy"
      "mode_fields (res_modes res ! i) ''Hz'' = Some hz"
  shows "\<exists>r self' ovs.
     fv_solve np ms_new ms_solve self s w = (Inr r, self') \<and>
     overlaps self' = Some ovs \<and> length ovs = length (res_modes res) \<and>
     ovs ! i =
       map (\<lambda>x. np_multiply np
                  (np_divide np x (np_sum np [energy np ex, energy np ey, energy np ez]))
                  (Fin 100))
         [energy np ex, energy np ey, energy np ez] @
       map (\<lambda>x. np_multiply np
                  (np_divide np x (np_sum np [energy np hx, energy np hy, energy np hz]))
                  (Fin 100))
         [energy np hx, energy np hy, energy np hz] \<and>
     (ieee_special_cases np \<longrightarrow>
        ((\<exists>v \<in> set (take 3 (ovs ! i)). \<exists>x. v = Fin x) \<longrightarrow>
           np_sum np [energy np ex, energy np ey, energy np ez] \<noteq> Fin 0 \<and>
           0 < (\<Sum>z\<leftarrow>concat ex. (cmod z)\<^sup>2) + (\<Sum>z\<leftarrow>concat ey. (cmod z)\<^sup>2)
                 + (\<Sum>z\<leftarrow>concat ez. (cmod z)\<^sup>2)) \<and>
        ((\<exists>v \<in> set (drop 3 (ovs ! i)). \<exists>x. v = Fin x) \<longrightarrow>
           np_sum np [energy np hx, energy np hy, energy np hz] \<noteq> Fin 0 \<and>
           0 < (\<Sum>z\<leftarrow>concat hx. (cmod z)\<^sup>2) + (\<Sum>z\<leftarrow>concat hy. (cmod z)\<^sup>2)
                 + (\<Sum>z\<leftarrow>concat hz. (cmod z)\<^sup>2)) \<and>
        ((\<forall>z \<in> set (concat ex) \<union> set (concat ey) \<union> set (concat ez). z = 0) \<longrightarrow>
           np_sum np [energy np ex, energy np ey, energy np ez] = Fin 0 \<and>
           take 3 (ovs ! i) = [NaN, NaN, NaN]) \<and>
        ((\<forall>z \<in> set (concat hx) \<union> set (concat hy) \<union> set (concat hz). z = 0) \<longrightarrow>
           np_sum np [energy np hx, energy np hy, energy np hz] = Fin 0 \<and>
           drop 3 (ovs ! i) = [NaN, NaN, NaN]))"
proof -
  let ?E = "normalise_areas np [energy np ex, energy np ey, energy np ez]"
  let ?H = "normalise_areas np [energy np hx, energy np hy, energy np hz]"
  from fv_solve_returns [where ms_new = ms_new and ms_solve = ms_solve, OF new run flds]
  obtain r self' ovs where
    ret: "fv_solve np ms_new ms_solve self s w = (Inr r, self')"
    and ov: "overlaps self' = Some ovs"
    and ol: "overlaps_loop np (res_modes res) [] = Inr ovs"
    and lo: "length ovs = length (res_modes res)"
    by blast
  from overlaps_loop_nth [OF ol] i have "mode_areas np (res_modes res ! i) = Inr (ovs ! i)"
    by simp
  with mode_areas_value [OF f, of np] have entry: "ovs ! i = ?E @ ?H" by simp
  have l3: "length ?E = 3" by (simp add: normalise_areas_def)
  from entry l3 have tk: "take 3 (ovs ! i) = ?E" and dr: "drop 3 (ovs ! i) = ?H" by simp_all
  have form: "ovs ! i =
       map (\<lambda>x. np_multiply np
                  (np_divide np x (np_sum np [energy np ex, energy np ey, energy np ez]))
                  (Fin 100))
         [energy np ex, energy np ey, energy np ez] @
       map (\<lambda>x. np_multiply np
                  (np_divide np x (np_sum np [energy np hx, energy np hy, energy np hz]))
                  (Fin 100))
         [energy np hx, energy np hy, energy np hz]"
    unfolding entry by (simp only: normalise_areas_three)
  have zero: "np_sum np [energy np p, energy np q, energy np t] = Fin 0 \<and>
      normalise_areas np [energy np p, energy np q, energy np t] = [NaN, NaN, NaN]"
    if sc: "ieee_special_cases np"
      and z: "\<forall>z \<in> set (concat p) \<union> set (concat q) \<union> set (concat t). z = 0"
    for p q t
  proof -
    from z have "energy np p = Fin 0" "energy np q = Fin 0" "energy np t = Fin 0"
      by (auto intro: energy_zero_field [OF sc])
    with normalise_areas_zero [OF sc] show ?thesis by simp
  qed
  have pos: "np_sum np [energy np p, energy np q, energy np t] \<noteq> Fin 0 \<and>
      0 < (\<Sum>z\<leftarrow>concat p. (cmod z)\<^sup>2) + (\<Sum>z\<leftarrow>concat q. (cmod z)\<^sup>2)
            + (\<Sum>z\<leftarrow>concat t. (cmod z)\<^sup>2)"
    if sc: "ieee_special_cases np"
      and fin: "\<exists>v \<in> set (normalise_areas np [energy np p, energy np q, energy np t]).
                  \<exists>x. v = Fin x"
    for p q t
  proof -
    from normalise_areas_finite [OF sc fin]
    have nz: "np_sum np [energy np p, energy np q, energy np t] \<noteq> Fin 0" .
    have "\<not> (\<forall>z \<in> set (concat p) \<union> set (concat q) \<union> set (concat t). z = 0)"
      using zero [OF sc] nz by blast
    then have "(\<Sum>z\<leftarrow>concat p. (cmod z)\<^sup>2) \<noteq> 0 \<or> (\<Sum>z\<leftarrow>concat q. (cmod z)\<^sup>2) \<noteq> 0
        \<or> (\<Sum>z\<leftarrow>concat t. (cmod z)\<^sup>2) \<noteq> 0"
      by (auto simp: grid_sum_zero_iff)
    with grid_sum_nonneg [of "concat p"] grid_sum_nonneg [of "concat q"]
      grid_sum_nonneg [of "concat t"]
    have "0 < (\<Sum>z\<leftarrow>concat p. (cmod z)\<^sup>2) + (\<Sum>z\<leftarrow>concat q. (cmod z)\<^sup>2)
            + (\<Sum>z\<leftarrow>concat t. (cmod z)\<^sup>2)"
      by linarith
    with nz show ?thesis by blast
  qed
  have body: "ieee_special_cases np \<longrightarrow>
        ((\<exists>v \<in> set (take 3 (ovs ! i)). \<exists>x. v = Fin x) \<longrightarrow>
           np_sum np [energy np ex, energy np ey, energy np ez] \<noteq> Fin 0 \<and>
           0 < (\<Sum>z\<leftarrow>concat ex. (cmod z)\<^sup>2) + (\<Sum>z\<leftarrow>concat ey. (cmod z)\<^sup>2)
                 + (\<Sum>z\<leftarrow>concat ez. (cmod z)\<^sup>2)) \<and>
        ((\<exists>v \<in> set (drop 3 (ovs ! i)). \<exists>x. v = Fin x) \<longrightarrow>
           np_sum np [energy np hx, energy np hy, energy np hz] \<noteq> Fin 0 \<and>
           0 < (\<Sum>z\<leftarrow>concat hx. (cmod z)\<^sup>2) + (\<Sum>z\<leftarrow>concat hy. (cmod z)\<^sup>2)
                 + (\<Sum>z\<leftarrow>concat hz. (cmod z)\<^sup>2)) \<and>
        ((\<forall>z \<in> set (concat ex) \<union> set (concat ey) \<union> set (concat ez). z = 0) \<longrightarrow>
           np_sum np [energy np ex, energy np ey, energy np ez] = Fin 0 \<and>
           take 3 (ovs ! i) = [NaN, NaN, NaN]) \<and>
        ((\<forall>z \<in> set (concat hx) \<union> set (concat hy) \<union> set (concat hz). z = 0) \<longrightarrow>
           np_sum np [energy np hx, energy np hy, energy np hz] = Fin 0 \<and>
           drop 3 (ovs ! i) = [NaN, NaN, NaN])"
    unfolding tk dr
    using zero [of ex ey ez] zero [of hx hy hz] pos [of ex ey ez] pos [of hx hy hz]
    by blast
  from ret ov lo form body show ?thesis by blast
qed

theorem overlaps_need_positive_energy_witness:
  "overlaps (snd (fv_solve ideal_numpy lenient_fv_new demo_fv_solve demo_fv 2 (3 / 2))) =
     Some [[NaN, NaN, NaN, NaN, NaN, NaN]] \<and>
   np_sum ideal_numpy [energy ideal_numpy [[0]], energy ideal_numpy [[0]], energy ideal_numpy [[0]]]
     = Fin 0 \<and>
   0 < (\<Sum>z\<leftarrow>concat [[1, 1], [1, 1]]. (cmod z)\<^sup>2) + (\<Sum>z\<leftarrow>concat [[1, 0], [0, 0]]. (cmod z)\<^sup>2)
         + (\<Sum>z\<leftarrow>concat [[2, 1], [0, 0 :: complex]]. (cmod z)\<^sup>2)"
proof -
  let ?res = "\<lparr>res_neff = [1], res_modes = [mk_mode 0 0 0 0 0 0]\<rparr>"
  let ?big = "\<lparr>res_neff = [1],
      res_modes = [grid_mode [[1, 1], [1, 1]] [[1, 0], [0, 0]] [[2, 1], [0, 0]]
                             [[3, 0], [0, 1]] [[0, 0], [0, 0]] [[\<i>, \<i>], [2, 2]]]\<rparr>"
  have new: "lenient_fv_new (3 / 2) 2 (boundary demo_fv) = Inr (3 / 2, 2)"
    by (simp add: lenient_fv_new_def)
  have run: "demo_fv_solve (3 / 2, 2) (n_eigs demo_fv) (tol demo_fv) (n_eff_guess demo_fv)
      (initial_mode_guess demo_fv) = Inr ?res"
    by (simp add: demo_fv_solve_def)
  have flds: "\<forall>m \<in> set (res_modes ?res).
      {''Ex'', ''Ey'', ''Ez'', ''Hx'', ''Hy'', ''Hz''} \<subseteq> dom (mode_fields m)"
    by (simp add: mk_mode_def grid_mode_def)
  have i: "0 < length (res_modes ?res)" by simp
  have f: "mode_fields (res_modes ?res ! 0) ''Ex'' = Some [[0]]"
    "mode_fields (res_modes ?res ! 0) ''Ey'' = Some [[0]]"
    "mode_fields (res_modes ?res ! 0) ''Ez'' = Some [[0]]"
    "mode_fields (res_modes ?res ! 0) ''Hx'' = Some [[0]]"
    "mode_fields (res_modes ?res ! 0) ''Hy'' = Some [[0]]"
    "mode_fields (res_modes ?res ! 0) ''Hz'' = Some [[0]]"
    by (simp_all add: mk_mode_def grid_mode_def)
  from overlaps_need_positive_energy
    [where ms_new = lenient_fv_new and ms_solve = demo_fv_solve and np = ideal_numpy,
      OF new run flds i f]
  obtain r self' ovs where
    ret: "fv_solve ideal_numpy lenient_fv_new demo_fv_solve demo_fv 2 (3 / 2) = (Inr r, self')"
    and ov: "overlaps self' = Some ovs" and lo: "length ovs = length (res_modes ?res)"
    and body: "ieee_special_cases ideal_numpy \<longrightarrow>
        ((\<exists>v \<in> set (take 3 (ovs ! 0)). \<exists>x. v = Fin x) \<longrightarrow>
           np_sum ideal_numpy [energy ideal_numpy [[0]], energy ideal_numpy [[0]],
             energy ideal_numpy [[0]]] \<noteq> Fin 0 \<and>
           0 < (\<Sum>z\<leftarrow>concat [[0 :: complex]]. (cmod z)\<^sup>2) + (\<Sum>z\<leftarrow>concat [[0 :: complex]]. (cmod z)\<^sup>2)
                 + (\<Sum>z\<leftarrow>concat [[0 :: complex]]. (cmod z)\<^sup>2)) \<and>
        ((\<exists>v \<in> set (drop 3 (ovs ! 0)). \<exists>x. v = Fin x) \<longrightarrow>
           np_sum ideal_numpy [energy ideal_numpy [[0]], energy ideal_numpy [[0]],
             energy ideal_numpy [[0]]] \<noteq> Fin 0 \<and>
           0 < (\<Sum>z\<leftarrow>concat [[0 :: complex]]. (cmod z)\<^sup>2) + (\<Sum>z\<leftarrow>concat [[0 :: complex]]. (cmod z)\<^sup>2)
                 + (\<Sum>z\<leftarrow>concat [[0 :: complex]]. (cmod z)\<^sup>2)) \<and>
        ((\<forall>z \<in> set (concat [[0 :: complex]]) \<union> set (concat [[0]]) \<union> set (concat [[0]]). z = 0) \<longrightarrow>
           np_sum ideal_numpy [energy ideal_numpy [[0]], energy ideal_numpy [[0]],
             energy ideal_numpy [[0]]] = Fin 0 \<and>
           take 3 (ovs ! 0) = [NaN, NaN, NaN]) \<and>
        ((\<forall>z \<in> set (concat [[0 :: complex]]) \<union> set (concat [[0]]) \<union> set (concat [[0]]). z = 0) \<longrightarrow>
           np_sum ideal_numpy [energy ideal_numpy [[0]], energy ideal_numpy [[0]],
             energy ideal_numpy [[0]]] = Fin 0 \<and>
           drop 3 (ovs ! 0) = [NaN, NaN, NaN])"
    by blast
  have z: "\<forall>z \<in> set (concat [[0 :: complex]]) \<union> set (concat [[0]]) \<union> set (concat [[0]]). z = 0"
    by simp
  from body ideal_numpy_special_cases z
  have tot: "np_sum ideal_numpy [energy ideal_numpy [[0]], energy ideal_numpy [[0]],
             energy ideal_numpy [[0]]] = Fin 0"
    and tk: "take 3 (ovs ! 0) = [NaN, NaN, NaN]" and dr: "drop 3 (ovs ! 0) = [NaN, NaN, NaN]"
    by blast+
  have "ovs ! 0 = take 3 (ovs ! 0) @ drop 3 (ovs ! 0)" by simp
  with tk dr have o0: "ovs ! 0 = [NaN, NaN, NaN, NaN, NaN, NaN]" by simp
  from lo have "length ovs = 1" by simp
  with o0 have o: "ovs = [[NaN, NaN, NaN, NaN, NaN, NaN]]" by (cases ovs) auto
  have new3: "lenient_fv_new (3 / 2) 3 (boundary demo_fv) = Inr (3 / 2, 3)"
    by (simp add: lenient_fv_new_def)
  have run3: "demo_fv_solve (3 / 2, 3) (n_eigs demo_fv) (tol demo_fv) (n_eff_guess demo_fv)
      (initial_mode_guess demo_fv) = Inr ?big"
    by (simp add: demo_fv_solve_def)
  have flds3: "\<forall>m \<in> set (res_modes ?big).
      {''Ex'', ''Ey'', ''Ez'', ''Hx'', ''Hy'', ''Hz''} \<subseteq> dom (mode_fields m)"
    by (simp add: grid_mode_def)
  have i3: "0 < length (res_modes ?big)" by simp
  have f3: "mode_fields (res_modes ?big ! 0) ''Ex'' = Some [[1, 1], [1, 1]]"
    "mode_fields (res_modes ?big ! 0) ''Ey'' = Some [[1, 0], [0, 0]]"
    "mode_fields (res_modes ?big ! 0) ''Ez'' = Some [[2, 1], [0, 0]]"
    "mode_fields (res_modes ?big ! 0) ''Hx'' = Some [[3, 0], [0, 1]]"
    "mode_fields (res_modes ?big ! 0) ''Hy'' = Some [[0, 0], [0, 0]]"
    "mode_fields (res_modes ?big ! 0) ''Hz'' = Some [[\<i>, \<i>], [2, 2]]"
    by (simp_all add: grid_mode_def)
  have ovs3: "overlaps (snd (fv_solve ideal_numpy lenient_fv_new demo_fv_solve demo_fv 3 (3 / 2)))
      = Some [[Fin 40, Fin 10, Fin 50, Fin 50, Fin 0, Fin 50]]"
    by (simp add: fv_eval_defs demo_defs Let_def)
  from overlaps_need_positive_energy
    [where ms_new = lenient_fv_new and ms_solve = demo_fv_solve and np = ideal_numpy,
      OF new3 run3 flds3 i3 f3]
  obtain r3 self3 ovs_b where
    ret3: "fv_solve ideal_numpy lenient_fv_new demo_fv_solve demo_fv 3 (3 / 2) = (Inr r3, self3)"
    and ov3: "overlaps self3 = Some ovs_b"
    and body3: "ieee_special_cases ideal_numpy \<longrightarrow>
        ((\<exists>v \<in> set (take 3 (ovs_b ! 0)). \<exists>x. v = Fin x) \<longrightarrow>
           np_sum ideal_numpy [energy ideal_numpy [[1, 1], [1, 1]],
             energy ideal_numpy [[1, 0], [0, 0]], energy ideal_numpy [[2, 1], [0, 0]]] \<noteq> Fin 0 \<and>
           0 < (\<Sum>z\<leftarrow>concat [[1, 1], [1, 1]]. (cmod z)\<^sup>2)
                 + (\<Sum>z\<leftarrow>concat [[1, 0], [0, 0]]. (cmod z)\<^sup>2)
                 + (\<Sum>z\<leftarrow>concat [[2, 1], [0, 0 :: complex]]. (cmod z)\<^sup>2))"
    by blast
  from ret3 ov3 ovs3 have "ovs_b = [[Fin 40, Fin 10, Fin 50, Fin 50, Fin 0, Fin 50]]" by simp
  then have "\<exists>v \<in> set (take 3 (ovs_b ! 0)). \<exists>x. v = Fin x" by simp
  with body3 ideal_numpy_special_cases
  have p3: "0 < (\<Sum>z\<leftarrow>concat [[1, 1], [1, 1]]. (cmod z)\<^sup>2)
                 + (\<Sum>z\<leftarrow>concat [[1, 0], [0, 0]]. (cmod z)\<^sup>2)
                 + (\<Sum>z\<leftarrow>concat [[2, 1], [0, 0 :: complex]]. (cmod z)\<^sup>2)"
    by blast
  from ret ov o have "overlaps (snd (fv_solve ideal_numpy lenient_fv_new demo_fv_solve demo_fv 2 (3 / 2)))
      = Some [[NaN, NaN, NaN, NaN, NaN, NaN]]" by simp
  with tot p3 show ?thesis by blast
qed

end
